(* ===== verification/Prelude.thy ===== *)
theory Prelude
  imports Complex_Main
begin

text \<open>
  Shared vocabulary of the development: the names of the model's basic types, the
  Python string and list helpers the services use (\<open>str.join\<close>, slicing,
  floor division), the collection of facts the component proofs share, and the
  generic list lemmas behind them.
\<close>

section \<open>Basic types\<close>

text \<open>
  Identifiers of the source are Python strings: user (tenant) ids, chat ids,
  message ids, book ids and annotation ids. Timestamps are seconds since the
  epoch: the services serialise them with \<open>strftime("%Y-%m-%dT%H:%M:%SZ")\<close>,
  so one second is the resolution the store ever sees.
\<close>

type_synonym tenant = string
type_synonym chat_id = string
type_synonym book_id = string
type_synonym timestamp = int

named_theorems model_simps \<open>evaluation rules of the model's definitions\<close>

section \<open>Python string helpers\<close>

text \<open>\<open>sep.join(xs)\<close>.\<close>

fun join :: "string \<Rightarrow> string list \<Rightarrow> string" where
  "join sep [] = []"
| "join sep [x] = x"
| "join sep (x # y # zs) = x @ sep @ join sep (y # zs)"

text \<open>\<open>len(text) // 4\<close>: Python floor division of a non-negative length.\<close>

definition quarter_len :: "'a list \<Rightarrow> nat" where
  "quarter_len xs = length xs div 4"

section \<open>Generic lemmas\<close>

lemma join_append_single:
  "xs \<noteq> [] \<Longrightarrow> join sep (xs @ [y]) = join sep xs @ sep @ y"
proof (induction sep xs rule: join.induct)
  case (1 sep)
  then show ?case by simp
next
  case (2 sep x)
  then show ?case by simp
next
  case (3 sep x y zs)
  then show ?case by simp
qed

lemma length_join:
  "xs \<noteq> [] \<Longrightarrow>
   length (join sep xs) = sum_list (map length xs) + (length xs - 1) * length sep"
  by (induction sep xs rule: join.induct) (auto simp: algebra_simps)

lemma join_two [simp]: "join sep [x, y] = x @ sep @ y"
  by simp

lemma join_three [simp]: "join sep [x, y, z] = x @ sep @ y @ sep @ z"
  by simp

lemma prefix_join_Cons:
  "\<exists>r. join sep (x # xs) = x @ r"
  by (cases xs) auto

lemma suffix_join_snoc:
  "\<exists>r. join sep (xs @ [y]) = r @ y"
proof (cases xs)
  case Nil
  then show ?thesis by simp
next
  case (Cons a as)
  then show ?thesis using join_append_single [of xs sep y] by auto
qed

lemma quarter_len_append:
  "quarter_len xs + quarter_len ys \<le> quarter_len (xs @ ys)"
  by (simp add: quarter_len_def div_add1_eq [symmetric] add_le_mono div_le_mono)

lemma filter_take_sub:
  "set (take n (filter P xs)) \<subseteq> {x \<in> set xs. P x}"
  by (auto dest: in_set_takeD)

lemma sort_key_filter_set:
  "set (sort_key f (filter P xs)) = {x \<in> set xs. P x}"
  by auto

lemma join_Cons_snoc:
  "join sep (a # xs @ [z]) = a @ sep @ (if xs = [] then [] else join sep xs @ sep) @ z"
proof (cases xs)
  case Nil
  then show ?thesis by simp
next
  case (Cons y ys)
  have "join sep (a # xs @ [z]) = join sep (a # xs) @ sep @ z"
    using join_append_single [of "a # xs" sep z] by simp
  also have "join sep (a # xs) = a @ sep @ join sep xs"
    using Cons by simp
  finally show ?thesis using Cons by simp
qed


lemma sum_list_map_le:
  "(\<And>x. x \<in> set xs \<Longrightarrow> f x \<le> c) \<Longrightarrow> sum_list (map f xs) \<le> length xs * (c :: nat)"
  by (induction xs) (auto simp: add_mono)

end
