(* ===== verification/Store.thy ===== *)
theory Store
  imports Prelude "HOL-Library.Option_ord"
begin

text \<open>
  The remote vector database the memory stores talk to (Weaviate, reached through
  \<open>weaviate.WeaviateClient\<close>), as far as the code of
  \<open>src/apps/api/src/infrastructure/memory/\<close> uses it: named collections, each
  multi-tenant with automatic tenant creation, holding objects with a property
  dictionary and a vector; exact-match filters; \<open>fetch_objects\<close> with a limit and
  an optional ascending sort on a date property; \<open>near_vector\<close> ranked by
  increasing distance; \<open>data.update\<close> by uuid (properties merged, vector
  replaced); \<open>data.delete_many\<close> by filter. This is a library the sources call,
  modelled from its documented behaviour and from spec section 4.3; the wrappers in
  the following theories are the repository's code.
\<close>

section \<open>Objects, properties and filters\<close>

text \<open>Property values of the three schemas: text, bool and date (seconds).\<close>

datatype pval = PText string | PBool bool | PDate timestamp

type_synonym props = "string \<rightharpoonup> pval"

record 'v obj =
  obj_uuid :: nat
  obj_props :: props
  obj_vec :: 'v

text \<open>
  \<open>Filter.by_property(p).equal(v)\<close>, \<open>.contains_any(vs)\<close> and \<open>&\<close>. A filter on
  a property the object does not carry never matches: Weaviate does not match a
  missing (null) value with \<open>equal\<close>.
\<close>

datatype filter =
    Equal string pval
  | ContainsAny string "pval list"
  | FAnd filter filter

fun matches :: "filter \<Rightarrow> props \<Rightarrow> bool" where
  "matches (Equal p v) m = (m p = Some v)"
| "matches (ContainsAny p vs) m = (case m p of Some v \<Rightarrow> v \<in> set vs | None \<Rightarrow> False)"
| "matches (FAnd f g) m = (matches f m \<and> matches g m)"

text \<open>The sort key of \<open>Sorting().by_property(p)\<close>: a date, missing values first.\<close>

definition date_key :: "string \<Rightarrow> props \<Rightarrow> timestamp option" where
  "date_key p m = (case m p of Some (PDate d) \<Rightarrow> Some d | _ \<Rightarrow> None)"

section \<open>The store\<close>

text \<open>
  \<open>objects c t\<close> lists the objects of tenant \<open>t\<close> in collection \<open>c\<close> in
  insertion order, the store-native order that breaks ties of a ranking.
  \<open>next_uuid\<close> stands for the fresh uuid the server generates on insert.
\<close>

text \<open>
  Collection configuration, as the client's \<open>weaviate.classes.config\<close> builds it:
  \<open>Property(name, data_type, description, index_searchable)\<close> (the optional
  arguments \<open>None\<close> when not given), \<open>Configure.multi_tenancy(...)\<close>, and the
  collection's name, vectorizer and properties.
\<close>

datatype data_type = DT_TEXT | DT_BOOL | DT_DATE

record property_def =
  prop_name :: string
  prop_data_type :: data_type
  prop_description :: "string option"
  prop_index_searchable :: "bool option"

record multi_tenancy_config =
  mt_enabled :: bool
  mt_auto_tenant_activation :: bool
  mt_auto_tenant_creation :: bool

record collection_config =
  cfg_name :: string
  cfg_multi_tenancy :: multi_tenancy_config
  cfg_vectorizer :: "string option"
  cfg_properties :: "property_def list"

record 'v store =
  collections :: "string set"
  schemas :: "string \<Rightarrow> collection_config option"
  tenants :: "string \<Rightarrow> tenant set"
  objects :: "string \<Rightarrow> tenant \<Rightarrow> 'v obj list"
  next_uuid :: nat

datatype store_error =
    NoCollection string
  | CollectionExists string
  | NoObject nat
  | Unavailable

definition empty_store :: "'v store" where
  "empty_store = \<lparr>collections = {}, schemas = Map.empty, tenants = (\<lambda>_. {}), objects = (\<lambda>_ _. []), next_uuid = 0\<rparr>"

text \<open>Replace the object list of one tenant of one collection.\<close>

definition set_objects :: "string \<Rightarrow> tenant \<Rightarrow> 'v obj list \<Rightarrow> 'v store \<Rightarrow> 'v store" where
  "set_objects c t os s = s\<lparr>objects := (objects s)(c := (objects s c)(t := os))\<rparr>"

section \<open>Operations\<close>

text \<open>\<open>client.collections.exists(name)\<close> and \<open>client.collections.create(name, ...)\<close>.\<close>

definition coll_exists :: "string \<Rightarrow> 'v store \<Rightarrow> bool" where
  "coll_exists c s = (c \<in> collections s)"

definition coll_create :: "collection_config \<Rightarrow> 'v store \<Rightarrow> store_error + 'v store" where
  "coll_create cfg s =
     (if cfg_name cfg \<in> collections s then Inl (CollectionExists (cfg_name cfg))
      else Inr (s\<lparr>collections := insert (cfg_name cfg) (collections s),
                  schemas := (schemas s)(cfg_name cfg \<mapsto> cfg)\<rparr>))"

text \<open>
  \<open>collection.with_tenant(t).data.insert(properties, vector)\<close>: the tenant is
  created on first use (\<open>auto_tenant_creation=True\<close>); returns the new uuid.
\<close>

definition insert_obj ::
  "string \<Rightarrow> tenant \<Rightarrow> props \<Rightarrow> 'v \<Rightarrow> 'v store \<Rightarrow> store_error + nat \<times> 'v store" where
  "insert_obj c t ps v s =
     (if c \<notin> collections s then Inl (NoCollection c)
      else let u = next_uuid s;
               ob = \<lparr>obj_uuid = u, obj_props = ps, obj_vec = v\<rparr>;
               s1 = set_objects c t (objects s c t @ [ob]) s
           in Inr (u, s1\<lparr>tenants := (tenants s)(c := insert t (tenants s c)),
                        next_uuid := Suc u\<rparr>))"

text \<open>
  \<open>query.fetch_objects(filters, limit, sort)\<close>: the matching objects, sorted
  ascending on the date property when a sort is given (stably, so ties keep the
  insertion order), cut at \<open>limit\<close>.
\<close>

definition fetch_objects ::
  "string \<Rightarrow> tenant \<Rightarrow> filter \<Rightarrow> nat \<Rightarrow> string option \<Rightarrow> 'v store \<Rightarrow> store_error + 'v obj list" where
  "fetch_objects c t f limit srt s =
     (if c \<notin> collections s then Inl (NoCollection c)
      else let hits = filter (\<lambda>ob. matches f (obj_props ob)) (objects s c t);
               sorted_hits = (case srt of None \<Rightarrow> hits
                                | Some p \<Rightarrow> sort_key (\<lambda>ob. date_key p (obj_props ob)) hits)
           in Inr (take limit sorted_hits))"

text \<open>
  \<open>query.near_vector(near_vector, filters, limit)\<close>: the matching objects paired with
  their distance to the query under the collection's distance \<open>metric\<close>, best match
  first.
\<close>

definition near_vector ::
  "('v \<Rightarrow> 'v \<Rightarrow> real) \<Rightarrow> string \<Rightarrow> tenant \<Rightarrow> 'v \<Rightarrow> filter \<Rightarrow> nat \<Rightarrow> 'v store \<Rightarrow>
   store_error + ('v obj \<times> real) list" where
  "near_vector metric c t q f limit s =
     (if c \<notin> collections s then Inl (NoCollection c)
      else let hits = filter (\<lambda>ob. matches f (obj_props ob)) (objects s c t)
           in Inr (take limit (sort_key snd (map (\<lambda>ob. (ob, metric q (obj_vec ob))) hits))))"

text \<open>
  \<open>data.update(uuid, properties, vector)\<close>: merge the given properties into the
  object's, replace the vector when one is given; an unknown uuid is an error.
\<close>

definition update_props :: "nat \<Rightarrow> props \<Rightarrow> 'v option \<Rightarrow> 'v obj \<Rightarrow> 'v obj" where
  "update_props u ps vo ob =
     (if obj_uuid ob = u
      then ob\<lparr>obj_props := obj_props ob ++ ps,
             obj_vec := (case vo of None \<Rightarrow> obj_vec ob | Some v \<Rightarrow> v)\<rparr>
      else ob)"

definition update_obj ::
  "string \<Rightarrow> tenant \<Rightarrow> nat \<Rightarrow> props \<Rightarrow> 'v option \<Rightarrow> 'v store \<Rightarrow> store_error + 'v store" where
  "update_obj c t u ps vo s =
     (if c \<notin> collections s then Inl (NoCollection c)
      else if u \<notin> obj_uuid ` set (objects s c t) then Inl (NoObject u)
      else Inr (set_objects c t (map (update_props u ps vo) (objects s c t)) s))"

text \<open>\<open>data.delete_many(where)\<close>: removing nothing is no error.\<close>

definition delete_many :: "string \<Rightarrow> tenant \<Rightarrow> filter \<Rightarrow> 'v store \<Rightarrow> store_error + 'v store" where
  "delete_many c t f s =
     (if c \<notin> collections s then Inl (NoCollection c)
      else Inr (set_objects c t (filter (\<lambda>ob. \<not> matches f (obj_props ob)) (objects s c t)) s))"

text \<open>\<open>collection.tenants.exists(t)\<close> and \<open>collection.tenants.create(t)\<close>.\<close>

definition tenant_create :: "string \<Rightarrow> tenant \<Rightarrow> 'v store \<Rightarrow> 'v store" where
  "tenant_create c t s = s\<lparr>tenants := (tenants s)(c := insert t (tenants s c))\<rparr>"

text \<open>
  Well-formedness of a store: within a tenant of a collection uuids are distinct,
  and every uuid is below the next fresh one.
\<close>

definition wf_store :: "'v store \<Rightarrow> bool" where
  "wf_store s \<longleftrightarrow>
     (\<forall>c t. distinct (map obj_uuid (objects s c t)) \<and>
            (\<forall>ob \<in> set (objects s c t). obj_uuid ob < next_uuid s))"

section \<open>Evaluation and frame lemmas\<close>

lemma objects_set_objects [simp]:
  "objects (set_objects c t os s) c' t' = (if c' = c \<and> t' = t then os else objects s c' t')"
  by (simp add: set_objects_def)

lemma collections_set_objects [simp]:
  "collections (set_objects c t os s) = collections s"
  by (simp add: set_objects_def)

lemma tenants_set_objects [simp]:
  "tenants (set_objects c t os s) = tenants s"
  by (simp add: set_objects_def)

lemma next_uuid_set_objects [simp]:
  "next_uuid (set_objects c t os s) = next_uuid s"
  by (simp add: set_objects_def)

lemma insert_obj_Inr:
  "insert_obj c t ps v s = Inr (u, s') \<Longrightarrow>
   c \<in> collections s \<and> u = next_uuid s \<and> collections s' = collections s \<and>
   next_uuid s' = Suc (next_uuid s) \<and>
   objects s' = (objects s)(c := (objects s c)(t := objects s c t @
                   [\<lparr>obj_uuid = u, obj_props = ps, obj_vec = v\<rparr>]))"
  by (auto simp: insert_obj_def Let_def set_objects_def split: if_splits)

lemma insert_obj_other:
  "insert_obj c t ps v s = Inr (u, s') \<Longrightarrow> (c', t') \<noteq> (c, t) \<Longrightarrow>
   objects s' c' t' = objects s c' t'"
  by (auto dest!: insert_obj_Inr)

lemma update_obj_other:
  "update_obj c t u ps vo s = Inr s' \<Longrightarrow> (c', t') \<noteq> (c, t) \<Longrightarrow>
   objects s' c' t' = objects s c' t'"
  by (auto simp: update_obj_def split: if_splits)

lemma update_obj_Inr:
  "update_obj c t u ps vo s = Inr s' \<Longrightarrow>
   s' = set_objects c t (map (update_props u ps vo) (objects s c t)) s"
  by (auto simp: update_obj_def split: if_splits)

lemma delete_many_other:
  "delete_many c t f s = Inr s' \<Longrightarrow> (c', t') \<noteq> (c, t) \<Longrightarrow>
   objects s' c' t' = objects s c' t'"
  by (auto simp: delete_many_def split: if_splits)

lemma fetch_objects_subset:
  "fetch_objects c t f limit srt s = Inr os \<Longrightarrow>
   set os \<subseteq> {ob \<in> set (objects s c t). matches f (obj_props ob)}"
  by (auto simp: fetch_objects_def Let_def dest: in_set_takeD split: if_splits option.splits)

lemma near_vector_subset:
  "near_vector metric c t q f limit s = Inr hs \<Longrightarrow>
   fst ` set hs \<subseteq> {ob \<in> set (objects s c t). matches f (obj_props ob)}"
  by (auto simp: near_vector_def Let_def dest!: in_set_takeD split: if_splits)

lemma sorted_take_sort_key_snd:
  "sorted (map snd (take n (sort_key snd xs)))"
proof -
  have "sorted (map snd (sort_key snd xs))" by (rule sorted_sort_key)
  then have "sorted (take n (map snd (sort_key snd xs)))" by simp
  then show ?thesis by (simp add: take_map)
qed

lemma near_vector_sorted:
  "near_vector metric c t q f limit s = Inr hs \<Longrightarrow> sorted (map snd hs)"
  by (auto simp: near_vector_def Let_def sorted_take_sort_key_snd split: if_splits)

lemma near_vector_length:
  "near_vector metric c t q f limit s = Inr hs \<Longrightarrow> length hs \<le> limit"
  by (auto simp: near_vector_def Let_def split: if_splits)

lemma fetch_objects_length:
  "fetch_objects c t f limit srt s = Inr os \<Longrightarrow> length os \<le> limit"
  by (auto simp: fetch_objects_def Let_def split: if_splits)

lemma update_props_uuid [simp]: "obj_uuid (update_props u ps vo ob) = obj_uuid ob"
  by (simp add: update_props_def)

lemma update_props_idem:
  "update_props u ps None (update_props u ps None ob) = update_props u ps None ob"
proof -
  have "(m ++ ps) ++ ps = m ++ ps" for m :: props
    by (rule ext) (simp add: map_add_def split: option.splits)
  then show ?thesis by (simp add: update_props_def)
qed

section \<open>Well-formedness\<close>

lemma wf_store_empty: "wf_store empty_store"
  by (simp add: wf_store_def empty_store_def)

lemma wf_store_uuid_inj:
  "wf_store s \<Longrightarrow> ob \<in> set (objects s c t) \<Longrightarrow> ob' \<in> set (objects s c t) \<Longrightarrow>
   obj_uuid ob = obj_uuid ob' \<Longrightarrow> ob = ob'"
  unfolding wf_store_def by (metis distinct_map inj_onD)

lemma wf_store_insert_obj:
  assumes "wf_store s" and "insert_obj c t ps v s = Inr (u, s')"
  shows "wf_store s'"
proof -
  from insert_obj_Inr [OF assms(2)] have
    u: "u = next_uuid s" and nx: "next_uuid s' = Suc (next_uuid s)" and
    os: "objects s' = (objects s)(c := (objects s c)(t := objects s c t @
                   [\<lparr>obj_uuid = u, obj_props = ps, obj_vec = v\<rparr>]))"
    by auto
  have "\<forall>ob \<in> set (objects s c t). obj_uuid ob < next_uuid s"
    using assms(1) by (simp add: wf_store_def)
  then have fresh: "u \<notin> set (map obj_uuid (objects s c t))"
    using u by auto
  show ?thesis
    using assms(1) fresh unfolding wf_store_def os nx u
    by (auto simp: less_Suc_eq)
qed

lemma wf_store_set_objects_map:
  assumes "wf_store s" and "\<And>ob. obj_uuid (g ob) = obj_uuid ob"
  shows "wf_store (set_objects c t (map g (objects s c t)) s)"
proof -
  have eq: "map (obj_uuid \<circ> g) (objects s c t) = map obj_uuid (objects s c t)"
    by (simp add: comp_def assms(2))
  show ?thesis using assms unfolding wf_store_def by (auto simp: eq)
qed

lemma wf_store_update_obj:
  "wf_store s \<Longrightarrow> update_obj c t u ps vo s = Inr s' \<Longrightarrow> wf_store s'"
  by (auto dest!: update_obj_Inr intro: wf_store_set_objects_map)

lemma wf_store_delete_many:
  assumes "wf_store s" and "delete_many c t f s = Inr s'"
  shows "wf_store s'"
proof -
  have s': "s' = set_objects c t (filter (\<lambda>ob. \<not> matches f (obj_props ob)) (objects s c t)) s"
    using assms(2) by (auto simp: delete_many_def split: if_splits)
  have "distinct (map obj_uuid (filter P xs))" if "distinct (map obj_uuid xs)"
    for P and xs :: "'v obj list"
    using that by (induction xs) auto
  then show ?thesis using assms(1) unfolding s' wf_store_def by auto
qed

lemma fetch_objects_cong:
  "collections s' = collections s \<Longrightarrow>
   filter (\<lambda>ob. matches f (obj_props ob)) (objects s' c t) =
   filter (\<lambda>ob. matches f (obj_props ob)) (objects s c t) \<Longrightarrow>
   fetch_objects c t f limit srt s' = fetch_objects c t f limit srt s"
  by (simp add: fetch_objects_def)

lemma near_vector_cong:
  "collections s' = collections s \<Longrightarrow> objects s' c t = objects s c t \<Longrightarrow>
   near_vector metric c t q f limit s' = near_vector metric c t q f limit s"
  by (simp add: near_vector_def)

end
