(* ===== verification/Retry.thy ===== *)
theory Retry
  imports Prelude "HOL-Library.While_Combinator"
begin

text \<open>
  The resilient store client: \<open>retry_on_error\<close> of
  \<open>src/apps/api/src/infrastructure/memory/retry_decorator.py\<close>.
  The decorated call is an operation on a state \<open>'s\<close> (the remote store, or a
  counter of attempts) that either raises (\<open>Inl e\<close>) or returns (\<open>Inr r\<close>).
  The loop keeps the decorator's variables \<open>retries\<close> and \<open>delay\<close>; the result
  records the call's outcome, the delays slept, in order, and the final state.
\<close>

section \<open>The retry loop\<close>

type_synonym ('s, 'e, 'a) operation = "'s \<Rightarrow> ('e + 'a) \<times> 's"

text \<open>
  One iteration of \<open>while True\<close>: call the operation; on success return; on an
  exception increment \<open>retries\<close>, re-raise when it exceeds \<open>max_retries\<close>,
  otherwise sleep \<open>delay\<close> and multiply it by \<open>backoff_factor\<close>.
  What decreases is \<open>max_retries + 1 - retries\<close>.
\<close>

function retry_loop ::
  "nat \<Rightarrow> int \<Rightarrow> ('s, 'e, 'a) operation \<Rightarrow> nat \<Rightarrow> int \<Rightarrow> 's \<Rightarrow> ('e + 'a) \<times> int list \<times> 's"
where
  "retry_loop max_retries backoff f retries delay s =
     (case f s of
        (Inr r, s') \<Rightarrow> (Inr r, [], s')
      | (Inl e, s') \<Rightarrow>
          (if Suc retries > max_retries then (Inl e, [], s')
           else (case retry_loop max_retries backoff f (Suc retries) (delay * backoff) s' of
                   (res, sleeps, s'') \<Rightarrow> (res, delay # sleeps, s''))))"
  by pat_completeness auto
termination
  by (relation "measure (\<lambda>(m, b, f, r, d, s). Suc m - r)") auto

declare retry_loop.simps [simp del]

text \<open>\<open>@retry_on_error(max_retries, initial_delay, backoff_factor)\<close> applied to \<open>f\<close>.\<close>

definition retry_on_error ::
  "nat \<Rightarrow> int \<Rightarrow> int \<Rightarrow> ('s, 'e, 'a) operation \<Rightarrow> 's \<Rightarrow> ('e + 'a) \<times> int list \<times> 's"
where
  "retry_on_error max_retries initial_delay backoff_factor f s =
     retry_loop max_retries backoff_factor f 0 initial_delay s"

text \<open>
  An operation that fails on its first \<open>n\<close> calls and then returns \<open>v\<close>: its state
  counts the calls made so far, and \<open>err k\<close> is the exception of call \<open>k\<close>.
\<close>

definition flaky :: "nat \<Rightarrow> (nat \<Rightarrow> 'e) \<Rightarrow> 'a \<Rightarrow> (nat, 'e, 'a) operation" where
  "flaky n err v k = (if k < n then (Inl (err k), Suc k) else (Inr v, Suc k))"

text \<open>The delays slept by the first \<open>k\<close> retries: \<open>initial * backoff ^ i\<close>.\<close>

definition backoff_delays :: "int \<Rightarrow> int \<Rightarrow> nat \<Rightarrow> int list" where
  "backoff_delays initial backoff k = map (\<lambda>i. initial * backoff ^ i) [0..<k]"

section \<open>The loop as written: \<open>while True\<close>\<close>

text \<open>
  The same decorator with the loop kept as a loop: the state of \<open>wrapper\<close> is
  \<open>(retries, delay, sleeps, s, out)\<close>, where \<open>out\<close> is \<open>None\<close> while the loop runs and
  becomes the returned value or the re-raised exception.  \<open>retry_step\<close> is one pass of
  the body (lines 21--30), \<open>retry_while\<close> the whole \<open>wrapper\<close> as a \<open>while_option\<close>,
  whose \<open>None\<close> would mean that the loop never exits.
\<close>

type_synonym ('s, 'e, 'a) retry_state = "nat \<times> int \<times> int list \<times> 's \<times> ('e + 'a) option"

definition retry_step ::
  "nat \<Rightarrow> int \<Rightarrow> ('s, 'e, 'a) operation \<Rightarrow> ('s, 'e, 'a) retry_state \<Rightarrow> ('s, 'e, 'a) retry_state"
where
  "retry_step max_retries backoff_factor f = (\<lambda>(retries, delay, sleeps, s, out).
     (case f s of
        (Inr r, s') \<Rightarrow> (retries, delay, sleeps, s', Some (Inr r))
      | (Inl e, s') \<Rightarrow>
          if Suc retries > max_retries then (Suc retries, delay, sleeps, s', Some (Inl e))
          else (Suc retries, delay * backoff_factor, sleeps @ [delay], s', None)))"

definition retry_while ::
  "nat \<Rightarrow> int \<Rightarrow> int \<Rightarrow> ('s, 'e, 'a) operation \<Rightarrow> 's \<Rightarrow> (('e + 'a) \<times> int list \<times> 's) option"
where
  "retry_while max_retries initial_delay backoff_factor f s =
     map_option (\<lambda>(_, _, sleeps, s', out). (the out, sleeps, s'))
       (while_option (\<lambda>(_, _, _, _, out). out = None) (retry_step max_retries backoff_factor f)
          (0, initial_delay, [], s, None))"

section \<open>Unfolding rules\<close>

lemma retry_loop_Inr:
  "f s = (Inr r, s') \<Longrightarrow> retry_loop m b f k d s = (Inr r, [], s')"
  by (simp add: retry_loop.simps)

lemma retry_loop_Inl_stop:
  "f s = (Inl e, s') \<Longrightarrow> m \<le> k \<Longrightarrow> retry_loop m b f k d s = (Inl e, [], s')"
  by (simp add: retry_loop.simps)

lemma retry_loop_Inl_retry:
  "f s = (Inl e, s') \<Longrightarrow> k < m \<Longrightarrow>
   retry_loop m b f k d s =
     (case retry_loop m b f (Suc k) (d * b) s' of (res, sl, s'') \<Rightarrow> (res, d # sl, s''))"
  by (simp add: retry_loop.simps)

lemma backoff_delays_Suc:
  "backoff_delays d b (Suc k) = d # backoff_delays (d * b) b k"
  by (induction k) (simp_all add: backoff_delays_def algebra_simps)

section \<open>Behaviour on a flaky operation\<close>

text \<open>
  The general statement behind the spec's retry property: started at retry count
  \<open>k\<close> and attempt \<open>a\<close>, with \<open>n\<close> failures left, the loop needs no more
  retries than it has.
\<close>

lemma retry_loop_flaky_success:
  "n - a \<le> m - k \<Longrightarrow> a \<le> n \<Longrightarrow> k \<le> m \<Longrightarrow>
   retry_loop m b (flaky n err v) k d a = (Inr v, backoff_delays d b (n - a), Suc n)"
proof (induction "n - a" arbitrary: a k d)
  case 0
  then have "a = n" by simp
  then show ?case
    by (simp add: retry_loop_Inr flaky_def backoff_delays_def)
next
  case (Suc j)
  then have an: "a < n" and km: "k < m" by auto
  have f: "flaky n err v a = (Inl (err a), Suc a)" using an by (simp add: flaky_def)
  have IH: "retry_loop m b (flaky n err v) (Suc k) (d * b) (Suc a) =
            (Inr v, backoff_delays (d * b) b (n - Suc a), Suc n)"
    using Suc by simp
  have "n - a = Suc (n - Suc a)" using an by simp
  then show ?case
    using retry_loop_Inl_retry [where f = "flaky n err v" and s = a, OF f km] IH
    by (simp add: backoff_delays_Suc)
qed

lemma retry_loop_flaky_failure:
  "m - k < n - a \<Longrightarrow> k \<le> m \<Longrightarrow>
   retry_loop m b (flaky n err v) k d a =
     (Inl (err (a + (m - k))), backoff_delays d b (m - k), Suc (a + (m - k)))"
proof (induction "m - k" arbitrary: a k d)
  case 0
  then have "m = k" and "a < n" by auto
  then show ?case
    by (simp add: retry_loop_Inl_stop flaky_def backoff_delays_def)
next
  case (Suc j)
  then have an: "a < n" and km: "k < m" by auto
  have f: "flaky n err v a = (Inl (err a), Suc a)" using an by (simp add: flaky_def)
  have IH: "retry_loop m b (flaky n err v) (Suc k) (d * b) (Suc a) =
     (Inl (err (Suc a + (m - Suc k))), backoff_delays (d * b) b (m - Suc k),
      Suc (Suc a + (m - Suc k)))"
    using Suc.hyps(1) [where k = "Suc k" and a = "Suc a" and d = "d * b"] Suc.hyps(2) Suc.prems
    by simp
  have "m - k = Suc (m - Suc k)" and "a + (m - k) = Suc a + (m - Suc k)" using km by simp_all
  then show ?case
    using retry_loop_Inl_retry [where f = "flaky n err v" and s = a, OF f km] IH
    by (simp add: backoff_delays_Suc)
qed

lemma retry_loop_sleeps:
  "retry_loop m b f k d s = (res, sl, s') \<Longrightarrow> k \<le> m \<Longrightarrow>
   length sl \<le> m - k \<and> (isl res \<longrightarrow> length sl = m - k)"
proof (induction m b f k d s arbitrary: res sl s' rule: retry_loop.induct)
  case (1 m b f k d s)
  show ?case
  proof (cases "f s")
    case (Pair o1 s1)
    show ?thesis
    proof (cases o1)
      case (Inr r)
      with Pair "1.prems" show ?thesis by (auto simp: retry_loop_Inr)
    next
      case (Inl e)
      show ?thesis
      proof (cases "k < m")
        case False
        with Inl Pair "1.prems" show ?thesis by (simp add: retry_loop_Inl_stop)
      next
        case True
        obtain r2 sl2 s2 where rec: "retry_loop m b f (Suc k) (d * b) s1 = (r2, sl2, s2)"
          by (cases "retry_loop m b f (Suc k) (d * b) s1") auto
        have "length sl2 \<le> m - Suc k \<and> (isl r2 \<longrightarrow> length sl2 = m - Suc k)"
          using "1.IH" [OF Pair [symmetric] Inl _ rec] True by simp
        moreover have "res = r2 \<and> sl = d # sl2 \<and> s' = s2"
          using "1.prems" retry_loop_Inl_retry [of f s e s1 k m b d] Pair Inl True rec by simp
        ultimately show ?thesis using True by auto
      qed
    qed
  qed
qed

text \<open>
  Success under a potential: when every failing call strictly lowers a natural
  number \<open>P\<close> of the state (the transient faults still to come, say), and \<open>P\<close> plus
  the retries already spent is within \<open>max_retries\<close>, the loop returns a success of
  the operation.
\<close>

lemma retry_loop_succeeds:
  "(\<And>s e s'. f s = (Inl e, s') \<Longrightarrow> P s' < (P s :: nat)) \<Longrightarrow> P s + retries \<le> max_retries \<Longrightarrow>
   \<exists>r sleeps s0 s'. retry_loop max_retries backoff f retries delay s = (Inr r, sleeps, s') \<and>
                    f s0 = (Inr r, s')"
proof (induction max_retries backoff f retries delay s rule: retry_loop.induct)
  case (1 max_retries backoff f retries delay s)
  obtain res s' where fs: "f s = (res, s')" by fastforce
  show ?case
  proof (cases res)
    case (Inr r)
    then show ?thesis using fs by (auto simp: retry_loop.simps)
  next
    case (Inl e)
    have lt: "P s' < P s" using "1.prems"(1) fs Inl by blast
    then have ok: "\<not> Suc retries > max_retries" and le: "P s' + Suc retries \<le> max_retries"
      using "1.prems"(2) by linarith+
    have "\<exists>r sleeps s0 s''.
            retry_loop max_retries backoff f (Suc retries) (delay * backoff) s' = (Inr r, sleeps, s'') \<and>
            f s0 = (Inr r, s'')"
      by (rule "1.IH" [OF fs [symmetric] Inl ok]) (use "1.prems"(1) le in auto)
    then obtain r sleeps s0 s'' where
      rec: "retry_loop max_retries backoff f (Suc retries) (delay * backoff) s' = (Inr r, sleeps, s'')"
      and "f s0 = (Inr r, s'')"
      by blast
    then show ?thesis
      using fs Inl ok by (subst retry_loop.simps) auto
  qed
qed

section \<open>The \<open>while\<close> loop and the recursion\<close>


lemma retry_while_halts_aux:
  "\<exists>t. while_option (\<lambda>(_, _, _, _, out). out = None) (retry_step m b f)
              ((0::nat), d, sl, s, None) = Some t"
  apply (rule measure_while_option_Some [where P = "\<lambda>(r, _, _, _, out). out = None \<longrightarrow> r \<le> m"
           and f = "\<lambda>(r, _, _, _, out). (Suc m - r) + (if out = None then 1 else 0)"])
  apply (auto simp: retry_step_def split: prod.splits sum.splits)
  done

section \<open>Properties\<close>

text \<open>
  C14. A call that fails \<open>n\<close> times and then succeeds, retried with
  \<open>max_retries \<ge> n\<close>, returns the success value after exactly \<open>n + 1\<close> calls, having
  slept \<open>initial_delay * backoff_factor ^ i\<close> before retry \<open>i + 1\<close>.
\<close>

theorem retry_on_error_eventually_succeeds:
  assumes "n \<le> max_retries"
  shows "retry_on_error max_retries initial backoff (flaky n err v) 0 =
           (Inr v, backoff_delays initial backoff n, Suc n)"
  using retry_loop_flaky_success [of n 0 max_retries 0] assms
  by (simp add: retry_on_error_def)

theorem retry_on_error_eventually_succeeds_witness:
  "(2::nat) \<le> 3 \<and>
   retry_on_error 3 1 2 (flaky 2 (\<lambda>k. k) ''ok'') 0 = (Inr ''ok'', [1, 2], 3)"
  using retry_on_error_eventually_succeeds [of 2 3 1 2 "\<lambda>k. k" "''ok''"]
  by (simp add: backoff_delays_def numeral_eq_Suc)

text \<open>
  C15. With \<open>max_retries < n\<close> the decorator re-raises the last error, the one of
  call \<open>max_retries\<close>, after exactly \<open>max_retries + 1\<close> calls.
\<close>

theorem retry_on_error_exhausts:
  assumes "max_retries < n"
  shows "retry_on_error max_retries initial backoff (flaky n err v) 0 =
           (Inl (err max_retries), backoff_delays initial backoff max_retries, Suc max_retries)"
  using retry_loop_flaky_failure [of max_retries 0 n 0] assms
  by (simp add: retry_on_error_def)

theorem retry_on_error_exhausts_witness:
  "(2::nat) < 5 \<and>
   retry_on_error 2 1 2 (flaky 5 (\<lambda>k. k) ''ok'') 0 = (Inl 2, [1, 2], 3)"
  using retry_on_error_exhausts [of 2 5 1 2 "\<lambda>k. k" "''ok''"]
  by (simp add: backoff_delays_def numeral_eq_Suc)

text \<open>
  C16. For any operation the decorator sleeps at most \<open>max_retries\<close> times, and it
  raises only after sleeping exactly \<open>max_retries\<close> times: exhausting the retries is
  the only path to an exception.
\<close>

theorem retry_on_error_bounded:
  "retry_on_error max_retries initial backoff f s = (res, sleeps, s') \<Longrightarrow>
   length sleeps \<le> max_retries \<and> (isl res \<longrightarrow> length sleeps = max_retries)"
  using retry_loop_sleeps [of max_retries backoff f 0 initial s res sleeps s']
  by (simp add: retry_on_error_def)

theorem retry_on_error_bounded_witness:
  "retry_on_error 2 1 2 (flaky 5 (\<lambda>k. k) ''ok'') 0 = (Inl 2, [1, 2], 3) \<and>
   isl (Inl 2 :: nat + string) \<and> length [1, 2::int] = 2"
proof -
  have run: "retry_on_error 2 1 2 (flaky 5 (\<lambda>k. k) ''ok'') 0 = (Inl 2, [1, 2], 3)"
    by (simp add: retry_on_error_def retry_loop.simps flaky_def)
  show ?thesis
    using run retry_on_error_bounded [OF run] by simp
qed

text \<open>
  C17. The \<open>while True\<close> loop of \<open>wrapper\<close> exits for every decorated call and every
  \<open>max_retries\<close>: \<open>retries\<close> grows on every failed pass and the loop leaves once it
  passes \<open>max_retries\<close>, so \<open>max_retries + 1 - retries\<close> is a variant.
\<close>

theorem retry_while_halts:
  "\<exists>y. retry_while max_retries initial_delay backoff_factor f s = Some y"
  using retry_while_halts_aux [of max_retries backoff_factor f initial_delay "[]" s]
  by (auto simp: retry_while_def)


end
