(* ===== verification/ChatMemory.thy ===== *)
theory ChatMemory
  imports Store Retry
begin

text \<open>
  The chat-memory store: \<open>ChatMemoryStore\<close> of
  \<open>src/apps/api/src/infrastructure/memory/chat_memory_store.py\<close>, with the constants
  of \<open>BaseVectorStore\<close> (\<open>base_vector_store.py\<close>). Every operation is scoped to
  the tenant named by its \<open>user_id\<close> argument, and every one of them also filters on
  the \<open>user_id\<close> property. Results are the Python dictionaries the methods build:
  the returned properties, the object's uuid as \<open>"id"\<close> and, for searches, the
  distance and the certainty \<open>1 - distance\<close>.
\<close>

section \<open>Constants of BaseVectorStore\<close>

definition CHAT_MEMORY_COLLECTION_NAME :: string where
  "CHAT_MEMORY_COLLECTION_NAME = ''ChatMemory''"

definition BOOK_CONTENT_COLLECTION_NAME :: string where
  "BOOK_CONTENT_COLLECTION_NAME = ''BookContent''"

definition BOOK_ANNOTATION_COLLECTION_NAME :: string where
  "BOOK_ANNOTATION_COLLECTION_NAME = ''BookAnnotation''"

definition TYPE_MESSAGE :: string where
  "TYPE_MESSAGE = ''message''"

definition TYPE_SUMMARY :: string where
  "TYPE_SUMMARY = ''summary''"

lemmas collection_names =
  CHAT_MEMORY_COLLECTION_NAME_def BOOK_CONTENT_COLLECTION_NAME_def
  BOOK_ANNOTATION_COLLECTION_NAME_def TYPE_MESSAGE_def TYPE_SUMMARY_def

section \<open>Result items\<close>

text \<open>
  A search result: \<open>dict(obj.properties)\<close> restricted to the requested
  \<open>return_properties\<close>, \<open>item["id"]\<close> and \<open>item["_additional"]\<close>.
\<close>

record hit =
  hit_props :: props
  hit_id :: nat
  hit_distance :: real
  hit_certainty :: real

definition to_hit :: "string list \<Rightarrow> 'v obj \<times> real \<Rightarrow> hit" where
  "to_hit keys h =
     \<lparr>hit_props = obj_props (fst h) |` set keys, hit_id = obj_uuid (fst h),
      hit_distance = snd h, hit_certainty = 1 - snd h\<rparr>"

text \<open>A fetched record: its returned properties and its uuid.\<close>

type_synonym item = "props \<times> nat"

definition to_item :: "string list \<Rightarrow> 'v obj \<Rightarrow> item" where
  "to_item keys ob = (obj_props ob |` set keys, obj_uuid ob)"

section \<open>ChatMemoryStore\<close>

text \<open>\<open>add_memory(vector, metadata, user_id)\<close>.\<close>

definition add_memory ::
  "'v \<Rightarrow> props \<Rightarrow> tenant \<Rightarrow> 'v store \<Rightarrow> store_error + nat \<times> 'v store" where
  "add_memory vec metadata user_id s =
     insert_obj CHAT_MEMORY_COLLECTION_NAME user_id metadata vec s"

text \<open>The filter shared by the three queries: this user's records of this chat.\<close>

definition chat_filter :: "tenant \<Rightarrow> chat_id \<Rightarrow> filter \<Rightarrow> filter" where
  "chat_filter user_id chat f =
     FAnd (FAnd (Equal ''user_id'' (PText user_id)) (Equal ''chat_id'' (PText chat))) f"

text \<open>
  The loop \<open>for obj in response.objects: data.update(uuid=obj.uuid,
  properties={"is_summarized": True})\<close>; an exception in one update ends the loop
  with the updates before it done.
\<close>

fun update_each ::
  "string \<Rightarrow> tenant \<Rightarrow> props \<Rightarrow> nat list \<Rightarrow> 'v store \<Rightarrow> store_error + 'v store" where
  "update_each c t ps [] s = Inr s"
| "update_each c t ps (u # us) s =
     (case update_obj c t u ps None s of
        Inl e \<Rightarrow> Inl e
      | Inr s' \<Rightarrow> update_each c t ps us s')"

definition summarized_flag :: props where
  "summarized_flag = [''is_summarized'' \<mapsto> PBool True]"

text \<open>The effect of one such update on the record it targets.\<close>

definition mark_obj :: "'v obj \<Rightarrow> 'v obj" where
  "mark_obj ob = ob\<lparr>obj_props := obj_props ob ++ summarized_flag\<rparr>"

text \<open>The \<open>where_filter\<close> of \<open>mark_messages_as_summarized\<close>.\<close>

definition mark_filter :: "tenant \<Rightarrow> chat_id \<Rightarrow> string list \<Rightarrow> filter" where
  "mark_filter user_id chat message_ids =
     chat_filter user_id chat
       (FAnd (Equal ''memory_type'' (PText TYPE_MESSAGE))
             (ContainsAny ''message_id'' (map PText message_ids)))"

text \<open>\<open>mark_messages_as_summarized(user_id, chat_id, message_ids)\<close>.\<close>

definition mark_messages_as_summarized ::
  "tenant \<Rightarrow> chat_id \<Rightarrow> string list \<Rightarrow> 'v store \<Rightarrow> store_error + 'v store" where
  "mark_messages_as_summarized user_id chat message_ids s =
     (if message_ids = [] then Inr s
      else
        case fetch_objects CHAT_MEMORY_COLLECTION_NAME user_id (mark_filter user_id chat message_ids)
               (length message_ids + 10) None s of
          Inl e \<Rightarrow> Inl e
        | Inr os \<Rightarrow> update_each CHAT_MEMORY_COLLECTION_NAME user_id summarized_flag
                      (map obj_uuid os) s)"

text \<open>\<open>search_chat_memories(user_id, chat_id, query_vector, limit=5)\<close>.\<close>

definition search_return_properties :: "string list" where
  "search_return_properties =
     [''content'', ''memory_type'', ''user_id'', ''chat_id'', ''message_id'', ''sender'', ''created_at'']"

definition search_chat_memories ::
  "('v \<Rightarrow> 'v \<Rightarrow> real) \<Rightarrow> tenant \<Rightarrow> chat_id \<Rightarrow> 'v \<Rightarrow> nat \<Rightarrow> 'v store \<Rightarrow> store_error + hit list" where
  "search_chat_memories metric user_id chat qvec limit s =
     (let f = chat_filter user_id chat
                (ContainsAny ''memory_type'' [PText TYPE_MESSAGE, PText TYPE_SUMMARY])
      in case near_vector metric CHAT_MEMORY_COLLECTION_NAME user_id qvec f limit s of
           Inl e \<Rightarrow> Inl e
         | Inr hs \<Rightarrow> Inr (map (to_hit search_return_properties) hs))"

text \<open>\<open>get_unsummarized_messages(user_id, chat_id, max_count=100)\<close>.\<close>

definition unsummarized_return_properties :: "string list" where
  "unsummarized_return_properties = [''content'', ''message_id'', ''sender'', ''created_at'']"

definition unsummarized_filter :: "tenant \<Rightarrow> chat_id \<Rightarrow> filter" where
  "unsummarized_filter user_id chat =
     chat_filter user_id chat
       (FAnd (Equal ''memory_type'' (PText TYPE_MESSAGE))
             (Equal ''is_summarized'' (PBool False)))"

definition get_unsummarized_messages ::
  "tenant \<Rightarrow> chat_id \<Rightarrow> nat \<Rightarrow> 'v store \<Rightarrow> store_error + item list" where
  "get_unsummarized_messages user_id chat max_count s =
     (case fetch_objects CHAT_MEMORY_COLLECTION_NAME user_id (unsummarized_filter user_id chat)
             max_count (Some ''created_at'') s of
        Inl e \<Rightarrow> Inl e
      | Inr os \<Rightarrow> Inr (map (to_item unsummarized_return_properties) os))"

section \<open>Lemmas\<close>

lemma update_each_other:
  "update_each c t ps us s = Inr s' \<Longrightarrow> (c', t') \<noteq> (c, t) \<Longrightarrow>
   objects s' c' t' = objects s c' t'"
proof (induction us arbitrary: s)
  case Nil
  then show ?case by simp
next
  case (Cons u us)
  then obtain s1 where s1: "update_obj c t u ps None s = Inr s1"
    and rest: "update_each c t ps us s1 = Inr s'"
    by (auto split: sum.splits)
  have "objects s1 c' t' = objects s c' t'" using update_obj_other [OF s1 Cons.prems(2)] .
  with Cons.IH [OF rest Cons.prems(2)] show ?case by simp
qed

lemma update_each_collections:
  "update_each c t ps us s = Inr s' \<Longrightarrow> collections s' = collections s"
  by (induction us arbitrary: s)
     (auto simp: update_obj_def split: sum.splits if_splits)

lemma mark_messages_other:
  "mark_messages_as_summarized user_id chat ids s = Inr s' \<Longrightarrow>
   (c', t') \<noteq> (CHAT_MEMORY_COLLECTION_NAME, user_id) \<Longrightarrow> objects s' c' t' = objects s c' t'"
  by (auto simp: mark_messages_as_summarized_def Let_def dest: update_each_other
           split: if_splits sum.splits)

lemma search_chat_memories_hits:
  assumes "search_chat_memories metric user_id chat q limit s = Inr hs"
    and "h \<in> set hs"
  shows "\<exists>ob \<in> set (objects s CHAT_MEMORY_COLLECTION_NAME user_id).
           obj_uuid ob = hit_id h \<and> obj_props ob ''user_id'' = Some (PText user_id) \<and>
           obj_props ob ''chat_id'' = Some (PText chat) \<and>
           hit_certainty h = 1 - hit_distance h"
proof -
  obtain hs0 where nv: "near_vector metric CHAT_MEMORY_COLLECTION_NAME user_id q
      (chat_filter user_id chat (ContainsAny ''memory_type'' [PText TYPE_MESSAGE, PText TYPE_SUMMARY]))
      limit s = Inr hs0" and hs: "hs = map (to_hit search_return_properties) hs0"
    using assms(1) by (auto simp: search_chat_memories_def split: sum.splits)
  from assms(2) hs obtain p where p: "p \<in> set hs0" and h: "h = to_hit search_return_properties p"
    by auto
  from near_vector_subset [OF nv] p have "fst p \<in> set (objects s CHAT_MEMORY_COLLECTION_NAME user_id)"
    and "matches (chat_filter user_id chat
           (ContainsAny ''memory_type'' [PText TYPE_MESSAGE, PText TYPE_SUMMARY])) (obj_props (fst p))"
    by auto
  then show ?thesis using h by (auto simp: chat_filter_def to_hit_def)
qed

lemma update_props_flag:
  "update_props u summarized_flag None ob = (if obj_uuid ob = u then mark_obj ob else ob)"
  by (simp add: update_props_def mark_obj_def)

lemma mark_obj_idem [simp]: "mark_obj (mark_obj ob) = mark_obj ob"
proof -
  have "(m ++ summarized_flag) ++ summarized_flag = m ++ summarized_flag" for m :: props
    by (rule ext) (simp add: map_add_def summarized_flag_def)
  then show ?thesis by (simp add: mark_obj_def)
qed

lemma mark_obj_uuid [simp]: "obj_uuid (mark_obj ob) = obj_uuid ob"
  by (simp add: mark_obj_def)

lemma mark_obj_props:
  "obj_props (mark_obj ob) k = (if k = ''is_summarized'' then Some (PBool True) else obj_props ob k)"
  by (simp add: mark_obj_def summarized_flag_def map_add_def)

text \<open>The loop of updates marks exactly the records whose uuid it was given.\<close>

lemma update_each_flag:
  "update_each c t summarized_flag us s = Inr s' \<Longrightarrow>
   objects s' c t = map (\<lambda>ob. if obj_uuid ob \<in> set us then mark_obj ob else ob) (objects s c t)"
proof (induction us arbitrary: s)
  case Nil
  then show ?case by simp
next
  case (Cons u us)
  then obtain s1 where s1: "update_obj c t u summarized_flag None s = Inr s1"
    and rest: "update_each c t summarized_flag us s1 = Inr s'"
    by (auto split: sum.splits)
  have o1: "objects s1 c t = map (\<lambda>ob. if obj_uuid ob = u then mark_obj ob else ob) (objects s c t)"
    using update_obj_Inr [OF s1] by (simp add: update_props_flag)
  show ?case using Cons.IH [OF rest] o1 by auto
qed

lemma update_each_wf:
  "wf_store s \<Longrightarrow> update_each c t ps us s = Inr s' \<Longrightarrow> wf_store s'"
  by (induction us arbitrary: s) (auto split: sum.splits dest: wf_store_update_obj)

lemma mark_messages_wf:
  "wf_store s \<Longrightarrow> mark_messages_as_summarized user_id chat ids s = Inr s' \<Longrightarrow> wf_store s'"
  by (auto simp: mark_messages_as_summarized_def dest: update_each_wf split: if_splits sum.splits)

lemma update_each_total:
  "c \<in> collections s \<Longrightarrow> set us \<subseteq> obj_uuid ` set (objects s c t) \<Longrightarrow>
   \<exists>s'. update_each c t ps us s = Inr s'"
proof (induction us arbitrary: s)
  case Nil
  then show ?case by simp
next
  case (Cons u us)
  let ?s1 = "set_objects c t (map (update_props u ps None) (objects s c t)) s"
  have upd: "update_obj c t u ps None s = Inr ?s1"
    using Cons.prems by (simp add: update_obj_def)
  have "obj_uuid ` set (objects ?s1 c t) = obj_uuid ` set (objects s c t)"
    by (simp add: image_image)
  then obtain s' where "update_each c t ps us ?s1 = Inr s'"
    using Cons.IH [of ?s1] Cons.prems by auto
  then show ?case using upd by simp
qed

lemma marked_from_fetched:
  assumes "wf_store s"
  shows "map (\<lambda>ob. if obj_uuid ob \<in> obj_uuid ` set (filter P (objects s c t)) then mark_obj ob else ob)
           (objects s c t) =
         map (\<lambda>ob. if P ob then mark_obj ob else ob) (objects s c t)"
proof (rule map_cong [OF refl])
  fix ob assume ob: "ob \<in> set (objects s c t)"
  have "obj_uuid ob \<in> obj_uuid ` set (filter P (objects s c t)) \<longleftrightarrow> P ob"
  proof
    assume "obj_uuid ob \<in> obj_uuid ` set (filter P (objects s c t))"
    then obtain o2 where o2: "o2 \<in> set (objects s c t)" "P o2" "obj_uuid o2 = obj_uuid ob"
      by auto
    then have "o2 = ob" using wf_store_uuid_inj [OF assms o2(1) ob] by simp
    with o2(2) show "P ob" by simp
  next
    assume "P ob"
    with ob show "obj_uuid ob \<in> obj_uuid ` set (filter P (objects s c t))" by simp
  qed
  then show "(if obj_uuid ob \<in> obj_uuid ` set (filter P (objects s c t)) then mark_obj ob else ob) =
             (if P ob then mark_obj ob else ob)" by simp
qed

text \<open>
  When no more records match than the query's limit \<open>len(message_ids) + 10\<close>
  admits, \<open>mark_messages_as_summarized\<close> succeeds and flags exactly the message
  records of the chat that carry one of the ids; nothing else changes.
\<close>

lemma mark_messages_complete:
  assumes wf: "wf_store s" and coll: "CHAT_MEMORY_COLLECTION_NAME \<in> collections s"
    and ids: "ids \<noteq> []"
    and few: "length (filter (\<lambda>ob. matches (mark_filter u chat ids) (obj_props ob))
                 (objects s CHAT_MEMORY_COLLECTION_NAME u)) \<le> length ids + 10"
  shows "\<exists>s'. mark_messages_as_summarized u chat ids s = Inr s' \<and>
           objects s' = (objects s)(CHAT_MEMORY_COLLECTION_NAME :=
             (objects s CHAT_MEMORY_COLLECTION_NAME)(u :=
               map (\<lambda>ob. if matches (mark_filter u chat ids) (obj_props ob) then mark_obj ob else ob)
                   (objects s CHAT_MEMORY_COLLECTION_NAME u)))"
proof -
  let ?C = CHAT_MEMORY_COLLECTION_NAME
  let ?P = "\<lambda>ob. matches (mark_filter u chat ids) (obj_props ob)"
  let ?os = "filter ?P (objects s ?C u)"
  have fetch: "fetch_objects ?C u (mark_filter u chat ids) (length ids + 10) None s = Inr ?os"
    using coll few by (simp add: fetch_objects_def)
  have "set (map obj_uuid ?os) \<subseteq> obj_uuid ` set (objects s ?C u)" by auto
  then obtain s' where upd: "update_each ?C u summarized_flag (map obj_uuid ?os) s = Inr s'"
    using update_each_total [OF coll] by blast
  have "objects s' ?C u = map (\<lambda>ob. if ?P ob then mark_obj ob else ob) (objects s ?C u)"
    using update_each_flag [OF upd] marked_from_fetched [OF wf, of ?P ?C u] by simp
  moreover have "objects s' c' t' = objects s c' t'" if "(c', t') \<noteq> (?C, u)" for c' t'
    using update_each_other [OF upd that] .
  moreover have "mark_messages_as_summarized u chat ids s = Inr s'"
    using ids fetch upd by (simp add: mark_messages_as_summarized_def)
  ultimately show ?thesis by (auto simp: fun_eq_iff)
qed

end
