(* ===== verification/Summarization.thy ===== *)
theory Summarization
  imports ChatMemory
begin

text \<open>
  The summarization engine: \<open>SummarizationService\<close> of
  \<open>src/apps/api/src/infrastructure/memory/summarization_service.py\<close>.
  \<open>summarize_chat\<close> checks the trigger and runs
  \<open>_summarize_and_vectorize_background\<close> inline. That body fetches the oldest
  unsummarized message records, gives up below \<open>threshold // 2\<close>, joins them as
  \<open>"{sender}: {content}"\<close> lines, asks the language model for a summary, stores
  the summary as a new record and only then marks the folded messages. Every
  exception is caught at the top and logged, so the model returns a store in every
  case, with an outcome saying which branch was taken.

  The collaborators are an environment: the language model (\<open>None\<close> when
  \<open>_get_llm_summary\<close> catches an error), the embedding provider behind
  \<open>encode_text\<close> (\<open>None\<close> when it still raises after its retries), the clock and
  its \<open>strftime\<close> rendering, and, for each store call, whether it raises after its
  retries. A failing \<open>mark_messages_as_summarized\<close> may have updated some records
  before it raised: \<open>mark_fault = Some k\<close> lets \<open>k\<close> updates through.
\<close>

section \<open>Environment and outcomes\<close>

record 'v sum_env =
  llm :: "string \<Rightarrow> string option"
  embed :: "string \<Rightarrow> 'v option"
  now :: timestamp
  fmt_time :: "timestamp \<Rightarrow> string"
  fetch_fails :: bool
  insert_fails :: bool
  mark_fault :: "nat option"

datatype sum_outcome =
    NotDue
  | TooFew nat
  | NoText
  | NoSummary
  | Summarized "string list"
  | Failed store_error
  | SortError

section \<open>Definitions\<close>

definition memory_summarize_threshold :: nat where
  "memory_summarize_threshold = 20"

text \<open>\<open>message_count > 0 and message_count % threshold == 0\<close>.\<close>

definition summarize_due :: "nat \<Rightarrow> bool" where
  "summarize_due message_count \<longleftrightarrow>
     0 < message_count \<and> message_count mod memory_summarize_threshold = 0"

text \<open>\<open>msg.get(key, default)\<close> on a text property.\<close>

definition get_text :: "props \<Rightarrow> string \<Rightarrow> string \<Rightarrow> string" where
  "get_text m k d = (case m k of Some (PText v) \<Rightarrow> v | _ \<Rightarrow> d)"

text \<open>The label \<open>"\<dots>"\<close> of the source for a system sender, as its UTF-8 bytes.\<close>

definition SYSTEM_LABEL_JA :: string where
  "SYSTEM_LABEL_JA = map char_of [227::nat, 130, 183, 227, 130, 185, 227, 131, 134, 227, 131, 160]"

definition convert_sender_to_japanese :: "string \<Rightarrow> string" where
  "convert_sender_to_japanese sender =
     (if sender = ''user'' then ''User''
      else if sender = ''assistant'' then ''AI''
      else SYSTEM_LABEL_JA)"

text \<open>
  \<open>unsummarized_messages.sort(key=lambda msg: msg.get("created_at", ""))\<close>:
  a stable sort on the date; Python raises \<open>TypeError\<close> when some records carry a
  date and others fall back to the string \<open>""\<close>.
\<close>

definition sort_by_created_at :: "item list \<Rightarrow> item list option" where
  "sort_by_created_at ms =
     (if (\<forall>m \<in> set ms. date_key ''created_at'' (fst m) \<noteq> None) \<or>
         (\<forall>m \<in> set ms. fst m ''created_at'' = None)
      then Some (sort_key (\<lambda>m. date_key ''created_at'' (fst m)) ms)
      else None)"

text \<open>The loop building \<open>message_texts\<close> and \<open>message_ids\<close>.\<close>

definition message_line :: "item \<Rightarrow> string" where
  "message_line m =
     convert_sender_to_japanese (get_text (fst m) ''sender'' ''unknown'') @ '': '' @
     get_text (fst m) ''content'' []"

definition message_ids_of :: "item list \<Rightarrow> string list" where
  "message_ids_of ms = filter (\<lambda>i. i \<noteq> []) (map (\<lambda>m. get_text (fst m) ''message_id'' []) ms)"

text \<open>\<open>_save_summary_to_vector_store\<close>: the metadata of the summary record.\<close>

definition summary_metadata :: "string \<Rightarrow> chat_id \<Rightarrow> tenant \<Rightarrow> timestamp \<Rightarrow> string \<Rightarrow> props" where
  "summary_metadata summary chat user_id ts ts_text =
     [''chat_id'' \<mapsto> PText chat,
      ''content'' \<mapsto> PText summary,
      ''created_at'' \<mapsto> PDate ts,
      ''memory_type'' \<mapsto> PText TYPE_SUMMARY,
      ''message_id'' \<mapsto> PText (''summary_'' @ chat @ ''_'' @ ts_text),
      ''sender'' \<mapsto> PText ''system'',
      ''user_id'' \<mapsto> PText user_id]"

text \<open>
  \<open>MemoryVectorStore.add_memory(vector, metadata, user_id, collection_name)\<close>
  delegates to \<open>VectorCrudService.add_memory\<close>, whose source is not under
  \<open>src/\<close>; following spec section 4.3 it inserts into the named collection for the
  tenant.
\<close>

definition crud_add_memory ::
  "'v \<Rightarrow> props \<Rightarrow> tenant \<Rightarrow> string \<Rightarrow> 'v store \<Rightarrow> store_error + nat \<times> 'v store" where
  "crud_add_memory vec metadata user_id collection_name s =
     insert_obj collection_name user_id metadata vec s"

text \<open>The store calls of the body, each failing when the environment says so.\<close>

definition env_get_unsummarized ::
  "'v sum_env \<Rightarrow> tenant \<Rightarrow> chat_id \<Rightarrow> nat \<Rightarrow> 'v store \<Rightarrow> store_error + item list" where
  "env_get_unsummarized env user_id chat n s =
     (if fetch_fails env then Inl Unavailable else get_unsummarized_messages user_id chat n s)"

definition save_summary_to_vector_store ::
  "'v sum_env \<Rightarrow> string \<Rightarrow> chat_id \<Rightarrow> tenant \<Rightarrow> 'v store \<Rightarrow> store_error + 'v store" where
  "save_summary_to_vector_store env summary chat user_id s =
     (case embed env summary of
        None \<Rightarrow> Inl Unavailable
      | Some vec \<Rightarrow>
          if insert_fails env then Inl Unavailable
          else (case crud_add_memory vec
                       (summary_metadata summary chat user_id (now env) (fmt_time env (now env)))
                       user_id CHAT_MEMORY_COLLECTION_NAME s of
                  Inl e \<Rightarrow> Inl e
                | Inr (_, s') \<Rightarrow> Inr s'))"

text \<open>
  \<open>mark_messages_as_summarized\<close> under the environment: when it fails after
  \<open>k\<close> updates, those \<open>k\<close> updates are in the store the exception leaves behind.
\<close>

definition env_mark ::
  "'v sum_env \<Rightarrow> tenant \<Rightarrow> chat_id \<Rightarrow> string list \<Rightarrow> 'v store \<Rightarrow> store_error \<times> 'v store + 'v store" where
  "env_mark env user_id chat ids s =
     (case mark_fault env of
        None \<Rightarrow> (case mark_messages_as_summarized user_id chat ids s of
                   Inl e \<Rightarrow> Inl (e, s) | Inr s' \<Rightarrow> Inr s')
      | Some k \<Rightarrow>
          (case fetch_objects CHAT_MEMORY_COLLECTION_NAME user_id (mark_filter user_id chat ids)
                  (length ids + 10) None s of
             Inl e \<Rightarrow> Inl (e, s)
           | Inr os \<Rightarrow>
               (case update_each CHAT_MEMORY_COLLECTION_NAME user_id summarized_flag
                       (take k (map obj_uuid os)) s of
                  Inl e \<Rightarrow> Inl (e, s)
                | Inr s' \<Rightarrow> Inl (Unavailable, s'))))"

text \<open>\<open>_summarize_and_vectorize_background(chat_id, user_id)\<close>.\<close>

definition summarize_and_vectorize ::
  "'v sum_env \<Rightarrow> chat_id \<Rightarrow> tenant \<Rightarrow> 'v store \<Rightarrow> sum_outcome \<times> 'v store" where
  "summarize_and_vectorize env chat user_id s =
     (case env_get_unsummarized env user_id chat memory_summarize_threshold s of
        Inl e \<Rightarrow> (Failed e, s)
      | Inr ms \<Rightarrow>
          if length ms < memory_summarize_threshold div 2 then (TooFew (length ms), s)
          else (case sort_by_created_at ms of
                  None \<Rightarrow> (SortError, s)
                | Some sorted_ms \<Rightarrow>
                    let texts = map message_line sorted_ms;
                        ids = message_ids_of sorted_ms
                    in if texts = [] then (NoText, s)
                       else (case llm env (join ''\<newline>'' texts) of
                               None \<Rightarrow> (NoSummary, s)
                             | Some summary \<Rightarrow>
                                 if summary = [] then (NoSummary, s)
                                 else (case save_summary_to_vector_store env summary chat user_id s of
                                         Inl e \<Rightarrow> (Failed e, s)
                                       | Inr s1 \<Rightarrow>
                                           if ids = [] then (Summarized ids, s1)
                                           else (case env_mark env user_id chat ids s1 of
                                                   Inl (e, s2) \<Rightarrow> (Failed e, s2)
                                                 | Inr s2 \<Rightarrow> (Summarized ids, s2))))))"

text \<open>\<open>summarize_chat(chat_id, user_id, message_count)\<close>.\<close>

definition summarize_chat ::
  "'v sum_env \<Rightarrow> chat_id \<Rightarrow> tenant \<Rightarrow> nat \<Rightarrow> 'v store \<Rightarrow> sum_outcome \<times> 'v store" where
  "summarize_chat env chat user_id message_count s =
     (if summarize_due message_count then summarize_and_vectorize env chat user_id s
      else (NotDue, s))"

text \<open>
  A record with its \<open>is_summarized\<close> flag erased: what summarization may never
  change of a record that exists.
\<close>

definition erase_flag :: "'v obj \<Rightarrow> props \<times> nat \<times> 'v" where
  "erase_flag ob = ((obj_props ob)(''is_summarized'' := None), obj_uuid ob, obj_vec ob)"

text \<open>The invariant behind at-least-once summarization: a message marked as summarized
  has a summary record of its chat in the same tenant.\<close>

definition summary_backed :: "'v store \<Rightarrow> bool" where
  "summary_backed s \<longleftrightarrow>
     (\<forall>t. \<forall>ob \<in> set (objects s CHAT_MEMORY_COLLECTION_NAME t).
        obj_props ob ''is_summarized'' = Some (PBool True) \<longrightarrow>
        (\<exists>sm \<in> set (objects s CHAT_MEMORY_COLLECTION_NAME t).
           obj_props sm ''memory_type'' = Some (PText TYPE_SUMMARY) \<and>
           obj_props sm ''chat_id'' = obj_props ob ''chat_id''))"

text \<open>\<open>s'\<close> keeps every record of \<open>s\<close>, in order, up to the flag, and may add records.\<close>

definition grows :: "'v store \<Rightarrow> 'v store \<Rightarrow> bool" where
  "grows s s' \<longleftrightarrow>
     (\<forall>c t. \<exists>new. map erase_flag (objects s' c t) = map erase_flag (objects s c t) @ new)"

section \<open>Frame lemmas\<close>

lemma grows_refl [simp]: "grows s s"
  by (simp add: grows_def)

lemma grows_trans: "grows s1 s2 \<Longrightarrow> grows s2 s3 \<Longrightarrow> grows s1 s3"
  unfolding grows_def by (metis append.assoc)

lemma grows_same_erase:
  "(\<And>c t. map erase_flag (objects s' c t) = map erase_flag (objects s c t)) \<Longrightarrow> grows s s'"
  unfolding grows_def by (metis append.right_neutral)

lemma erase_flag_update_props [simp]:
  "erase_flag (update_props u summarized_flag None ob) = erase_flag ob"
  by (simp add: erase_flag_def update_props_def summarized_flag_def)

lemma update_each_erase:
  "update_each c t summarized_flag us s = Inr s' \<Longrightarrow>
   map erase_flag (objects s' c' t') = map erase_flag (objects s c' t')"
proof (induction us arbitrary: s)
  case Nil
  then show ?case by simp
next
  case (Cons u us)
  then obtain s1 where s1: "update_obj c t u summarized_flag None s = Inr s1"
    and rest: "update_each c t summarized_flag us s1 = Inr s'"
    by (auto split: sum.splits)
  have "map erase_flag (objects s1 c' t') = map erase_flag (objects s c' t')"
    using update_obj_Inr [OF s1] by (simp add: comp_def)
  with Cons.IH [OF rest] show ?case by simp
qed

lemma mark_erase:
  "mark_messages_as_summarized user_id chat ids s = Inr s' \<Longrightarrow>
   map erase_flag (objects s' c t) = map erase_flag (objects s c t)"
  by (auto simp: mark_messages_as_summarized_def dest: update_each_erase
           split: if_splits sum.splits)

lemma env_mark_Inl_erase:
  "env_mark env user_id chat ids s = Inl (e, s') \<Longrightarrow>
   map erase_flag (objects s' c t) = map erase_flag (objects s c t)"
  by (auto simp: env_mark_def dest: update_each_erase split: option.splits sum.splits)

lemma env_mark_Inr_erase:
  "env_mark env user_id chat ids s = Inr s' \<Longrightarrow>
   map erase_flag (objects s' c t) = map erase_flag (objects s c t)"
  by (auto simp: env_mark_def dest: mark_erase split: option.splits sum.splits)

lemma save_summary_Inr:
  "save_summary_to_vector_store env summary chat user_id s = Inr s' \<Longrightarrow>
   \<exists>vec. objects s' = (objects s)(CHAT_MEMORY_COLLECTION_NAME :=
      (objects s CHAT_MEMORY_COLLECTION_NAME)(user_id := objects s CHAT_MEMORY_COLLECTION_NAME user_id @
        [\<lparr>obj_uuid = next_uuid s,
          obj_props = summary_metadata summary chat user_id (now env) (fmt_time env (now env)),
          obj_vec = vec\<rparr>]))"
  by (auto simp: save_summary_to_vector_store_def crud_add_memory_def dest!: insert_obj_Inr
           split: option.splits if_splits sum.splits)

lemma save_summary_appends:
  "save_summary_to_vector_store env summary chat user_id s = Inr s' \<Longrightarrow>
   \<exists>new. map erase_flag (objects s' c t) = map erase_flag (objects s c t) @ new"
  by (auto dest!: save_summary_Inr)

lemma env_mark_Inl_grows: "env_mark env u chat ids s = Inl (e, s') \<Longrightarrow> grows s s'"
  by (rule grows_same_erase) (rule env_mark_Inl_erase)

lemma env_mark_Inr_grows: "env_mark env u chat ids s = Inr s' \<Longrightarrow> grows s s'"
  by (rule grows_same_erase) (rule env_mark_Inr_erase)

lemma save_summary_grows:
  "save_summary_to_vector_store env summary chat u s = Inr s' \<Longrightarrow> grows s s'"
  unfolding grows_def using save_summary_appends by blast

section \<open>The marking step keeps summaries backed\<close>

definition marked_from :: "nat set \<Rightarrow> 'v obj \<Rightarrow> 'v obj" where
  "marked_from U ob = (if obj_uuid ob \<in> U then mark_obj ob else ob)"

lemma marked_from_props:
  "k \<noteq> ''is_summarized'' \<Longrightarrow> obj_props (marked_from U ob) k = obj_props ob k"
  by (simp add: marked_from_def mark_obj_props)

lemma marked_from_flag:
  "obj_props (marked_from U ob) ''is_summarized'' = Some (PBool True) \<Longrightarrow>
   obj_uuid ob \<in> U \<or> obj_props ob ''is_summarized'' = Some (PBool True)"
  by (auto simp: marked_from_def split: if_splits)

lemma update_each_objects:
  assumes "update_each c t summarized_flag us s = Inr s'"
  shows "objects s' = (objects s)(c := (objects s c)(t := map (marked_from (set us)) (objects s c t)))"
proof (rule ext, rule ext)
  fix c' t'
  show "objects s' c' t' =
        ((objects s)(c := (objects s c)(t := map (marked_from (set us)) (objects s c t)))) c' t'"
    using update_each_flag [OF assms] update_each_other [OF assms, of c' t']
    by (cases "(c', t') = (c, t)") (auto simp: marked_from_def)
qed

text \<open>What any run of \<open>env_mark\<close> leaves behind: some fetched records marked.\<close>

definition marks_some :: "tenant \<Rightarrow> chat_id \<Rightarrow> string list \<Rightarrow> 'v store \<Rightarrow> 'v store \<Rightarrow> bool" where
  "marks_some u chat ids s s' \<longleftrightarrow>
     (\<exists>os U. set os \<subseteq> {ob \<in> set (objects s CHAT_MEMORY_COLLECTION_NAME u).
                           matches (mark_filter u chat ids) (obj_props ob)} \<and>
            U \<subseteq> obj_uuid ` set os \<and>
            objects s' = (objects s)(CHAT_MEMORY_COLLECTION_NAME :=
               (objects s CHAT_MEMORY_COLLECTION_NAME)(u :=
                  map (marked_from U) (objects s CHAT_MEMORY_COLLECTION_NAME u))))"

lemma marks_some_refl: "marks_some u chat ids s s"
proof -
  have "map (marked_from {}) (objects s CHAT_MEMORY_COLLECTION_NAME u) =
        objects s CHAT_MEMORY_COLLECTION_NAME u"
    by (rule map_idI) (simp add: marked_from_def)
  then show ?thesis unfolding marks_some_def
    by (intro exI [of _ "[]"] exI [of _ "{}"]) (auto simp: fun_eq_iff)
qed

lemma marks_some_fetch:
  assumes "fetch_objects CHAT_MEMORY_COLLECTION_NAME u (mark_filter u chat ids) n None s = Inr os"
    and "update_each CHAT_MEMORY_COLLECTION_NAME u summarized_flag us s = Inr s'"
    and "set us \<subseteq> obj_uuid ` set os"
  shows "marks_some u chat ids s s'"
  unfolding marks_some_def
  using fetch_objects_subset [OF assms(1)] assms(3) update_each_objects [OF assms(2)] by blast

lemma env_mark_marks_some:
  assumes "env_mark env u chat ids s = Inl (e, s') \<or> env_mark env u chat ids s = Inr s'"
  shows "marks_some u chat ids s s'"
proof (cases "mark_fault env")
  case None
  with assms show ?thesis
    by (auto simp: env_mark_def mark_messages_as_summarized_def marks_some_refl
             intro: marks_some_fetch split: if_splits sum.splits)
next
  case (Some k)
  have "set (take k (map obj_uuid os)) \<subseteq> obj_uuid ` set os" for os :: "'v obj list"
    by (auto dest: in_set_takeD)
  with Some assms show ?thesis
    by (auto simp: env_mark_def marks_some_refl intro: marks_some_fetch split: sum.splits)
qed

lemma mark_filter_chat:
  "matches (mark_filter u chat ids) m \<Longrightarrow> m ''chat_id'' = Some (PText chat)"
  by (simp add: mark_filter_def chat_filter_def)

lemma summary_image:
  assumes "sm \<in> set xs"
  shows "marked_from U sm \<in> set (map (marked_from U) xs) \<and>
         obj_props (marked_from U sm) ''memory_type'' = obj_props sm ''memory_type'' \<and>
         obj_props (marked_from U sm) ''chat_id'' = obj_props sm ''chat_id''"
  using assms by (simp add: marked_from_props)

lemma marks_some_backed:
  assumes wf: "wf_store s" and backed: "summary_backed s"
    and sm: "sm \<in> set (objects s CHAT_MEMORY_COLLECTION_NAME u)"
    and sm_type: "obj_props sm ''memory_type'' = Some (PText TYPE_SUMMARY)"
    and sm_chat: "obj_props sm ''chat_id'' = Some (PText chat)"
    and marks: "marks_some u chat ids s s'"
  shows "summary_backed s'"
  unfolding summary_backed_def
proof (intro allI ballI impI)
  let ?C = CHAT_MEMORY_COLLECTION_NAME
  fix t ob'
  assume ob': "ob' \<in> set (objects s' ?C t)"
    and flag: "obj_props ob' ''is_summarized'' = Some (PBool True)"
  obtain os U where os: "set os \<subseteq> {ob \<in> set (objects s ?C u). matches (mark_filter u chat ids) (obj_props ob)}"
    and U: "U \<subseteq> obj_uuid ` set os"
    and s': "objects s' = (objects s)(?C := (objects s ?C)(u := map (marked_from U) (objects s ?C u)))"
    using marks unfolding marks_some_def by blast
  show "\<exists>sm\<in>set (objects s' ?C t).
          obj_props sm ''memory_type'' = Some (PText TYPE_SUMMARY) \<and>
          obj_props sm ''chat_id'' = obj_props ob' ''chat_id''"
  proof (cases "t = u")
    case False
    with ob' flag backed s' show ?thesis unfolding summary_backed_def by auto
  next
    case True
    with ob' s' obtain ob where ob: "ob \<in> set (objects s ?C u)" and ob'_eq: "ob' = marked_from U ob"
      by auto
    have chat': "obj_props ob' ''chat_id'' = obj_props ob ''chat_id''"
      using ob'_eq by (simp add: marked_from_props)
    from flag ob'_eq have "obj_uuid ob \<in> U \<or> obj_props ob ''is_summarized'' = Some (PBool True)"
      by (simp add: marked_from_flag)
    then show ?thesis
    proof
      assume "obj_uuid ob \<in> U"
      with U obtain o2 where o2: "o2 \<in> set os" and "obj_uuid o2 = obj_uuid ob" by auto
      with os wf ob have "o2 = ob" and "matches (mark_filter u chat ids) (obj_props o2)"
        by (auto intro: wf_store_uuid_inj)
      then have "obj_props ob ''chat_id'' = Some (PText chat)" by (auto dest: mark_filter_chat)
      then show ?thesis
        using True s' summary_image [OF sm, of U] sm_type sm_chat chat' by auto
    next
      assume "obj_props ob ''is_summarized'' = Some (PBool True)"
      with backed ob obtain sm' where sm': "sm' \<in> set (objects s ?C u)"
        and "obj_props sm' ''memory_type'' = Some (PText TYPE_SUMMARY)"
        and "obj_props sm' ''chat_id'' = obj_props ob ''chat_id''"
        unfolding summary_backed_def by blast
      then show ?thesis
        using True s' summary_image [OF sm', of U] chat' by auto
    qed
  qed
qed

section \<open>The saving step\<close>

lemma save_summary_wf:
  "wf_store s \<Longrightarrow> save_summary_to_vector_store env summary chat u s = Inr s' \<Longrightarrow> wf_store s'"
  by (auto simp: save_summary_to_vector_store_def crud_add_memory_def
           intro: wf_store_insert_obj split: option.splits if_splits sum.splits)

lemma save_summary_record:
  assumes "save_summary_to_vector_store env summary chat u s = Inr s'"
  shows "\<exists>sm \<in> set (objects s' CHAT_MEMORY_COLLECTION_NAME u).
           obj_props sm ''memory_type'' = Some (PText TYPE_SUMMARY) \<and>
           obj_props sm ''chat_id'' = Some (PText chat)"
  using save_summary_Inr [OF assms] by (force simp: summary_metadata_def collection_names)

lemma save_summary_backed:
  assumes "summary_backed s" and save: "save_summary_to_vector_store env summary chat u s = Inr s'"
  shows "summary_backed s'"
proof -
  obtain vec where os: "objects s' = (objects s)(CHAT_MEMORY_COLLECTION_NAME :=
      (objects s CHAT_MEMORY_COLLECTION_NAME)(u := objects s CHAT_MEMORY_COLLECTION_NAME u @
        [\<lparr>obj_uuid = next_uuid s,
          obj_props = summary_metadata summary chat u (now env) (fmt_time env (now env)),
          obj_vec = vec\<rparr>]))"
    using save_summary_Inr [OF save] by blast
  have unflagged: "summary_metadata summary chat u ts tstr ''is_summarized'' = None" for ts tstr
    by (simp add: summary_metadata_def)
  show ?thesis
    using assms(1) unfolding summary_backed_def os
    by (auto simp: unflagged)
qed

lemma get_unsummarized_collection:
  "get_unsummarized_messages u chat n s = Inr ms \<Longrightarrow> CHAT_MEMORY_COLLECTION_NAME \<in> collections s"
  by (auto simp: get_unsummarized_messages_def fetch_objects_def split: if_splits sum.splits)

lemma get_unsummarized_length:
  "get_unsummarized_messages u chat n s = Inr ms \<Longrightarrow> length ms \<le> n"
  by (auto simp: get_unsummarized_messages_def dest: fetch_objects_length split: sum.splits)

lemma summary_not_marked:
  "\<not> matches (mark_filter u chat ids) (summary_metadata summary chat' u' ts tstr)"
  by (simp add: mark_filter_def chat_filter_def summary_metadata_def collection_names)

lemma summarize_success_run:
  assumes wf: "wf_store s"
    and fetch: "get_unsummarized_messages u chat memory_summarize_threshold s = Inr ms"
    and enough: "memory_summarize_threshold div 2 \<le> length ms"
    and srt: "sort_by_created_at ms = Some sms"
    and ids: "message_ids_of sms \<noteq> []"
    and llm: "llm env (join ''\<newline>'' (map message_line sms)) = Some summary" "summary \<noteq> []"
    and emb: "embed env summary = Some vec"
    and ok: "\<not> fetch_fails env" "\<not> insert_fails env" "mark_fault env = None"
    and few: "length (filter (\<lambda>ob. matches (mark_filter u chat (message_ids_of sms)) (obj_props ob))
                (objects s CHAT_MEMORY_COLLECTION_NAME u)) \<le> length (message_ids_of sms) + 10"
  shows "\<exists>s'. summarize_and_vectorize env chat u s = (Summarized (message_ids_of sms), s') \<and>
           objects s' CHAT_MEMORY_COLLECTION_NAME u =
             map (\<lambda>ob. if matches (mark_filter u chat (message_ids_of sms)) (obj_props ob)
                       then mark_obj ob else ob) (objects s CHAT_MEMORY_COLLECTION_NAME u) @
             [\<lparr>obj_uuid = next_uuid s,
               obj_props = summary_metadata summary chat u (now env) (fmt_time env (now env)),
               obj_vec = vec\<rparr>]"
proof -
  let ?C = CHAT_MEMORY_COLLECTION_NAME
  let ?ids = "message_ids_of sms"
  let ?P = "\<lambda>ob. matches (mark_filter u chat ?ids) (obj_props ob)"
  let ?sm = "\<lparr>obj_uuid = next_uuid s,
               obj_props = summary_metadata summary chat u (now env) (fmt_time env (now env)),
               obj_vec = vec\<rparr>"
  have coll: "?C \<in> collections s" by (rule get_unsummarized_collection [OF fetch])
  define s1 where "s1 = set_objects ?C u (objects s ?C u @ [?sm]) s
      \<lparr>tenants := (tenants s)(?C := insert u (tenants s ?C)), next_uuid := Suc (next_uuid s)\<rparr>"
  have ins: "insert_obj ?C u (summary_metadata summary chat u (now env) (fmt_time env (now env))) vec s =
             Inr (next_uuid s, s1)"
    using coll by (simp add: insert_obj_def s1_def Let_def)
  have save: "save_summary_to_vector_store env summary chat u s = Inr s1"
    using emb ok ins by (simp add: save_summary_to_vector_store_def crud_add_memory_def)
  have wf1: "wf_store s1" by (rule wf_store_insert_obj [OF wf ins])
  have os1: "objects s1 ?C u = objects s ?C u @ [?sm]" by (simp add: s1_def set_objects_def)
  have coll1: "?C \<in> collections s1" using coll by (simp add: s1_def)
  have "\<not> ?P ?sm" by (simp add: summary_not_marked)
  then have few1: "length (filter ?P (objects s1 ?C u)) \<le> length ?ids + 10"
    using few os1 by simp
  obtain s2 where mark: "mark_messages_as_summarized u chat ?ids s1 = Inr s2"
    and os2: "objects s2 = (objects s1)(?C := (objects s1 ?C)(u :=
               map (\<lambda>ob. if ?P ob then mark_obj ob else ob) (objects s1 ?C u)))"
    using mark_messages_complete [OF wf1 coll1 ids few1] by blast
  have "sms \<noteq> []" using ids by (auto simp: message_ids_of_def)
  then have run: "summarize_and_vectorize env chat u s = (Summarized ?ids, s2)"
    using fetch enough srt ids llm save mark ok
    by (simp add: summarize_and_vectorize_def env_get_unsummarized_def env_mark_def Let_def)
  have "objects s2 ?C u = map (\<lambda>ob. if ?P ob then mark_obj ob else ob) (objects s ?C u) @ [?sm]"
    using os2 os1 \<open>\<not> ?P ?sm\<close> by simp
  with run show ?thesis by blast
qed

lemma sort_by_created_at_length:
  "sort_by_created_at ms = Some sms \<Longrightarrow> length sms = length ms"
  by (auto simp: sort_by_created_at_def split: if_splits)

lemma message_ids_of_length: "length (message_ids_of ms) \<le> length ms"
  by (simp add: message_ids_of_def)

lemma summarize_and_vectorize_ran: "fst (summarize_and_vectorize env chat u s) \<noteq> NotDue"
  by (auto simp: summarize_and_vectorize_def Let_def split: sum.splits option.splits if_splits prod.splits)

lemma summarize_due_upto_40:
  "{n \<in> {1..40::nat}. summarize_due n} = {20, 40}"
proof -
  have "n \<in> {1..40::nat} \<and> 0 < n \<and> n mod 20 = 0 \<longleftrightarrow> n = 20 \<or> n = 40" for n
    by (simp only: atLeastAtMost_iff) presburger
  then show ?thesis by (auto simp: summarize_due_def memory_summarize_threshold_def)
qed

lemma summarize_keeps_wf:
  "wf_store s \<Longrightarrow> wf_store (snd (summarize_and_vectorize env chat u s))"
  by (auto simp: summarize_and_vectorize_def Let_def env_mark_def mark_messages_as_summarized_def
           intro: save_summary_wf update_each_wf
           split: sum.splits option.splits if_splits prod.splits)

lemma summarize_backed_run:
  assumes wf: "wf_store s" and backed: "summary_backed s"
  shows "summary_backed (snd (summarize_and_vectorize env chat u s))"
proof -
  have step: "summary_backed s2"
    if save: "save_summary_to_vector_store env summary chat u s = Inr s1"
      and mk: "env_mark env u chat ids s1 = Inl (e, s2) \<or> env_mark env u chat ids s1 = Inr s2"
    for summary s1 ids e s2
  proof -
    obtain sm where "sm \<in> set (objects s1 CHAT_MEMORY_COLLECTION_NAME u)"
      and "obj_props sm ''memory_type'' = Some (PText TYPE_SUMMARY)"
      and "obj_props sm ''chat_id'' = Some (PText chat)"
      using save_summary_record [OF save] by blast
    then show ?thesis
      using marks_some_backed [OF save_summary_wf [OF wf save] save_summary_backed [OF backed save]]
            env_mark_marks_some [OF mk] by blast
  qed
  show ?thesis
    using backed
    by (auto simp: summarize_and_vectorize_def Let_def intro: step save_summary_backed
             split: sum.splits option.splits if_splits prod.splits)
qed

section \<open>Induction rules for a summarization run\<close>

text \<open>A property of the store that holds before, after saving the summary, and after the
  marking step, whether it succeeds or fails, holds after the run.\<close>

lemma summarize_and_vectorize_rule:
  assumes "P s"
    and "\<And>summary s1. save_summary_to_vector_store env summary chat u s = Inr s1 \<Longrightarrow> P s1"
    and "\<And>summary s1 ids e s2. save_summary_to_vector_store env summary chat u s = Inr s1 \<Longrightarrow>
           env_mark env u chat ids s1 = Inl (e, s2) \<Longrightarrow> P s2"
    and "\<And>summary s1 ids s2. save_summary_to_vector_store env summary chat u s = Inr s1 \<Longrightarrow>
           env_mark env u chat ids s1 = Inr s2 \<Longrightarrow> P s2"
  shows "P (snd (summarize_and_vectorize env chat u s))"
  using assms
  by (auto simp: summarize_and_vectorize_def Let_def
           split: sum.splits option.splits if_splits prod.splits)

lemma summarize_chat_rule:
  assumes "P s"
    and "\<And>summary s1. save_summary_to_vector_store env summary chat u s = Inr s1 \<Longrightarrow> P s1"
    and "\<And>summary s1 ids e s2. save_summary_to_vector_store env summary chat u s = Inr s1 \<Longrightarrow>
           env_mark env u chat ids s1 = Inl (e, s2) \<Longrightarrow> P s2"
    and "\<And>summary s1 ids s2. save_summary_to_vector_store env summary chat u s = Inr s1 \<Longrightarrow>
           env_mark env u chat ids s1 = Inr s2 \<Longrightarrow> P s2"
  shows "P (snd (summarize_chat env chat u n s))"
  using summarize_and_vectorize_rule [of P s env chat u, OF assms] assms(1)
  by (simp add: summarize_chat_def)

section \<open>Properties\<close>

text \<open>
  C4. A successful summarization pass appends exactly one record, the summary of the
  batch, to the tenant's chat memory, and flags as summarized exactly the message
  records of the chat that carry one of the folded message ids; every other record
  is unchanged. The premises are the branch conditions of the source: enough
  unsummarized messages, a non-empty summary, working collaborators, and no more
  matching records than the marking query's limit.
\<close>

theorem summarize_success:
  assumes wf: "wf_store s"
    and fetch: "get_unsummarized_messages u chat memory_summarize_threshold s = Inr ms"
    and enough: "memory_summarize_threshold div 2 \<le> length ms"
    and srt: "sort_by_created_at ms = Some sms"
    and ids: "message_ids_of sms \<noteq> []"
    and llm: "llm env (join ''\<newline>'' (map message_line sms)) = Some summary" "summary \<noteq> []"
    and emb: "embed env summary = Some vec"
    and ok: "\<not> fetch_fails env" "\<not> insert_fails env" "mark_fault env = None"
    and few: "length (filter (\<lambda>ob. matches (mark_filter u chat (message_ids_of sms)) (obj_props ob))
                (objects s CHAT_MEMORY_COLLECTION_NAME u)) \<le> length (message_ids_of sms) + 10"
  shows "\<exists>s'. summarize_and_vectorize env chat u s = (Summarized (message_ids_of sms), s') \<and>
           objects s' CHAT_MEMORY_COLLECTION_NAME u =
             map (\<lambda>ob. if matches (mark_filter u chat (message_ids_of sms)) (obj_props ob)
                       then mark_obj ob else ob) (objects s CHAT_MEMORY_COLLECTION_NAME u) @
             [\<lparr>obj_uuid = next_uuid s,
               obj_props = summary_metadata summary chat u (now env) (fmt_time env (now env)),
               obj_vec = vec\<rparr>]"
  by (rule summarize_success_run [OF assms])

text \<open>
  C1. Summarization is due exactly when the message count is a positive multiple
  of the threshold 20: among the counts 1 to 40, only 20 and 40 start a pass, so
  after the 20th message the next pass waits for the 40th.
\<close>

theorem summarize_chat_trigger:
  "{n \<in> {1..40}. fst (summarize_chat env chat u n s) \<noteq> NotDue} = {20, 40}"
proof -
  have "fst (summarize_chat env chat u n s) \<noteq> NotDue \<longleftrightarrow> summarize_due n" for n
    by (simp add: summarize_chat_def summarize_and_vectorize_ran)
  then show ?thesis using summarize_due_upto_40 by simp
qed

text \<open>
  C19. A pass that ends with a summary fetched between \<open>threshold // 2 = 10\<close> and
  \<open>threshold = 20\<close> unsummarized messages, and folded at most that many ids: the
  engine never summarizes a nearly empty backlog.
\<close>

theorem summarize_min_backlog:
  assumes "summarize_and_vectorize env chat u s = (Summarized ids, s')"
  shows "\<exists>ms. get_unsummarized_messages u chat memory_summarize_threshold s = Inr ms \<and>
           memory_summarize_threshold div 2 \<le> length ms \<and>
           length ms \<le> memory_summarize_threshold \<and> length ids \<le> length ms"
  using assms
  by (auto simp: summarize_and_vectorize_def Let_def env_get_unsummarized_def not_less
           dest: get_unsummarized_length split: sum.splits option.splits if_splits prod.splits)
     (metis message_ids_of_length sort_by_created_at_length)

text \<open>
  C6. Summarization never loses data: whatever fails, every record of every tenant
  and collection is still there afterwards, in order, with its content, uuid and
  vector; at most its summarized flag changed, and new records come after it.
\<close>

theorem summarize_chat_no_loss:
  "grows s (snd (summarize_chat env chat u n s))"
proof (cases "summarize_due n")
  case True
  then show ?thesis
    by (auto simp: summarize_chat_def summarize_and_vectorize_def Let_def
             intro: grows_trans dest: env_mark_Inl_grows env_mark_Inr_grows save_summary_grows
             split: sum.splits option.splits if_splits prod.splits)
next
  case False
  then show ?thesis by (simp add: summarize_chat_def)
qed

text \<open>
  C5. At-least-once summarization: in a well-formed store where every message
  marked as summarized has a summary record of its chat, the same holds after a
  pass, whichever collaborator fails and wherever \<open>mark_messages_as_summarized\<close>
  stops. The summary is stored before any message is marked.
\<close>

theorem summarize_keeps_backed:
  assumes "wf_store s" and "summary_backed s"
  shows "wf_store (snd (summarize_and_vectorize env chat u s)) \<and>
         summary_backed (snd (summarize_and_vectorize env chat u s))"
  using summarize_keeps_wf [OF assms(1)] summarize_backed_run [OF assms] by simp

text \<open>
  C20. When the summary cannot be stored, or the backlog cannot be read, the pass
  leaves the store exactly as it found it: no message is marked without its
  summary.
\<close>

theorem summarize_store_failure_unchanged:
  assumes "insert_fails env \<or> fetch_fails env"
  shows "snd (summarize_and_vectorize env chat u s) = s"
  using assms
  by (auto simp: summarize_and_vectorize_def save_summary_to_vector_store_def env_get_unsummarized_def Let_def
           split: sum.splits option.splits if_splits prod.splits)

section \<open>Examples\<close>

text \<open>
  A tenant \<open>u1\<close> with ten unsummarized messages of chat \<open>c1\<close>, stored in reverse
  chronological order, and collaborators that all work.
\<close>

definition ex_message_ids :: "string list" where
  "ex_message_ids = [''m0'', ''m1'', ''m2'', ''m3'', ''m4'', ''m5'', ''m6'', ''m7'', ''m8'', ''m9'']"

definition ex_message :: "nat \<Rightarrow> string \<Rightarrow> props" where
  "ex_message i mid = [''chat_id'' \<mapsto> PText ''c1'', ''content'' \<mapsto> PText ''hi'',
     ''created_at'' \<mapsto> PDate (10 - int i), ''memory_type'' \<mapsto> PText ''message'',
     ''message_id'' \<mapsto> PText mid, ''sender'' \<mapsto> PText ''user'',
     ''user_id'' \<mapsto> PText ''u1'', ''is_summarized'' \<mapsto> PBool False]"

definition ex_records :: "int obj list" where
  "ex_records =
    [\<lparr>obj_uuid = 0, obj_props = ex_message 0 ''m0'', obj_vec = 0\<rparr>,
     \<lparr>obj_uuid = 1, obj_props = ex_message 1 ''m1'', obj_vec = 0\<rparr>,
     \<lparr>obj_uuid = 2, obj_props = ex_message 2 ''m2'', obj_vec = 0\<rparr>,
     \<lparr>obj_uuid = 3, obj_props = ex_message 3 ''m3'', obj_vec = 0\<rparr>,
     \<lparr>obj_uuid = 4, obj_props = ex_message 4 ''m4'', obj_vec = 0\<rparr>,
     \<lparr>obj_uuid = 5, obj_props = ex_message 5 ''m5'', obj_vec = 0\<rparr>,
     \<lparr>obj_uuid = 6, obj_props = ex_message 6 ''m6'', obj_vec = 0\<rparr>,
     \<lparr>obj_uuid = 7, obj_props = ex_message 7 ''m7'', obj_vec = 0\<rparr>,
     \<lparr>obj_uuid = 8, obj_props = ex_message 8 ''m8'', obj_vec = 0\<rparr>,
     \<lparr>obj_uuid = 9, obj_props = ex_message 9 ''m9'', obj_vec = 0\<rparr>]"

definition ex_store :: "int store" where
  "ex_store = \<lparr>collections = {CHAT_MEMORY_COLLECTION_NAME}, schemas = Map.empty, tenants = (\<lambda>_. {}),
     objects = (\<lambda>c t. if c = CHAT_MEMORY_COLLECTION_NAME \<and> t = ''u1'' then ex_records else []),
     next_uuid = 10\<rparr>"

definition ex_env :: "int sum_env" where
  "ex_env = \<lparr>llm = (\<lambda>_. Some ''sum''), embed = (\<lambda>_. Some 0), now = 100, fmt_time = (\<lambda>_. ''t''),
     fetch_fails = False, insert_fails = False, mark_fault = None\<rparr>"

lemma ex_objects: "objects ex_store CHAT_MEMORY_COLLECTION_NAME ''u1'' = ex_records"
  by (simp add: ex_store_def)

lemma ex_wf: "wf_store ex_store"
  unfolding wf_store_def ex_store_def by (auto simp: ex_records_def)

lemma ex_unsummarized:
  "filter (\<lambda>ob. matches (unsummarized_filter ''u1'' ''c1'') (obj_props ob)) ex_records = ex_records"
  by (simp add: ex_records_def ex_message_def unsummarized_filter_def chat_filter_def collection_names)

definition ex_fetched :: "item list" where
  "ex_fetched = map (to_item unsummarized_return_properties)
     (take memory_summarize_threshold (sort_key (\<lambda>ob. date_key ''created_at'' (obj_props ob)) ex_records))"

lemma ex_fetch:
  "get_unsummarized_messages ''u1'' ''c1'' memory_summarize_threshold ex_store = Inr ex_fetched"
  by (simp add: get_unsummarized_messages_def fetch_objects_def ex_store_def ex_unsummarized [unfolded ex_objects]
        ex_fetched_def)

lemma ex_fetched_length: "length ex_fetched = 10"
  by (simp add: ex_fetched_def ex_records_def memory_summarize_threshold_def)

lemma ex_sorted:
  "sort_by_created_at ex_fetched = Some (sort_key (\<lambda>m. date_key ''created_at'' (fst m)) ex_fetched)"
  by (simp add: sort_by_created_at_def ex_fetched_def ex_records_def memory_summarize_threshold_def
        to_item_def date_key_def ex_message_def unsummarized_return_properties_def)

lemma ex_ids:
  "message_ids_of (sort_key (\<lambda>m. date_key ''created_at'' (fst m)) ex_fetched) = rev ex_message_ids"
  by (simp add: ex_fetched_def ex_records_def memory_summarize_threshold_def ex_message_ids_def
        to_item_def date_key_def ex_message_def unsummarized_return_properties_def message_ids_of_def get_text_def)

lemma ex_few:
  "length (filter (\<lambda>ob. matches (mark_filter ''u1'' ''c1'' (rev ex_message_ids)) (obj_props ob)) ex_records) \<le>
   length (rev ex_message_ids) + 10"
  by (simp add: ex_records_def ex_message_ids_def)

definition ex_env_down :: "int sum_env" where
  "ex_env_down = ex_env\<lparr>insert_fails := True\<rparr>"

lemma ex_backed: "summary_backed ex_store"
  unfolding summary_backed_def ex_store_def by (auto simp: ex_records_def ex_message_def)

lemma ex_run:
  "\<exists>s'. summarize_and_vectorize ex_env ''c1'' ''u1'' ex_store = (Summarized (rev ex_message_ids), s')"
proof -
  let ?sms = "sort_key (\<lambda>m. date_key ''created_at'' (fst m)) ex_fetched"
  have enough: "memory_summarize_threshold div 2 \<le> length ex_fetched"
    by (simp add: ex_fetched_length memory_summarize_threshold_def)
  have ids: "message_ids_of ?sms \<noteq> []" by (simp add: ex_ids ex_message_ids_def)
  have few: "length (filter (\<lambda>ob. matches (mark_filter ''u1'' ''c1'' (message_ids_of ?sms)) (obj_props ob))
      (objects ex_store CHAT_MEMORY_COLLECTION_NAME ''u1'')) \<le> length (message_ids_of ?sms) + 10"
    using ex_few by (simp only: ex_ids ex_objects)
  have llm: "llm ex_env (join ''\<newline>'' (map message_line ?sms)) = Some ''sum''"
    by (simp add: ex_env_def)
  have emb: "embed ex_env ''sum'' = Some 0" by (simp add: ex_env_def)
  have ok: "\<not> fetch_fails ex_env" "\<not> insert_fails ex_env" "mark_fault ex_env = None"
    by (simp_all add: ex_env_def)
  show ?thesis
    using summarize_success_run [OF ex_wf ex_fetch enough ex_sorted ids llm _ emb ok few]
    by (auto simp: ex_ids)
qed

theorem summarize_success_witness:
  "\<exists>s'. summarize_and_vectorize ex_env ''c1'' ''u1'' ex_store = (Summarized (rev ex_message_ids), s') \<and>
     objects s' CHAT_MEMORY_COLLECTION_NAME ''u1'' =
       map (\<lambda>ob. if matches (mark_filter ''u1'' ''c1'' (rev ex_message_ids)) (obj_props ob)
                 then mark_obj ob else ob) ex_records @
       [\<lparr>obj_uuid = 10, obj_props = summary_metadata ''sum'' ''c1'' ''u1'' 100 ''t'', obj_vec = 0\<rparr>]"
proof -
  let ?sms = "sort_key (\<lambda>m. date_key ''created_at'' (fst m)) ex_fetched"
  have enough: "memory_summarize_threshold div 2 \<le> length ex_fetched"
    by (simp add: ex_fetched_length memory_summarize_threshold_def)
  have ids: "message_ids_of ?sms \<noteq> []" by (simp add: ex_ids ex_message_ids_def)
  have llm: "llm ex_env (join ''\<newline>'' (map message_line ?sms)) = Some ''sum''"
    by (simp add: ex_env_def)
  have emb: "embed ex_env ''sum'' = Some 0" by (simp add: ex_env_def)
  have ok: "\<not> fetch_fails ex_env" "\<not> insert_fails ex_env" "mark_fault ex_env = None"
    by (simp_all add: ex_env_def)
  have few: "length (filter (\<lambda>ob. matches (mark_filter ''u1'' ''c1'' (message_ids_of ?sms)) (obj_props ob))
      (objects ex_store CHAT_MEMORY_COLLECTION_NAME ''u1'')) \<le> length (message_ids_of ?sms) + 10"
    using ex_few by (simp only: ex_ids ex_objects)
  show ?thesis
    using summarize_success [OF ex_wf ex_fetch enough ex_sorted ids llm _ emb ok few]
    by (simp add: ex_ids ex_objects ex_store_def ex_env_def)
qed

theorem summarize_chat_trigger_witness:
  "{n \<in> {1..40}. fst (summarize_chat ex_env ''c1'' ''u1'' n ex_store) \<noteq> NotDue} = {20, 40}"
  by (rule summarize_chat_trigger)

theorem summarize_min_backlog_witness:
  "\<exists>ms. get_unsummarized_messages ''u1'' ''c1'' memory_summarize_threshold ex_store = Inr ms \<and>
        memory_summarize_threshold div 2 \<le> length ms \<and>
        length ms \<le> memory_summarize_threshold \<and> length (rev ex_message_ids) \<le> length ms"
  using ex_run summarize_min_backlog by blast

theorem summarize_chat_no_loss_witness:
  "grows ex_store (snd (summarize_chat ex_env ''c1'' ''u1'' 20 ex_store))"
  by (rule summarize_chat_no_loss)

theorem summarize_keeps_backed_witness:
  "wf_store ex_store \<and> summary_backed ex_store \<and>
   wf_store (snd (summarize_and_vectorize ex_env ''c1'' ''u1'' ex_store)) \<and>
   summary_backed (snd (summarize_and_vectorize ex_env ''c1'' ''u1'' ex_store))"
  using summarize_keeps_backed [OF ex_wf ex_backed] ex_wf ex_backed by simp

theorem summarize_store_failure_unchanged_witness:
  "(insert_fails ex_env_down \<or> fetch_fails ex_env_down) \<and>
   snd (summarize_and_vectorize ex_env_down ''c1'' ''u1'' ex_store) = ex_store"
proof -
  have h: "insert_fails ex_env_down \<or> fetch_fails ex_env_down" by (simp add: ex_env_down_def)
  show ?thesis using h summarize_store_failure_unchanged [OF h] by simp
qed

end
