(* ===== verification/Domain.thy ===== *)
theory Domain
  imports Prelude
begin

text \<open>
  The domain entities the memory engine reads: the \<open>Message\<close> aggregate of
  \<open>src/apps/api/src/domain/message/entities/message.py\<close> with its sender type and
  its soft deletion, and the exceptions of \<open>message_exceptions.py\<close> it raises.
  The \<open>SenderType\<close> value object is not under \<open>src/\<close>; it is modelled from the
  spec's sender roles \<open>user | assistant | system\<close>.
\<close>

section \<open>Sender type\<close>

datatype sender_type = SenderUser | SenderAssistant | SenderSystem

text \<open>\<open>sender_type.value\<close>.\<close>

fun sender_type_value :: "sender_type \<Rightarrow> string" where
  "sender_type_value SenderUser = ''user''"
| "sender_type_value SenderAssistant = ''assistant''"
| "sender_type_value SenderSystem = ''system''"

section \<open>Message\<close>

record message =
  msg_id :: string
  msg_content :: string
  msg_sender_type :: sender_type
  msg_chat_id :: chat_id
  msg_sender_id :: tenant
  msg_created_at :: timestamp
  msg_updated_at :: timestamp
  msg_deleted_at :: "timestamp option"

text \<open>The exceptions of \<open>message_exceptions.py\<close>.\<close>

datatype message_error =
    MessageNotFound string
  | MessageAlreadyDeleted
  | MessageDeliveryFailed
  | MessagePermissionDenied

text \<open>\<open>Message.create(content, sender_type, chat_id, sender_id)\<close>: a fresh id and the
  current time come from the environment; \<open>created_at\<close> and \<open>updated_at\<close> are both
  \<open>datetime.now()\<close> at creation, one second apart at most, taken equal here.\<close>

definition message_create ::
  "string \<Rightarrow> timestamp \<Rightarrow> string \<Rightarrow> sender_type \<Rightarrow> chat_id \<Rightarrow> tenant \<Rightarrow> message" where
  "message_create new_id created content st chat sender =
     \<lparr>msg_id = new_id, msg_content = content, msg_sender_type = st, msg_chat_id = chat,
      msg_sender_id = sender, msg_created_at = created, msg_updated_at = created,
      msg_deleted_at = None\<rparr>"

definition is_deleted :: "message \<Rightarrow> bool" where
  "is_deleted m \<longleftrightarrow> msg_deleted_at m \<noteq> None"

text \<open>\<open>Message.mark_as_deleted()\<close>.\<close>

definition mark_as_deleted :: "timestamp \<Rightarrow> message \<Rightarrow> message_error + message" where
  "mark_as_deleted t m =
     (if is_deleted m then Inl MessageAlreadyDeleted
      else Inr (m\<lparr>msg_deleted_at := Some t, msg_updated_at := t\<rparr>))"

text \<open>\<open>Message.__eq__\<close>: messages are equal when their ids are.\<close>

definition message_eq :: "message \<Rightarrow> message \<Rightarrow> bool" where
  "message_eq m1 m2 \<longleftrightarrow> msg_id m1 = msg_id m2"

lemma mark_as_deleted_once:
  "mark_as_deleted t m = Inr m' \<Longrightarrow> is_deleted m' \<and> mark_as_deleted t' m' = Inl MessageAlreadyDeleted"
  by (auto simp: mark_as_deleted_def is_deleted_def split: if_splits)

end
