(* ===== verification/Prompt.thy ===== *)
theory Prompt
  imports ChatMemory Domain
begin

text \<open>
  Retrieval and prompt assembly: \<open>MemoryRetrievalService\<close> of
  \<open>src/apps/api/src/infrastructure/memory/memory_retrieval_service.py\<close> and
  \<open>PromptBuilderService\<close> of \<open>prompt_builder_service.py\<close>. The builder joins a
  fixed system instruction, the formatted retrieved memories, the recent message
  buffer and the question into \<open>prompt_parts\<close>, and cuts the middle parts evenly
  when the estimated token count exceeds 8192.

  Token counting uses the module constant \<open>TIKTOKEN_ENCODING\<close>: the tiktoken
  encoding when it loaded (an encoder and a decoder over some token type), \<open>None\<close>
  otherwise, in which case a token is estimated as four characters. Python's float
  formatting \<open>f"{certainty:.2f}"\<close> is a parameter \<open>fmt\<close>. A character of the
  model's strings stands for one code point, as Python's \<open>len\<close> counts.
\<close>

section \<open>Python slicing\<close>

text \<open>\<open>xs[:i]\<close>: a negative bound counts from the end.\<close>

definition py_prefix :: "int \<Rightarrow> 'a list \<Rightarrow> 'a list" where
  "py_prefix i xs = (if 0 \<le> i then take (nat i) xs else take (length xs - nat (- i)) xs)"

section \<open>MemoryRetrievalService\<close>

text \<open>
  \<open>search_relevant_memories(user_id, chat_id, query, chat_limit=None)\<close>: encode the
  query, search the chat memories (three by default); any exception yields \<open>[]\<close>.
  \<open>embed_fn\<close> is \<open>encode_text\<close> after its retries, \<open>None\<close> when it raised.
\<close>

definition search_relevant_memories ::
  "('v \<Rightarrow> 'v \<Rightarrow> real) \<Rightarrow> (string \<Rightarrow> 'v option) \<Rightarrow> tenant \<Rightarrow> chat_id \<Rightarrow> string \<Rightarrow>
   nat option \<Rightarrow> 'v store \<Rightarrow> hit list" where
  "search_relevant_memories metric embed_fn user_id chat query chat_limit s =
     (let limit = (case chat_limit of None \<Rightarrow> 3 | Some l \<Rightarrow> l)
      in case embed_fn query of
           None \<Rightarrow> []
         | Some qv \<Rightarrow> (case search_chat_memories metric user_id chat qv limit s of
                        Inl _ \<Rightarrow> []
                      | Inr hs \<Rightarrow> hs))"

text \<open>
  \<open>format_memory_item(memory, prefix)\<close>: the content (\<open>"N/A"\<close> when missing) and,
  since every search result carries \<open>_additional.certainty\<close>, the relevance.
\<close>

definition format_memory_item :: "(real \<Rightarrow> string) \<Rightarrow> hit \<Rightarrow> string \<Rightarrow> string" where
  "format_memory_item fmt h prefix =
     prefix @ (case hit_props h ''content'' of Some (PText c) \<Rightarrow> c | _ \<Rightarrow> ''N/A'') @
     '' (relevance: '' @ fmt (hit_certainty h) @ '')''"

section \<open>PromptBuilderService\<close>

record 't encoding =
  encode :: "string \<Rightarrow> 't list"
  decode :: "'t list \<Rightarrow> string"

definition SYSTEM_PROMPT :: string where
  "SYSTEM_PROMPT =
     ''Please answer the question considering the user's profile information, past conversations, '' @
     ''and recent chat history. '' @
     ''Strive to provide consistent and personalized responses while utilizing the provided information.''"

definition MEMORY_HEADER :: string where
  "MEMORY_HEADER = ''\<newline>--- Related Past Conversations ---\<newline>''"

definition HISTORY_HEADER :: string where
  "HISTORY_HEADER = ''\<newline>--- Recent Chat History (Oldest First) ---\<newline>''"

definition MAX_TOKENS :: int where
  "MAX_TOKENS = 8192"

text \<open>
  The prefix of a retrieved memory. The source reads \<open>mem.get('type')\<close> and
  \<open>mem.get('sender')\<close> from the result dictionary.
\<close>

definition memory_prefix :: "hit \<Rightarrow> string" where
  "memory_prefix h =
     ''[Past '' @ (if hit_props h ''type'' = Some (PText ''message'') then ''message'' else ''summary'') @
     '' by '' @
     (if hit_props h ''sender'' = Some (PText ''user'') then ''User''
      else if hit_props h ''sender'' = Some (PText ''assistant'') then ''AI'' else ''System'') @
     '']: ''"

definition history_line :: "message \<Rightarrow> string" where
  "history_line m =
     (if sender_type_value (msg_sender_type m) = ''user'' then ''User'' else ''AI'') @ '': '' @
     msg_content m"

text \<open>\<open>_estimate_tokens(text)\<close>.\<close>

definition estimate_tokens :: "'t encoding option \<Rightarrow> string \<Rightarrow> nat" where
  "estimate_tokens enc text =
     (case enc of Some e \<Rightarrow> length (encode e text) | None \<Rightarrow> length text div 4)"

text \<open>\<open>_truncate_text_to_tokens(text, max_tokens)\<close>.\<close>

definition truncate_text_to_tokens :: "'t encoding option \<Rightarrow> string \<Rightarrow> int \<Rightarrow> string" where
  "truncate_text_to_tokens enc text max_tokens =
     (case enc of
        Some e \<Rightarrow> (let tokens = encode e text
                   in if int (length tokens) \<le> max_tokens then text
                      else decode e (py_prefix max_tokens tokens) @ ''...'')
      | None \<Rightarrow> (let max_chars = max_tokens * 4
                 in if int (length text) \<le> max_chars then text
                    else py_prefix max_chars text @ ''...''))"

text \<open>\<open>_apply_token_limit(full_prompt, prompt_parts)\<close>; \<open>parts[1:-1]\<close> is
  \<open>butlast (tl parts)\<close>.\<close>

definition apply_token_limit :: "'t encoding option \<Rightarrow> string \<Rightarrow> string list \<Rightarrow> string" where
  "apply_token_limit enc full_prompt prompt_parts =
     (let estimated = estimate_tokens enc full_prompt
      in if int estimated > MAX_TOKENS then
           let required = hd prompt_parts @ last prompt_parts;
               remain_tokens = MAX_TOKENS - int (estimate_tokens enc required);
               middle_parts = butlast (tl prompt_parts)
           in if middle_parts \<noteq> [] then
                let per_part = max (remain_tokens div int (length middle_parts)) 1;
                    truncated = map (\<lambda>p. truncate_text_to_tokens enc p per_part) middle_parts
                in hd prompt_parts @ ''\<newline>'' @ join ''\<newline>'' truncated @ last prompt_parts
              else full_prompt
         else full_prompt)"

text \<open>\<open>prompt_parts\<close> of \<open>_create_memory_prompt(buffer, chat_memories, user_query)\<close>.\<close>

definition prompt_parts :: "(real \<Rightarrow> string) \<Rightarrow> message list \<Rightarrow> hit list \<Rightarrow> string \<Rightarrow> string list" where
  "prompt_parts fmt buffer chat_memories user_query =
     [SYSTEM_PROMPT] @
     (if chat_memories \<noteq> []
      then [MEMORY_HEADER @ join ''\<newline>''
              (map (\<lambda>m. format_memory_item fmt m (memory_prefix m)) chat_memories)]
      else []) @
     (if buffer \<noteq> []
      then [HISTORY_HEADER @ join ''\<newline>''
              (map history_line (filter (\<lambda>m. \<not> is_deleted m) (rev buffer)))]
      else []) @
     [''\<newline>User: '' @ user_query @ ''\<newline>AI:'']"

definition create_memory_prompt ::
  "'t encoding option \<Rightarrow> (real \<Rightarrow> string) \<Rightarrow> message list \<Rightarrow> hit list \<Rightarrow> string \<Rightarrow> string" where
  "create_memory_prompt enc fmt buffer chat_memories user_query =
     (let parts = prompt_parts fmt buffer chat_memories user_query
      in apply_token_limit enc (join ''\<newline>'' parts) parts)"

text \<open>\<open>build_memory_prompt(buffer, user_query, user_id, chat_id)\<close>.\<close>

definition build_memory_prompt ::
  "('v \<Rightarrow> 'v \<Rightarrow> real) \<Rightarrow> (string \<Rightarrow> 'v option) \<Rightarrow> 't encoding option \<Rightarrow> (real \<Rightarrow> string) \<Rightarrow>
   message list \<Rightarrow> string \<Rightarrow> tenant \<Rightarrow> chat_id \<Rightarrow> 'v store \<Rightarrow> string" where
  "build_memory_prompt metric embed_fn enc fmt buffer user_query user_id chat s =
     create_memory_prompt enc fmt buffer
       (search_relevant_memories metric embed_fn user_id chat user_query None s) user_query"

section \<open>Example inputs\<close>

text \<open>A buffer message of 40000 characters, far over the budget.\<close>

definition ex_long_message :: message where
  "ex_long_message = message_create ''m1'' 0 (replicate 40000 (CHR ''a'')) SenderUser ''c1'' ''u1''"

section \<open>Token-limit lemmas\<close>

lemma parts_split:
  assumes "2 \<le> length parts"
  shows "parts = hd parts # butlast (tl parts) @ [last parts]"
proof -
  obtain a b xs where p: "parts = a # b # xs"
    using assms by (metis Suc_le_length_iff numeral_2_eq_2)
  then show ?thesis by simp
qed

lemma truncate_fallback_length:
  "0 \<le> k \<Longrightarrow> length (truncate_text_to_tokens None p k) \<le> 4 * nat k + 3"
  by (auto simp: truncate_text_to_tokens_def py_prefix_def Let_def nat_mult_distrib)

lemma apply_token_limit_under:
  "int (estimate_tokens enc full) \<le> MAX_TOKENS \<Longrightarrow> apply_token_limit enc full parts = full"
  by (simp add: apply_token_limit_def Let_def)

lemma apply_token_limit_ends:
  assumes "2 \<le> length parts" "full = join ''\<newline>'' parts"
  shows "\<exists>r. apply_token_limit enc full parts = hd parts @ ''\<newline>'' @ r @ last parts"
proof -
  have full: "full = hd parts @ ''\<newline>'' @
      (if butlast (tl parts) = [] then [] else join ''\<newline>'' (butlast (tl parts)) @ ''\<newline>'') @
      last parts"
    using assms parts_split [OF assms(1)] join_Cons_snoc by metis
  show ?thesis
    unfolding apply_token_limit_def Let_def using full by (auto split: if_splits)
qed

lemma join_truncated_length:
  assumes "0 \<le> k" "xs \<noteq> []"
  shows "length (join ''\<newline>'' (map (\<lambda>p. truncate_text_to_tokens None p k) xs))
           \<le> length xs * (4 * nat k + 3) + (length xs - 1)"
proof -
  have "sum_list (map length (map (\<lambda>p. truncate_text_to_tokens None p k) xs))
          \<le> length xs * (4 * nat k + 3)"
    unfolding map_map comp_def
    by (rule sum_list_map_le) (rule truncate_fallback_length [OF assms(1)])
  then show ?thesis using assms(2) by (simp add: length_join)
qed

lemma apply_token_limit_fallback_bound:
  assumes two: "2 \<le> length parts" and full: "full = join ''\<newline>'' parts"
    and fits: "int (length parts - 2) \<le> MAX_TOKENS - int (estimate_tokens (None :: 't encoding option) (hd parts @ last parts))"
  shows "int (estimate_tokens (None :: 't encoding option) (apply_token_limit (None :: 't encoding option) full parts))
           \<le> MAX_TOKENS + max 1 (int (length parts - 2))"
proof -
  define a z mid where "a = hd parts" and "z = last parts" and "mid = butlast (tl parts)"
  have parts: "parts = a # mid @ [z]" and n: "length mid = length parts - 2"
    using parts_split [OF two] two by (simp_all add: a_def z_def mid_def)
  define L where "L = length a + length z"
  have L4: "int L \<le> 4 * int (L div 4) + 3" by linarith
  have req: "estimate_tokens (None :: 't encoding option) (a @ z) = L div 4"
    by (simp add: estimate_tokens_def L_def)
  show ?thesis
  proof (cases "int (estimate_tokens (None :: 't encoding option) full) \<le> MAX_TOKENS")
    case True
    have "0 \<le> max 1 (int (length parts - 2))" by simp
    then show ?thesis using True by (simp add: apply_token_limit_under [OF True])
  next
    case over: False
    show ?thesis
    proof (cases "mid = []")
      case True
      then have "full = a @ ''\<newline>'' @ z" using full parts by simp
      then have "estimate_tokens (None :: 't encoding option) full \<le> L div 4 + 1"
        by (simp add: estimate_tokens_def L_def)
      moreover have "apply_token_limit (None :: 't encoding option) full parts = full"
        using True by (simp add: apply_token_limit_def Let_def mid_def)
      ultimately show ?thesis using fits req by (simp add: a_def z_def)
    next
      case False
      define m where "m = int (length mid)"
      define remain where "remain = MAX_TOKENS - int (L div 4)"
      define pp where "pp = remain div m"
      have m0: "0 < m" using False by (simp add: m_def)
      have "m \<le> remain" using fits req n by (simp add: m_def remain_def a_def z_def)
      then have pp1: "1 \<le> pp" using m0 zdiv_mono1 [of m remain m] by (simp add: pp_def)
      have "pp * m \<le> remain" unfolding pp_def
        using m0 by (metis div_mult_mod_eq le_add_same_cancel1 pos_mod_sign)
      have pmax: "max pp 1 = pp" using pp1 by simp
      define tr where "tr = join ''\<newline>'' (map (\<lambda>p. truncate_text_to_tokens (None :: 't encoding option) p pp) mid)"
      have res: "apply_token_limit (None :: 't encoding option) full parts = a @ ''\<newline>'' @ tr @ z"
        using over False pmax req
        by (simp add: apply_token_limit_def Let_def a_def z_def mid_def tr_def pp_def remain_def m_def)
      have "length tr \<le> length mid * (4 * nat pp + 3) + (length mid - 1)"
        unfolding tr_def using join_truncated_length [of pp mid] pp1 False by simp
      then have "int (length tr) \<le> int (length mid * (4 * nat pp + 3) + (length mid - 1))"
        by (simp only: of_nat_le_iff)
      also have "\<dots> = 4 * (m * pp) + 4 * m - 1"
      proof -
        have "1 \<le> length mid" using False by (simp add: Suc_le_eq)
        then show ?thesis using pp1 by (simp add: m_def algebra_simps of_nat_diff)
      qed
      finally have "int (length tr) \<le> 4 * (m * pp) + 4 * m - 1" .
      then have "int (length (a @ ''\<newline>'' @ tr @ z)) \<le> 4 * (MAX_TOKENS + m) + 3"
        using \<open>pp * m \<le> remain\<close> L4 by (simp add: L_def remain_def algebra_simps)
      then have "int (length (a @ ''\<newline>'' @ tr @ z) div 4) \<le> MAX_TOKENS + m"
        by (simp add: zdiv_int [symmetric])
      then show ?thesis using res m0 n by (simp add: estimate_tokens_def m_def)
    qed
  qed
qed

section \<open>The prompt\<close>

lemma prompt_parts_length:
  "2 \<le> length (prompt_parts fmt buffer mems q) \<and> length (prompt_parts fmt buffer mems q) \<le> 4"
  by (simp add: prompt_parts_def)

lemma hd_last_prompt_parts:
  "hd (prompt_parts fmt buffer mems q) = SYSTEM_PROMPT"
  "last (prompt_parts fmt buffer mems q) = ''\<newline>User: '' @ q @ ''\<newline>AI:''"
  by (simp_all add: prompt_parts_def)

lemma length_SYSTEM_PROMPT: "length SYSTEM_PROMPT = 213"
  by (simp add: SYSTEM_PROMPT_def)

text \<open>Claim C11: a prompt whose estimate is within the budget is returned as the plain
  newline-joined concatenation of its parts.\<close>

lemma create_memory_prompt_under:
  "int (estimate_tokens enc (join ''\<newline>'' (prompt_parts fmt buffer mems q))) \<le> MAX_TOKENS \<Longrightarrow>
   create_memory_prompt enc fmt buffer mems q = join ''\<newline>'' (prompt_parts fmt buffer mems q)"
  by (simp add: create_memory_prompt_def apply_token_limit_under)

text \<open>Claim C10: whatever the estimator and the inputs, the prompt starts with the system
  instruction and a newline and ends with the question suffix, verbatim.\<close>

lemma create_memory_prompt_keeps_ends:
  "\<exists>r. create_memory_prompt enc fmt buffer mems q =
         SYSTEM_PROMPT @ ''\<newline>'' @ r @ ''\<newline>User: '' @ q @ ''\<newline>AI:''"
  using apply_token_limit_ends [OF conjunct1 [OF prompt_parts_length] refl, of enc fmt buffer mems q]
  by (simp add: create_memory_prompt_def hd_last_prompt_parts Let_def)

text \<open>Claim C12: with the four-characters-per-token estimator and a question of at most
  32000 characters, the returned prompt is estimated at no more than two tokens over the budget
  (one per truncated block: the ellipsis and the joining newlines are not reserved).\<close>

lemma create_memory_prompt_fallback_bound:
  assumes "length q \<le> 32000"
  shows "int (estimate_tokens (None :: 't encoding option) (create_memory_prompt (None :: 't encoding option) fmt buffer mems q))
           \<le> MAX_TOKENS + 2"
proof -
  let ?p = "prompt_parts fmt buffer mems q"
  have "(224 + length q) div 4 \<le> 32224 div 4"
    by (rule div_le_mono) (use assms in simp)
  then have "int (length ?p - 2) \<le> MAX_TOKENS - int (estimate_tokens (None :: 't encoding option) (hd ?p @ last ?p))"
    using prompt_parts_length [of fmt buffer mems q]
    by (simp add: hd_last_prompt_parts estimate_tokens_def length_SYSTEM_PROMPT MAX_TOKENS_def)
  from apply_token_limit_fallback_bound [OF conjunct1 [OF prompt_parts_length] refl this]
  show ?thesis using prompt_parts_length [of fmt buffer mems q]
    by (auto simp: create_memory_prompt_def Let_def max_def split: if_splits)
qed

text \<open>With no retrieved memory and an empty buffer there is no middle block to cut, so the
  prompt is returned whole whatever the length of the question.\<close>

lemma create_memory_prompt_no_context:
  "create_memory_prompt enc fmt [] [] q = SYSTEM_PROMPT @ ''\<newline>'' @ ''\<newline>User: '' @ q @ ''\<newline>AI:''"
  by (simp add: create_memory_prompt_def prompt_parts_def apply_token_limit_def Let_def)


section \<open>Retrieved memories in the prompt\<close>

lemma to_hit_no_type:
  "hit_props (to_hit search_return_properties x) ''type'' = None"
  by (simp add: to_hit_def search_return_properties_def)

lemma search_relevant_memories_no_type:
  assumes "h \<in> set (search_relevant_memories metric embed_fn user_id chat query limit s)"
  shows "hit_props h ''type'' = None"
proof -
  have "hit_props h ''type'' = None"
    if "h \<in> set (case search_chat_memories metric user_id chat qv n s of Inl _ \<Rightarrow> [] | Inr hs \<Rightarrow> hs)"
    for qv n
    using that
    by (cases "near_vector metric CHAT_MEMORY_COLLECTION_NAME user_id qv
                 (chat_filter user_id chat (ContainsAny ''memory_type''
                    [PText TYPE_MESSAGE, PText TYPE_SUMMARY])) n s")
       (auto simp: search_chat_memories_def to_hit_no_type)
  then show ?thesis
    using assms by (auto simp: search_relevant_memories_def Let_def split: option.splits)
qed

lemma memory_prefix_untyped:
  "hit_props h ''type'' = None \<Longrightarrow> take 13 (memory_prefix h) = ''[Past summary''"
  by (simp add: memory_prefix_def)

text \<open>Claim C27: every memory the retrieval service returns is labelled a summary in the
  prompt, messages included: the search returns the property \<open>memory_type\<close>, and the
  builder reads the key \<open>type\<close>, which is never present.\<close>

lemma memory_prefix_always_summary:
  "list_all (\<lambda>h. take 13 (memory_prefix h) = ''[Past summary'')
     (search_relevant_memories metric embed_fn user_id chat query limit s)"
  unfolding list_all_iff
  using search_relevant_memories_no_type memory_prefix_untyped by blast

section \<open>Witnesses\<close>

lemma create_memory_prompt_under_witness:
  "int (estimate_tokens (None :: nat encoding option)
      (join ''\<newline>'' (prompt_parts (\<lambda>_. ''0.90'') [] [] ''hi''))) \<le> MAX_TOKENS \<and>
   create_memory_prompt (None :: nat encoding option) (\<lambda>_. ''0.90'') [] [] ''hi'' =
     join ''\<newline>'' (prompt_parts (\<lambda>_. ''0.90'') [] [] ''hi'')"
proof -
  have est: "int (estimate_tokens (None :: nat encoding option)
      (join ''\<newline>'' (prompt_parts (\<lambda>_. ''0.90'') [] [] ''hi''))) \<le> MAX_TOKENS"
    by (simp add: estimate_tokens_def prompt_parts_def length_SYSTEM_PROMPT MAX_TOKENS_def)
  show ?thesis using est create_memory_prompt_under [OF est] by simp
qed

lemma create_memory_prompt_fallback_bound_witness:
  "length ''hi'' \<le> 32000 \<and>
   int (estimate_tokens (None :: nat encoding option)
     (create_memory_prompt (None :: nat encoding option) (\<lambda>_. ''0.90'') [ex_long_message] [] ''hi''))
     \<le> MAX_TOKENS + 2"
  using create_memory_prompt_fallback_bound [of "''hi''" "\<lambda>_. ''0.90''" "[ex_long_message]" "[]"]
  by simp

end
