(* ===== verification/MessageFlow.thy ===== *)
theory MessageFlow
  imports Summarization Prompt
begin

text \<open>
  The message use case that drives the memory engine:
  \<open>CreateMessageUseCaseImpl.execute\<close> of
  \<open>src/apps/api/src/usecase/message/create_message_usecase.py\<close> with the
  \<open>MessageProcessor\<close> of \<open>message_processor.py\<close>, the message table of
  \<open>infrastructure/postgres/message/message_repository.py\<close> and
  \<open>VectorizationService.vectorize_message\<close> of
  \<open>infrastructure/memory/vectorization_service.py\<close>.

  One request saves and vectorizes the user's message, counts the chat's messages
  and hands the count to \<open>summarize_chat\<close>, reads the five latest messages,
  builds the prompt, streams the answer and saves and vectorizes it. The message
  table is a list of rows in insertion order; the vector store is the model of
  \<open>Store\<close>. The clock, \<open>uuid4\<close>, the embedding provider, the tokenizer and the
  answer generator come from an environment. The chat aggregate
  (\<open>ChatManager.ensure_chat_exists\<close>) belongs to the relational side the
  specification leaves out and is not modelled.
\<close>

section \<open>Environment and state\<close>

record ('v, 't) flow_env =
  fe_sum :: "'v sum_env"
  fe_uuid :: "nat \<Rightarrow> string"
  fe_clock :: "nat \<Rightarrow> timestamp"
  fe_vec_fails :: bool
  fe_metric :: "'v \<Rightarrow> 'v \<Rightarrow> real"
  fe_tokenizer :: "'t encoding option"
  fe_fmt :: "real \<Rightarrow> string"
  fe_generate :: "string \<Rightarrow> string option"

record 'v app =
  rows :: "message list"
  vstore :: "'v store"
  seq :: nat

section \<open>MessageRepositoryImpl\<close>

text \<open>\<open>save(message)\<close>: overwrite the row with the message's id, or add one.\<close>

definition repo_save :: "message \<Rightarrow> message list \<Rightarrow> message list" where
  "repo_save m rs =
     (if msg_id m \<in> set (map msg_id rs)
      then map (\<lambda>r. if msg_id r = msg_id m then m else r) rs
      else rs @ [m])"

definition live_in_chat :: "chat_id \<Rightarrow> message \<Rightarrow> bool" where
  "live_in_chat chat m \<longleftrightarrow> msg_chat_id m = chat \<and> msg_deleted_at m = None"

text \<open>\<open>count_by_chat_id(chat_id)\<close>.\<close>

definition repo_count_by_chat_id :: "chat_id \<Rightarrow> message list \<Rightarrow> nat" where
  "repo_count_by_chat_id chat rs = length (filter (live_in_chat chat) rs)"

text \<open>
  \<open>find_latest_by_chat_id(chat_id, limit)\<close>: newest first. SQL leaves the order of
  equal timestamps open; the model keeps them in insertion order.
\<close>

definition repo_find_latest_by_chat_id :: "chat_id \<Rightarrow> nat \<Rightarrow> message list \<Rightarrow> message list" where
  "repo_find_latest_by_chat_id chat limit rs =
     take limit (sort_key (\<lambda>m. - msg_created_at m) (filter (live_in_chat chat) rs))"

section \<open>VectorizationService\<close>

definition vectorize_metadata :: "message \<Rightarrow> props" where
  "vectorize_metadata m =
     [''chat_id'' \<mapsto> PText (msg_chat_id m),
      ''content'' \<mapsto> PText (msg_content m),
      ''created_at'' \<mapsto> PDate (msg_created_at m),
      ''memory_type'' \<mapsto> PText TYPE_MESSAGE,
      ''message_id'' \<mapsto> PText (msg_id m),
      ''sender'' \<mapsto> PText (sender_type_value (msg_sender_type m)),
      ''user_id'' \<mapsto> PText (msg_sender_id m)]"

text \<open>\<open>vectorize_message(message)\<close>: every error is logged and dropped.\<close>

definition vectorize_message :: "('v, 't) flow_env \<Rightarrow> message \<Rightarrow> 'v store \<Rightarrow> 'v store" where
  "vectorize_message env m s =
     (case embed (fe_sum env) (msg_content m) of
        None \<Rightarrow> s
      | Some vec \<Rightarrow>
          if fe_vec_fails env then s
          else (case crud_add_memory vec (vectorize_metadata m) (msg_sender_id m)
                       CHAT_MEMORY_COLLECTION_NAME s of
                  Inl _ \<Rightarrow> s
                | Inr (_, s') \<Rightarrow> s'))"

section \<open>MessageProcessor\<close>

text \<open>\<open>save_user_message\<close> and \<open>save_ai_message\<close>: create the message (a fresh
  \<open>uuid4\<close> and the current time), save it, vectorize it.\<close>

definition save_message ::
  "('v, 't) flow_env \<Rightarrow> sender_type \<Rightarrow> string \<Rightarrow> tenant \<Rightarrow> chat_id \<Rightarrow> 'v app \<Rightarrow> message \<times> 'v app" where
  "save_message env st content sender chat a =
     (let k = seq a;
          m = message_create (fe_uuid env k) (fe_clock env k) content st chat sender
      in (m, a\<lparr>rows := repo_save m (rows a), vstore := vectorize_message env m (vstore a),
               seq := Suc k\<rparr>))"

definition save_user_message ::
  "('v, 't) flow_env \<Rightarrow> string \<Rightarrow> tenant \<Rightarrow> chat_id \<Rightarrow> 'v app \<Rightarrow> message \<times> 'v app" where
  "save_user_message env = save_message env SenderUser"

definition save_ai_message ::
  "('v, 't) flow_env \<Rightarrow> string \<Rightarrow> tenant \<Rightarrow> chat_id \<Rightarrow> 'v app \<Rightarrow> message \<times> 'v app" where
  "save_ai_message env = save_message env SenderAssistant"

text \<open>\<open>process_summarization(chat_id, sender_id)\<close>.\<close>

definition process_summarization ::
  "('v, 't) flow_env \<Rightarrow> chat_id \<Rightarrow> tenant \<Rightarrow> 'v app \<Rightarrow> sum_outcome \<times> 'v app" where
  "process_summarization env chat sender a =
     (let (out, s') = summarize_chat (fe_sum env) chat sender
                        (repo_count_by_chat_id chat (rows a)) (vstore a)
      in (out, a\<lparr>vstore := s'\<rparr>))"

text \<open>\<open>get_latest_messages(chat_id)\<close>: the five newest, re-sorted oldest first.\<close>

definition get_latest_messages :: "chat_id \<Rightarrow> message list \<Rightarrow> message list" where
  "get_latest_messages chat rs = sort_key msg_created_at (repo_find_latest_by_chat_id chat 5 rs)"

section \<open>CreateMessageUseCaseImpl\<close>

text \<open>
  \<open>execute(content, sender_id, chat_id)\<close>: the summarization outcome, the prompt
  handed to the model, and the new state. When the answer stream raises
  (\<open>fe_generate\<close> gives \<open>None\<close>) the generator stops before the answer is saved.
\<close>

definition execute ::
  "('v, 't) flow_env \<Rightarrow> string \<Rightarrow> tenant \<Rightarrow> chat_id \<Rightarrow> 'v app \<Rightarrow>
   (sum_outcome \<times> string) \<times> 'v app" where
  "execute env content sender chat a =
     (let (_, a1) = save_user_message env content sender chat a;
          (out, a2) = process_summarization env chat sender a1;
          latest = get_latest_messages chat (rows a2);
          prompt = build_memory_prompt (fe_metric env) (embed (fe_sum env)) (fe_tokenizer env)
                     (fe_fmt env) latest content sender chat (vstore a2)
      in case fe_generate env prompt of
           None \<Rightarrow> ((out, prompt), a2)
         | Some answer \<Rightarrow> ((out, prompt), snd (save_ai_message env answer sender chat a2)))"

text \<open>A conversation: one user sends a sequence of messages to one chat.\<close>

fun run_chat ::
  "('v, 't) flow_env \<Rightarrow> tenant \<Rightarrow> chat_id \<Rightarrow> string list \<Rightarrow> 'v app \<Rightarrow> sum_outcome list \<times> 'v app" where
  "run_chat env sender chat [] a = ([], a)"
| "run_chat env sender chat (q # qs) a =
     (let ((out, _), a1) = execute env q sender chat a;
          (outs, a2) = run_chat env sender chat qs a1
      in (out # outs, a2))"

text \<open>Ids still to be drawn are not in the table.\<close>

definition fresh_ids :: "('v, 't) flow_env \<Rightarrow> 'v app \<Rightarrow> bool" where
  "fresh_ids env a \<longleftrightarrow> (\<forall>k \<ge> seq a. fe_uuid env k \<notin> set (map msg_id (rows a)))"

text \<open>No chat-memory record carries \<open>is_summarized = false\<close>.\<close>

definition no_false_flag :: "'v store \<Rightarrow> bool" where
  "no_false_flag s \<longleftrightarrow>
     (\<forall>t. \<forall>ob \<in> set (objects s CHAT_MEMORY_COLLECTION_NAME t).
        obj_props ob ''is_summarized'' \<noteq> Some (PBool False))"

section \<open>Example inputs\<close>

definition ex_sum_env :: "nat sum_env" where
  "ex_sum_env = \<lparr>llm = \<lambda>_. None, embed = \<lambda>_. Some 0, now = 0, fmt_time = \<lambda>_. [],
                 fetch_fails = False, insert_fails = False, mark_fault = None\<rparr>"

definition ex_flow_env :: "(nat, nat) flow_env" where
  "ex_flow_env = \<lparr>fe_sum = ex_sum_env, fe_uuid = \<lambda>k. replicate (Suc k) (CHR ''m''),
                  fe_clock = int, fe_vec_fails = False, fe_metric = \<lambda>_ _. 0,
                  fe_tokenizer = None, fe_fmt = \<lambda>_. ''0.00'', fe_generate = \<lambda>_. Some ''ok''\<rparr>"

definition ex_app :: "nat app" where
  "ex_app = \<lparr>rows = [], vstore = empty_store\<lparr>collections := {CHAT_MEMORY_COLLECTION_NAME}\<rparr>, seq = 0\<rparr>"

definition ex_row :: "nat \<Rightarrow> message" where
  "ex_row k = message_create (replicate (Suc k) (CHR ''r'')) (int k) ''hello'' SenderUser ''c1'' ''u1''"

section \<open>Repository\<close>

lemma repo_save_fresh:
  "msg_id m \<notin> set (map msg_id rs) \<Longrightarrow> repo_save m rs = rs @ [m]"
  by (simp add: repo_save_def)

lemma repo_count_snoc:
  "repo_count_by_chat_id chat (rs @ [m]) =
   repo_count_by_chat_id chat rs + (if live_in_chat chat m then 1 else 0)"
  by (simp add: repo_count_by_chat_id_def)

lemma live_message_create [simp]:
  "live_in_chat chat (message_create i t c st chat' u) \<longleftrightarrow> chat' = chat"
  by (auto simp: live_in_chat_def message_create_def)

lemma save_message_rows:
  assumes "inj (fe_uuid env)" "fresh_ids env a"
  shows "rows (snd (save_message env st c u chat a)) = rows a @ [fst (save_message env st c u chat a)]"
    and "fresh_ids env (snd (save_message env st c u chat a))"
    and "live_in_chat chat (fst (save_message env st c u chat a))"
    and "seq (snd (save_message env st c u chat a)) = Suc (seq a)"
proof -
  have new: "fe_uuid env (seq a) \<notin> set (map msg_id (rows a))"
    using assms(2) by (simp add: fresh_ids_def)
  show rs: "rows (snd (save_message env st c u chat a)) = rows a @ [fst (save_message env st c u chat a)]"
    using new by (simp add: save_message_def Let_def repo_save_fresh message_create_def)
  show "live_in_chat chat (fst (save_message env st c u chat a))"
    by (simp add: save_message_def Let_def)
  show "seq (snd (save_message env st c u chat a)) = Suc (seq a)"
    by (simp add: save_message_def Let_def)
  have "fe_uuid env k \<noteq> fe_uuid env (seq a)" if "Suc (seq a) \<le> k" for k
    using assms(1) that by (auto dest: injD)
  then show "fresh_ids env (snd (save_message env st c u chat a))"
    using assms(2) rs
    by (auto simp: fresh_ids_def save_message_def Let_def message_create_def)
qed

lemma process_summarization_rows [simp]:
  "rows (snd (process_summarization env chat u a)) = rows a"
  "seq (snd (process_summarization env chat u a)) = seq a"
  by (simp_all add: process_summarization_def split: prod.splits)

lemma fresh_ids_process_summarization [simp]:
  "fresh_ids env (snd (process_summarization env chat u a)) = fresh_ids env a"
  by (simp add: fresh_ids_def)

lemma execute_eq:
  "execute env q u chat a =
     (let a1 = snd (save_user_message env q u chat a);
          p = process_summarization env chat u a1;
          prompt = build_memory_prompt (fe_metric env) (embed (fe_sum env)) (fe_tokenizer env)
                     (fe_fmt env) (get_latest_messages chat (rows (snd p))) q u chat (vstore (snd p))
      in ((fst p, prompt),
          case fe_generate env prompt of
            None \<Rightarrow> snd p
          | Some answer \<Rightarrow> snd (save_ai_message env answer u chat (snd p))))"
  by (simp add: execute_def Let_def case_prod_beta split: option.splits)

lemma process_summarization_outcome:
  "fst (process_summarization env chat u a) =
   fst (summarize_chat (fe_sum env) chat u (repo_count_by_chat_id chat (rows a)) (vstore a))"
  by (simp add: process_summarization_def split: prod.splits)

lemma execute_rows:
  assumes inj: "inj (fe_uuid env)" and fresh: "fresh_ids env a"
    and gen: "\<forall>p. fe_generate env p \<noteq> None"
  shows "repo_count_by_chat_id chat (rows (snd (execute env q u chat a))) =
           repo_count_by_chat_id chat (rows a) + 2"
    and "fresh_ids env (snd (execute env q u chat a))"
    and "fst (fst (execute env q u chat a)) =
           fst (summarize_chat (fe_sum env) chat u (Suc (repo_count_by_chat_id chat (rows a)))
                  (vstore (snd (save_user_message env q u chat a))))"
proof -
  define a1 where "a1 = snd (save_user_message env q u chat a)"
  define p where "p = process_summarization env chat u a1"
  define prompt where "prompt = build_memory_prompt (fe_metric env) (embed (fe_sum env))
     (fe_tokenizer env) (fe_fmt env) (get_latest_messages chat (rows (snd p))) q u chat (vstore (snd p))"
  obtain answer where answer: "fe_generate env prompt = Some answer" using gen by auto
  have ex: "execute env q u chat a = ((fst p, prompt), snd (save_ai_message env answer u chat (snd p)))"
    using answer by (simp add: execute_eq a1_def p_def prompt_def Let_def)
  have r1: "repo_count_by_chat_id chat (rows a1) = Suc (repo_count_by_chat_id chat (rows a))"
    and f1: "fresh_ids env a1"
    using save_message_rows [OF inj fresh, where st=SenderUser and c=q and u=u and chat=chat]
    by (simp_all add: a1_def save_user_message_def repo_count_snoc)
  have f2: "fresh_ids env (snd p)" using f1 by (simp add: p_def)
  show "repo_count_by_chat_id chat (rows (snd (execute env q u chat a))) =
          repo_count_by_chat_id chat (rows a) + 2"
    using save_message_rows [OF inj f2, where st=SenderAssistant and c=answer and u=u and chat=chat] r1
    by (simp add: ex save_ai_message_def repo_count_snoc p_def)
  show "fresh_ids env (snd (execute env q u chat a))"
    using save_message_rows [OF inj f2, where st=SenderAssistant and c=answer and u=u and chat=chat]
    by (simp add: ex save_ai_message_def)
  show "fst (fst (execute env q u chat a)) =
          fst (summarize_chat (fe_sum env) chat u (Suc (repo_count_by_chat_id chat (rows a)))
                 (vstore (snd (save_user_message env q u chat a))))"
    using r1 by (simp add: ex p_def process_summarization_outcome a1_def)
qed

lemma summarize_due_even: "summarize_due n \<Longrightarrow> even n"
  by (simp add: summarize_due_def memory_summarize_threshold_def) presburger

lemma summarize_chat_not_due:
  "\<not> summarize_due n \<Longrightarrow> summarize_chat env chat u n s = (NotDue, s)"
  by (simp add: summarize_chat_def)

text \<open>Claim C2: in the message flow every request saves two messages, the question and the
  answer, and counts the chat between them; from an even count the count handed to
  summarization is always odd, so with the threshold 20 no request of a conversation ever
  summarizes.\<close>

theorem run_chat_never_summarizes:
  assumes "inj (fe_uuid env)" "fresh_ids env a" "even (repo_count_by_chat_id chat (rows a))"
    and "\<forall>p. fe_generate env p \<noteq> None"
  shows "set (fst (run_chat env u chat qs a)) \<subseteq> {NotDue}"
  using assms(2,3)
proof (induction qs arbitrary: a)
  case Nil
  then show ?case by simp
next
  case (Cons q qs)
  note step = execute_rows [OF assms(1) Cons.prems(1) assms(4), where q=q and u=u and chat=chat]
  have "\<not> summarize_due (Suc (repo_count_by_chat_id chat (rows a)))"
    using Cons.prems(2) summarize_due_even by fastforce
  then have "fst (fst (execute env q u chat a)) = NotDue"
    using step(3) by (simp add: summarize_chat_not_due)
  moreover have "set (fst (run_chat env u chat qs (snd (execute env q u chat a)))) \<subseteq> {NotDue}"
    using Cons.IH [OF step(2)] step(1) Cons.prems(2) by simp
  ultimately show ?case by (simp add: Let_def case_prod_beta)
qed

section \<open>Tenant frame\<close>

definition only_tenant :: "tenant \<Rightarrow> 'v store \<Rightarrow> 'v store \<Rightarrow> bool" where
  "only_tenant u s s' \<longleftrightarrow>
     collections s' = collections s \<and> (\<forall>c t. t \<noteq> u \<longrightarrow> objects s' c t = objects s c t)"

lemma only_tenant_refl [simp]: "only_tenant u s s"
  by (simp add: only_tenant_def)

lemma only_tenant_trans: "only_tenant u s1 s2 \<Longrightarrow> only_tenant u s2 s3 \<Longrightarrow> only_tenant u s1 s3"
  by (simp add: only_tenant_def)

lemma insert_obj_only_tenant: "insert_obj c u ps v s = Inr (i, s') \<Longrightarrow> only_tenant u s s'"
  by (auto simp: only_tenant_def dest!: insert_obj_Inr)

lemma update_each_only_tenant:
  "update_each c u ps us s = Inr s' \<Longrightarrow> only_tenant u s s'"
  unfolding only_tenant_def
  using update_each_collections update_each_other by fastforce

lemma vectorize_message_only_tenant:
  "only_tenant (msg_sender_id m) s (vectorize_message env m s)"
  by (auto simp: vectorize_message_def crud_add_memory_def intro: insert_obj_only_tenant
           split: option.splits sum.splits)

lemma save_summary_only_tenant:
  "save_summary_to_vector_store env summary chat u s = Inr s' \<Longrightarrow> only_tenant u s s'"
  by (auto simp: save_summary_to_vector_store_def crud_add_memory_def intro: insert_obj_only_tenant
           split: option.splits if_splits sum.splits)

lemma env_mark_only_tenant:
  "env_mark env u chat ids s = Inl (e, s') \<or> env_mark env u chat ids s = Inr s' \<Longrightarrow>
   only_tenant u s s'"
  by (auto simp: env_mark_def mark_messages_as_summarized_def intro: update_each_only_tenant
           split: option.splits if_splits sum.splits)

lemma summarize_chat_only_tenant:
  "only_tenant u s (snd (summarize_chat env chat u n s))"
  by (rule summarize_chat_rule;
      metis only_tenant_refl only_tenant_trans save_summary_only_tenant env_mark_only_tenant)

lemma process_summarization_vstore:
  "vstore (snd (process_summarization env chat u a)) =
   snd (summarize_chat (fe_sum env) chat u (repo_count_by_chat_id chat (rows a)) (vstore a))"
  by (simp add: process_summarization_def split: prod.splits)

lemma save_message_sender [simp]:
  "msg_sender_id (fst (save_message env st c u chat a)) = u"
  by (simp add: save_message_def Let_def message_create_def)

lemma save_message_only_tenant:
  "only_tenant u (vstore a) (vstore (snd (save_message env st c u chat a)))"
  using vectorize_message_only_tenant [of "fst (save_message env st c u chat a)"]
  by (simp add: save_message_def Let_def message_create_def)

lemma execute_only_tenant:
  "only_tenant u (vstore a) (vstore (snd (execute env q u chat a)))"
proof -
  define a1 where "a1 = snd (save_user_message env q u chat a)"
  define p where "p = process_summarization env chat u a1"
  have "only_tenant u (vstore a) (vstore a1)"
    using save_message_only_tenant [of u a env SenderUser q chat]
    by (simp add: a1_def save_user_message_def)
  moreover have "only_tenant u (vstore a1) (vstore (snd p))"
    unfolding p_def process_summarization_vstore by (rule summarize_chat_only_tenant)
  ultimately have p: "only_tenant u (vstore a) (vstore (snd p))"
    by (rule only_tenant_trans)
  have "only_tenant u (vstore (snd p)) (vstore (snd (save_ai_message env ans u chat (snd p))))"
    for ans
    using save_message_only_tenant [of u "snd p" env SenderAssistant] by (simp add: save_ai_message_def)
  then have "only_tenant u (vstore a) (vstore (snd (save_ai_message env ans u chat (snd p))))" for ans
    using p only_tenant_trans by blast
  with p show ?thesis
    by (simp add: execute_eq Let_def a1_def [symmetric] p_def [symmetric] split: option.splits)
qed

lemma search_chat_memories_frame:
  "collections s' = collections s \<Longrightarrow>
   objects s' CHAT_MEMORY_COLLECTION_NAME t = objects s CHAT_MEMORY_COLLECTION_NAME t \<Longrightarrow>
   search_chat_memories metric t chat qv n s' = search_chat_memories metric t chat qv n s"
  unfolding search_chat_memories_def Let_def
  by (subst near_vector_cong [of s' s]) simp_all

lemma search_relevant_memories_frame:
  assumes "only_tenant u s s'" "t \<noteq> u"
  shows "search_relevant_memories metric emb t chat q limit s' =
         search_relevant_memories metric emb t chat q limit s"
proof -
  have "search_chat_memories metric t chat qv n s' = search_chat_memories metric t chat qv n s" for qv n
    using assms by (intro search_chat_memories_frame) (simp_all add: only_tenant_def)
  then show ?thesis
    unfolding search_relevant_memories_def Let_def by (simp split: option.splits)
qed

text \<open>Claim C7: a request of user \<open>u\<close> changes no search result of another user: every
  write of the request is scoped to the tenant \<open>u\<close>.\<close>

theorem execute_tenant_isolation:
  "t \<noteq> u \<Longrightarrow>
   search_relevant_memories metric emb t chat' query limit (vstore (snd (execute env content u chat a))) =
   search_relevant_memories metric emb t chat' query limit (vstore a)"
  using search_relevant_memories_frame [OF execute_only_tenant] by blast

section \<open>The unsummarized backlog\<close>

lemma vectorize_message_rule:
  assumes "P s"
    and "\<And>v i s'. insert_obj CHAT_MEMORY_COLLECTION_NAME (msg_sender_id m) (vectorize_metadata m) v s
                     = Inr (i, s') \<Longrightarrow> P s'"
  shows "P (vectorize_message env m s)"
  using assms by (auto simp: vectorize_message_def crud_add_memory_def split: option.splits sum.splits)

lemma vectorize_metadata_unflagged [simp]: "vectorize_metadata m ''is_summarized'' = None"
  by (simp add: vectorize_metadata_def)

lemma summary_metadata_unflagged [simp]: "summary_metadata summary chat u ts tstr ''is_summarized'' = None"
  by (simp add: summary_metadata_def)

lemma get_unsummarized_insert_unflagged:
  assumes ins: "insert_obj c t ps v s = Inr (i, s')" and flag: "ps ''is_summarized'' = None"
  shows "get_unsummarized_messages u chat n s' = get_unsummarized_messages u chat n s"
proof -
  let ?f = "\<lambda>ob. matches (unsummarized_filter u chat) (obj_props ob)"
  have "filter ?f (objects s' CHAT_MEMORY_COLLECTION_NAME u) = filter ?f (objects s CHAT_MEMORY_COLLECTION_NAME u)"
    using insert_obj_Inr [OF ins] flag by (auto simp: unsummarized_filter_def chat_filter_def)
  moreover have "collections s' = collections s" using insert_obj_Inr [OF ins] by simp
  ultimately show ?thesis
    unfolding get_unsummarized_messages_def by (subst fetch_objects_cong [of s' s]) simp_all
qed

text \<open>Claim C3: vectorizing a message never adds to the backlog of unsummarized messages:
  its record has no \<open>is_summarized\<close> property, and the backlog query asks for
  \<open>is_summarized = false\<close>, which a missing property never equals.\<close>

theorem vectorize_message_not_unsummarized:
  "get_unsummarized_messages u chat n (vectorize_message env m s) = get_unsummarized_messages u chat n s"
  by (rule vectorize_message_rule) (simp_all add: get_unsummarized_insert_unflagged)

lemma no_false_flag_insert:
  "no_false_flag s \<Longrightarrow> insert_obj c t ps v s = Inr (i, s') \<Longrightarrow>
   ps ''is_summarized'' \<noteq> Some (PBool False) \<Longrightarrow> no_false_flag s'"
  by (auto simp: no_false_flag_def dest!: insert_obj_Inr split: if_splits)

lemma no_false_flag_vectorize: "no_false_flag s \<Longrightarrow> no_false_flag (vectorize_message env m s)"
  by (rule vectorize_message_rule) (auto elim: no_false_flag_insert)

lemma no_false_flag_marks_some:
  "no_false_flag s \<Longrightarrow> marks_some u chat ids s s' \<Longrightarrow> no_false_flag s'"
  unfolding marks_some_def no_false_flag_def
  by (fastforce simp: marked_from_def mark_obj_def summarized_flag_def split: if_splits)

lemma no_false_flag_save_summary:
  "no_false_flag s \<Longrightarrow> save_summary_to_vector_store env summary chat u s = Inr s' \<Longrightarrow> no_false_flag s'"
  by (auto simp: no_false_flag_def dest!: save_summary_Inr split: if_splits)

lemma no_false_flag_summarize_chat:
  "no_false_flag s \<Longrightarrow> no_false_flag (snd (summarize_chat env chat u n s))"
  by (rule summarize_chat_rule;
      metis no_false_flag_save_summary no_false_flag_marks_some env_mark_marks_some)

lemma no_false_flag_unsummarized:
  "no_false_flag s \<Longrightarrow>
   get_unsummarized_messages u chat n s = Inr [] \<or>
   get_unsummarized_messages u chat n s = Inl (NoCollection CHAT_MEMORY_COLLECTION_NAME)"
  by (auto simp: no_false_flag_def get_unsummarized_messages_def fetch_objects_def
                 unsummarized_filter_def chat_filter_def filter_empty_conv)

lemma no_false_flag_summarize_idle:
  assumes "no_false_flag s"
  shows "snd (summarize_chat env chat u n s) = s \<and>
         fst (summarize_chat env chat u n s) \<in> {NotDue, TooFew 0} \<union> range Failed"
  using no_false_flag_unsummarized [OF assms, of u chat memory_summarize_threshold]
  by (auto simp: summarize_chat_def summarize_and_vectorize_def env_get_unsummarized_def
                 memory_summarize_threshold_def)

lemma save_message_vstore:
  "vstore (snd (save_message env st c u chat a)) =
   vectorize_message env (fst (save_message env st c u chat a)) (vstore a)"
  by (simp add: save_message_def Let_def)

lemma execute_no_false_flag:
  assumes "no_false_flag (vstore a)"
  shows "no_false_flag (vstore (snd (execute env q u chat a))) \<and>
         fst (fst (execute env q u chat a)) \<in> {NotDue, TooFew 0} \<union> range Failed"
proof -
  define a1 where "a1 = snd (save_user_message env q u chat a)"
  define p where "p = process_summarization env chat u a1"
  have f1: "no_false_flag (vstore a1)"
    using assms by (simp add: a1_def save_user_message_def save_message_vstore no_false_flag_vectorize)
  have idle: "vstore (snd p) = vstore a1" "fst p \<in> {NotDue, TooFew 0} \<union> range Failed"
    using no_false_flag_summarize_idle [OF f1]
    by (simp_all add: p_def process_summarization_vstore process_summarization_outcome)
  have "no_false_flag (vstore (snd (save_ai_message env ans u chat (snd p))))" for ans
    using f1 idle(1)
    by (simp add: save_ai_message_def save_message_vstore no_false_flag_vectorize)
  with f1 idle show ?thesis
    by (simp add: execute_eq Let_def a1_def [symmetric] p_def [symmetric] split: option.splits)
qed

text \<open>Claim C24: starting from a chat memory where no record is flagged
  \<open>is_summarized = false\<close> (an empty one, say), no request of a conversation ever produces a
  summary: each summarization outcome is not due, too few (zero) or a store failure.\<close>

theorem run_chat_no_summary:
  "no_false_flag (vstore a) \<Longrightarrow>
   set (fst (run_chat env u chat qs a)) \<subseteq> {NotDue, TooFew 0} \<union> range Failed"
proof (induction qs arbitrary: a)
  case Nil
  then show ?case by simp
next
  case (Cons q qs)
  note step = execute_no_false_flag [OF Cons.prems, where env=env and q=q and u=u and chat=chat]
  then show ?case using Cons.IH [OF conjunct1 [OF step]] by (simp add: Let_def case_prod_beta)
qed

section \<open>The recent buffer\<close>

lemma get_latest_messages_sorted: "sorted (map msg_created_at (get_latest_messages chat rs))"
  by (simp add: get_latest_messages_def)

lemma get_latest_messages_set:
  "set (get_latest_messages chat rs) = set (repo_find_latest_by_chat_id chat 5 rs)"
  by (simp add: get_latest_messages_def)

lemma get_latest_messages_live:
  "m \<in> set (get_latest_messages chat rs) \<Longrightarrow> live_in_chat chat m \<and> m \<in> set rs"
  by (auto simp: get_latest_messages_set repo_find_latest_by_chat_id_def dest: in_set_takeD)



text \<open>Claim C26: the history block of the prompt, headed \<open>Oldest First\<close>, lists the recent
  buffer newest first: the buffer comes sorted ascending and the builder reverses it.\<close>

theorem prompt_history_newest_first:
  assumes "get_latest_messages chat rs \<noteq> []"
  shows "HISTORY_HEADER @ join ''\<newline>'' (map history_line (rev (get_latest_messages chat rs)))
           \<in> set (prompt_parts fmt (get_latest_messages chat rs) mems q) \<and>
         sorted_wrt (\<ge>) (map msg_created_at (rev (get_latest_messages chat rs)))"
proof -
  have "filter (\<lambda>m. \<not> is_deleted m) (rev (get_latest_messages chat rs)) = rev (get_latest_messages chat rs)"
    using get_latest_messages_live by (auto simp: is_deleted_def live_in_chat_def filter_id_conv)
  moreover have "sorted_wrt (\<ge>) (map msg_created_at (rev (get_latest_messages chat rs)))"
    using get_latest_messages_sorted [of chat rs] by (simp add: rev_map [symmetric] sorted_wrt_rev sorted_wrt_map)
  ultimately show ?thesis using assms by (simp add: prompt_parts_def)
qed

section \<open>Witnesses\<close>

lemma ex_uuid_inj: "inj (fe_uuid ex_flow_env)"
  by (auto simp: inj_def ex_flow_env_def dest: arg_cong [of _ _ length])

lemma ex_app_fresh: "fresh_ids ex_flow_env ex_app"
  by (simp add: fresh_ids_def ex_app_def)

lemma ex_app_no_false_flag: "no_false_flag (vstore ex_app)"
  by (simp add: no_false_flag_def ex_app_def empty_store_def)

lemma ex_app_count: "repo_count_by_chat_id ''c1'' (rows ex_app) = 0"
  by (simp add: repo_count_by_chat_id_def ex_app_def)

lemma run_chat_never_summarizes_witness:
  "inj (fe_uuid ex_flow_env) \<and> fresh_ids ex_flow_env ex_app \<and>
   even (repo_count_by_chat_id ''c1'' (rows ex_app)) \<and> (\<forall>p. fe_generate ex_flow_env p \<noteq> None) \<and>
   set (fst (run_chat ex_flow_env ''u1'' ''c1'' [''hi'', ''again'', ''bye''] ex_app)) \<subseteq> {NotDue}"
proof -
  have gen: "\<forall>p. fe_generate ex_flow_env p \<noteq> None" by (simp add: ex_flow_env_def)
  show ?thesis
    using run_chat_never_summarizes [OF ex_uuid_inj ex_app_fresh _ gen, of "''c1''" "''u1''"]
      ex_uuid_inj ex_app_fresh ex_app_count gen by (simp del: run_chat.simps)
qed

lemma run_chat_no_summary_witness:
  "no_false_flag (vstore ex_app) \<and>
   set (fst (run_chat ex_flow_env ''u1'' ''c1'' [''hi'', ''again''] ex_app))
     \<subseteq> {NotDue, TooFew 0} \<union> range Failed"
  using run_chat_no_summary [OF ex_app_no_false_flag] ex_app_no_false_flag
  by (simp del: run_chat.simps)

lemma execute_tenant_isolation_witness:
  "''u2'' \<noteq> ''u1'' \<and>
   search_relevant_memories (\<lambda>_ _. 0) (\<lambda>_. Some (0::nat)) ''u2'' ''c1'' ''q'' None
     (vstore (snd (execute ex_flow_env ''hello'' ''u1'' ''c1'' ex_app))) =
   search_relevant_memories (\<lambda>_ _. 0) (\<lambda>_. Some 0) ''u2'' ''c1'' ''q'' None (vstore ex_app)"
  using execute_tenant_isolation [of "''u2''" "''u1''" "\<lambda>_ _. 0" "\<lambda>_. Some (0::nat)" "''c1''" "''q''"
      None ex_flow_env "''hello''" "''c1''" ex_app]
  by simp


lemma prompt_history_newest_first_witness:
  "get_latest_messages ''c1'' [ex_row 1, ex_row 2] \<noteq> [] \<and>
   HISTORY_HEADER @ join ''\<newline>'' (map history_line (rev (get_latest_messages ''c1'' [ex_row 1, ex_row 2])))
     \<in> set (prompt_parts (\<lambda>_. ''0.00'') (get_latest_messages ''c1'' [ex_row 1, ex_row 2]) [] ''q'') \<and>
   sorted_wrt (\<ge>) (map msg_created_at (rev (get_latest_messages ''c1'' [ex_row 1, ex_row 2])))"
proof -
  have ne: "get_latest_messages ''c1'' [ex_row 1, ex_row 2] \<noteq> []"
    by (simp add: get_latest_messages_def repo_find_latest_by_chat_id_def ex_row_def live_in_chat_def
                  message_create_def)
  show ?thesis using prompt_history_newest_first [OF ne, of "\<lambda>_. ''0.00''" "[]" "''q''"] ne by simp
qed

lemma ex_history_order:
  "rev (get_latest_messages ''c1'' [ex_row 1, ex_row 2]) = [ex_row 2, ex_row 1]"
  by (simp add: get_latest_messages_def repo_find_latest_by_chat_id_def ex_row_def live_in_chat_def
                message_create_def)

end
