(* ===== verification/Messages.thy ===== *)
theory Messages
  imports MessageFlow "HOL-Library.Multiset"
begin

text \<open>
  The message table beyond what a request reads: the remaining queries and the
  soft deletions of \<open>MessageRepositoryImpl\<close>
  (\<open>infrastructure/postgres/message/message_repository.py\<close>), and the message use
  cases that call them: \<open>DeleteMessageUseCaseImpl\<close>, \<open>FindMessageByIdUseCaseImpl\<close> and
  \<open>FindMessagesUseCaseImpl\<close> (\<open>usecase/message\<close>). The table is the list of rows of
  \<open>MessageFlow\<close>; a row is never removed, deletion sets \<open>deleted_at\<close>, and every query
  but \<open>save\<close> sees the rows with \<open>deleted_at IS NULL\<close> only. A session is committed
  or rolled back as a whole, so an update that matches nothing leaves the table as it
  was. Database failures (the \<open>except\<close> branches that roll back and re-raise) are
  not modelled.
\<close>

section \<open>Queries\<close>

definition repo_live :: "message \<Rightarrow> bool" where
  "repo_live m \<longleftrightarrow> msg_deleted_at m = None"

text \<open>\<open>find_by_id(message_id)\<close>: the first live row with the id.\<close>

definition repo_find_by_id :: "string \<Rightarrow> message list \<Rightarrow> message option" where
  "repo_find_by_id mid rs = find (\<lambda>m. msg_id m = mid \<and> repo_live m) rs"

definition repo_find_all :: "message list \<Rightarrow> message list" where
  "repo_find_all rs = filter repo_live rs"

text \<open>\<open>find_by_chat_id(chat_id)\<close>: ordered by \<open>created_at\<close> ascending; equal
  timestamps keep insertion order.\<close>

definition repo_find_by_chat_id :: "chat_id \<Rightarrow> message list \<Rightarrow> message list" where
  "repo_find_by_chat_id chat rs = sort_key msg_created_at (filter (live_in_chat chat) rs)"

definition repo_find_by_sender_id :: "tenant \<Rightarrow> message list \<Rightarrow> message list" where
  "repo_find_by_sender_id sid rs = filter (\<lambda>m. msg_sender_id m = sid \<and> repo_live m) rs"

text \<open>\<open>find_chat_ids_by_user_id(user_id)\<close>: \<open>DISTINCT\<close> leaves the order open; the
  model keeps one occurrence of each chat id.\<close>

definition repo_find_chat_ids_by_user_id :: "tenant \<Rightarrow> message list \<Rightarrow> chat_id list" where
  "repo_find_chat_ids_by_user_id uid rs = remdups (map msg_chat_id (repo_find_by_sender_id uid rs))"

section \<open>Soft deletion\<close>

text \<open>\<open>update({"deleted_at": now, "updated_at": now})\<close> on one row.\<close>

definition soft_delete :: "timestamp \<Rightarrow> message \<Rightarrow> message" where
  "soft_delete ts m = m\<lparr>msg_deleted_at := Some ts, msg_updated_at := ts\<rparr>"

text \<open>\<open>delete(message_id)\<close>: commit when a live row matched, roll back otherwise.\<close>

definition repo_delete :: "timestamp \<Rightarrow> string \<Rightarrow> message list \<Rightarrow> message list" where
  "repo_delete ts mid rs =
     (let hit = (\<lambda>r. msg_id r = mid \<and> repo_live r)
      in if 0 < length (filter hit rs) then map (\<lambda>r. if hit r then soft_delete ts r else r) rs
         else rs)"

text \<open>\<open>bulk_delete(message_ids)\<close>: when any live row matched, the whole list of
  requested ids is returned, matched or not; otherwise the empty list.\<close>

definition repo_bulk_delete :: "timestamp \<Rightarrow> string list \<Rightarrow> message list \<Rightarrow> string list \<times> message list" where
  "repo_bulk_delete ts ids rs =
     (if ids = [] then ([], rs)
      else let hit = (\<lambda>r. msg_id r \<in> set ids \<and> repo_live r)
           in if 0 < length (filter hit rs)
              then (ids, map (\<lambda>r. if hit r then soft_delete ts r else r) rs)
              else ([], rs))"

section \<open>Message use cases\<close>

text \<open>\<open>DeleteMessageUseCaseImpl.execute(message_id)\<close>: find, mark as deleted, save.\<close>

definition delete_message_execute :: "timestamp \<Rightarrow> string \<Rightarrow> message list \<Rightarrow> message_error + message list" where
  "delete_message_execute ts mid rs =
     (case repo_find_by_id mid rs of
        None \<Rightarrow> Inl (MessageNotFound mid)
      | Some m \<Rightarrow> (case mark_as_deleted ts m of
                    Inl e \<Rightarrow> Inl e
                  | Inr m' \<Rightarrow> Inr (repo_save m' rs)))"

text \<open>\<open>execute_bulk(message_ids)\<close>: documented to return the ids that failed to be
  deleted; it returns what \<open>bulk_delete\<close> returns.\<close>

definition delete_message_execute_bulk ::
  "timestamp \<Rightarrow> string list \<Rightarrow> message list \<Rightarrow> string list \<times> message list" where
  "delete_message_execute_bulk ts ids rs = repo_bulk_delete ts ids rs"

definition find_message_by_id_execute :: "string \<Rightarrow> message list \<Rightarrow> message_error + message" where
  "find_message_by_id_execute mid rs =
     (case repo_find_by_id mid rs of None \<Rightarrow> Inl (MessageNotFound mid) | Some m \<Rightarrow> Inr m)"

definition execute_find_all :: "message list \<Rightarrow> message list" where
  "execute_find_all rs = repo_find_all rs"

definition execute_find_by_chat_id :: "chat_id \<Rightarrow> message list \<Rightarrow> message list" where
  "execute_find_by_chat_id chat rs = repo_find_by_chat_id chat rs"

definition execute_find_by_sender_id :: "tenant \<Rightarrow> message list \<Rightarrow> message list" where
  "execute_find_by_sender_id sid rs = repo_find_by_sender_id sid rs"

section \<open>Example table\<close>

text \<open>Twenty live messages of one chat, with distinct ids.\<close>

definition ex_chat20 :: "message list" where
  "ex_chat20 = map ex_row [0..<20]"

section \<open>Properties\<close>

lemma repo_find_by_id_Some:
  "repo_find_by_id mid rs = Some m \<Longrightarrow> m \<in> set rs \<and> msg_id m = mid \<and> repo_live m"
  unfolding repo_find_by_id_def by (metis (mono_tags, lifting) find_Some_iff nth_mem)

lemma repo_find_by_id_None:
  "repo_find_by_id mid rs = None \<longleftrightarrow> (\<forall>m \<in> set rs. msg_id m = mid \<longrightarrow> \<not> repo_live m)"
  by (auto simp: repo_find_by_id_def find_None_iff)

lemma delete_message_execute_Inr:
  assumes "delete_message_execute ts mid rs = Inr rs'"
  obtains m where "m \<in> set rs" "msg_id m = mid" "repo_live m"
    and "rs' = repo_save (soft_delete ts m) rs"
  using assms repo_find_by_id_Some
  by (fastforce simp: delete_message_execute_def mark_as_deleted_def is_deleted_def repo_live_def
                      soft_delete_def split: option.splits if_splits)

lemma repo_save_present:
  "msg_id m \<in> set (map msg_id rs) \<Longrightarrow> repo_save m rs = map (\<lambda>r. if msg_id r = msg_id m then m else r) rs"
  by (simp add: repo_save_def)

lemma soft_delete_simps [simp]:
  "msg_id (soft_delete ts m) = msg_id m"
  "msg_chat_id (soft_delete ts m) = msg_chat_id m"
  "\<not> repo_live (soft_delete ts m)"
  "\<not> live_in_chat c (soft_delete ts m)"
  by (simp_all add: soft_delete_def repo_live_def live_in_chat_def)

text \<open>After \<open>DeleteMessageUseCaseImpl.execute\<close> succeeds, finding the message by its id raises \<open>MessageNotFoundException\<close>.\<close>

theorem delete_message_hides:
  "delete_message_execute ts mid rs = Inr rs' \<Longrightarrow>
   find_message_by_id_execute mid rs' = Inl (MessageNotFound mid)"
proof (erule delete_message_execute_Inr)
  fix m assume m: "m \<in> set rs" "msg_id m = mid" and rs': "rs' = repo_save (soft_delete ts m) rs"
  have "msg_id (soft_delete ts m) \<in> set (map msg_id rs)" using m by (auto intro: rev_image_eqI)
  then have "rs' = map (\<lambda>r. if msg_id r = mid then soft_delete ts m else r) rs"
    using rs' m(2) by (simp add: repo_save_present)
  then have "repo_find_by_id mid rs' = None" by (auto simp: repo_find_by_id_None)
  then show ?thesis by (simp add: find_message_by_id_execute_def)
qed

text \<open>Deleting fails only with \<open>MessageNotFoundException\<close>, and only when the table has no live row with the id; \<open>MessageAlreadyDeletedException\<close> of \<open>mark_as_deleted\<close> is unreachable because the lookup skips deleted rows.\<close>

theorem delete_message_error:
  "delete_message_execute ts mid rs = Inl e \<Longrightarrow>
   e = MessageNotFound mid \<and> (\<forall>m \<in> set rs. msg_id m = mid \<longrightarrow> \<not> repo_live m)"
  using repo_find_by_id_Some repo_find_by_id_None [of mid rs]
  by (fastforce simp: delete_message_execute_def mark_as_deleted_def is_deleted_def repo_live_def
                split: option.splits if_splits)

lemma count_replace:
  assumes "distinct (map msg_id rs)" "m \<in> set rs"
  shows "length (filter P (map (\<lambda>r. if msg_id r = msg_id m then m' else r) rs)) + (if P m then 1 else 0) =
         length (filter P rs) + (if P m' then 1 else 0)"
  using assms
proof (induction rs)
  case (Cons r rs)
  show ?case
  proof (cases "msg_id r = msg_id m")
    case True
    then have "r = m" using Cons.prems by (auto dest: imageI [of _ _ msg_id])
    moreover have "\<forall>x \<in> set rs. msg_id x \<noteq> msg_id m"
    proof -
      have "msg_id r \<notin> msg_id ` set rs" using Cons.prems(1) by simp
      then show ?thesis using True by (metis rev_image_eqI)
    qed
    ultimately show ?thesis by (simp add: map_idI)
  next
    case False
    then show ?thesis using Cons by auto
  qed
qed simp

text \<open>Claim C32: on a table with distinct ids, a deletion is soft: every row stays with its id, and the live count of the deleted message's chat drops by one while every other chat's count is unchanged.\<close>

theorem delete_message_count:
  assumes "distinct (map msg_id rs)" and "delete_message_execute ts mid rs = Inr rs'"
  shows "\<exists>m \<in> set rs. msg_id m = mid \<and> repo_live m \<and> map msg_id rs' = map msg_id rs \<and>
           (\<forall>c. repo_count_by_chat_id c rs' + (if c = msg_chat_id m then 1 else 0) = repo_count_by_chat_id c rs)"
  using assms(2)
proof (rule delete_message_execute_Inr)
  fix m assume m: "m \<in> set rs" "msg_id m = mid" "repo_live m"
    and rs': "rs' = repo_save (soft_delete ts m) rs"
  have "msg_id (soft_delete ts m) \<in> set (map msg_id rs)" using m by (auto intro: rev_image_eqI)
  then have eq: "rs' = map (\<lambda>r. if msg_id r = msg_id m then soft_delete ts m else r) rs"
    using rs' by (simp add: repo_save_present)
  have "repo_count_by_chat_id c rs' + (if c = msg_chat_id m then 1 else 0) = repo_count_by_chat_id c rs" for c
  proof -
    have "live_in_chat c m \<longleftrightarrow> c = msg_chat_id m"
      using m(3) by (auto simp: live_in_chat_def repo_live_def)
    then show ?thesis
      using count_replace [OF assms(1) m(1), of "live_in_chat c" "soft_delete ts m"]
      by (simp add: eq repo_count_by_chat_id_def)
  qed
  moreover have "map msg_id rs' = map msg_id rs" by (simp add: eq cong: map_cong)
  ultimately show ?thesis using m by blast
qed

text \<open>After \<open>execute_bulk\<close> no requested id has a live row, and no row is removed.\<close>

theorem bulk_delete_clears:
  "filter (\<lambda>r. msg_id r \<in> set ids \<and> repo_live r) (snd (delete_message_execute_bulk ts ids rs)) = [] \<and>
   map msg_id (snd (delete_message_execute_bulk ts ids rs)) = map msg_id rs"
  by (auto simp: delete_message_execute_bulk_def repo_bulk_delete_def Let_def filter_empty_conv
           filter_map comp_def)

text \<open>Claim C33: \<open>execute_bulk\<close>, documented to return the ids that failed to be deleted, returns the whole request as soon as one row was deleted, and those ids are then all deleted or absent.\<close>

theorem bulk_delete_reports_requested:
  "fst (delete_message_execute_bulk ts ids rs) \<noteq> [] \<Longrightarrow>
   fst (delete_message_execute_bulk ts ids rs) = ids \<and>
   (\<exists>r \<in> set rs. msg_id r \<in> set ids \<and> repo_live r)"
  by (auto simp: delete_message_execute_bulk_def repo_bulk_delete_def Let_def filter_empty_conv
           split: if_splits)

text \<open>\<open>execute_find_by_chat_id\<close> returns exactly the live messages of the chat, oldest first.\<close>

theorem find_by_chat_id_sorted:
  "sorted (map msg_created_at (execute_find_by_chat_id chat rs)) \<and>
   mset (execute_find_by_chat_id chat rs) = mset (filter (live_in_chat chat) rs)"
  by (simp add: execute_find_by_chat_id_def repo_find_by_chat_id_def sorted_sort_key mset_sort)

text \<open>\<open>find_chat_ids_by_user_id\<close> returns each chat in which the user has a live message exactly once.\<close>

theorem find_chat_ids_exact:
  "distinct (repo_find_chat_ids_by_user_id uid rs) \<and>
   set (repo_find_chat_ids_by_user_id uid rs) =
     msg_chat_id ` {m \<in> set rs. msg_sender_id m = uid \<and> repo_live m}"
  by (auto simp: repo_find_chat_ids_by_user_id_def repo_find_by_sender_id_def)

lemma ex_chat20_distinct: "distinct (map msg_id ex_chat20)"
  by (simp add: ex_chat20_def ex_row_def message_create_def distinct_map inj_on_def)


lemma delete_message_hides_witness:
  "delete_message_execute 7 ''r'' ex_chat20 \<noteq> Inl (MessageNotFound ''r'') \<and>
   (\<exists>rs'. delete_message_execute 7 ''r'' ex_chat20 = Inr rs' \<and>
          find_message_by_id_execute ''r'' rs' = Inl (MessageNotFound ''r''))"
proof -
  obtain rs' where d: "delete_message_execute 7 ''r'' ex_chat20 = Inr rs'"
    by (simp add: delete_message_execute_def repo_find_by_id_def ex_chat20_def ex_row_def upt_rec
                  message_create_def repo_live_def mark_as_deleted_def is_deleted_def)
  show ?thesis using delete_message_hides [OF d] d by simp
qed

lemma delete_message_error_witness:
  "delete_message_execute 7 ''x'' ex_chat20 = Inl (MessageNotFound ''x'') \<and>
   list_all (\<lambda>m. msg_id m = ''x'' \<longrightarrow> \<not> repo_live m) ex_chat20"
proof -
  have d: "delete_message_execute 7 ''x'' ex_chat20 = Inl (MessageNotFound ''x'')"
    by (simp add: delete_message_execute_def repo_find_by_id_def ex_chat20_def ex_row_def message_create_def
                  upt_rec)
  show ?thesis using delete_message_error [OF d] d by (simp add: list_all_iff)
qed

lemma ex_chat20_delete:
  "delete_message_execute 7 ''r'' ex_chat20 = Inr (repo_save (soft_delete 7 (ex_row 0)) ex_chat20)"
  by (simp add: delete_message_execute_def repo_find_by_id_def ex_chat20_def ex_row_def upt_rec
                message_create_def repo_live_def mark_as_deleted_def is_deleted_def soft_delete_def)





lemma delete_message_count_witness:
  "distinct (map msg_id ex_chat20) \<and>
   delete_message_execute 7 ''r'' ex_chat20 = Inr (repo_save (soft_delete 7 (ex_row 0)) ex_chat20) \<and>
   repo_count_by_chat_id ''c1'' (repo_save (soft_delete 7 (ex_row 0)) ex_chat20) + 1 =
   repo_count_by_chat_id ''c1'' ex_chat20"
proof -
  obtain m where m: "m \<in> set ex_chat20"
    and c: "\<forall>c. repo_count_by_chat_id c (repo_save (soft_delete 7 (ex_row 0)) ex_chat20) +
                 (if c = msg_chat_id m then 1 else 0) = repo_count_by_chat_id c ex_chat20"
    using delete_message_count [OF ex_chat20_distinct ex_chat20_delete] by blast
  have "msg_chat_id m = ''c1''" using m by (auto simp: ex_chat20_def ex_row_def message_create_def)
  then show ?thesis using c [rule_format, of "''c1''"] ex_chat20_distinct ex_chat20_delete by simp
qed

lemma bulk_delete_reports_requested_witness:
  "fst (delete_message_execute_bulk 7 [''r'', ''x''] ex_chat20) \<noteq> [] \<and>
   fst (delete_message_execute_bulk 7 [''r'', ''x''] ex_chat20) = [''r'', ''x'']"
proof -
  have ne: "fst (delete_message_execute_bulk 7 [''r'', ''x''] ex_chat20) \<noteq> []"
    by (simp add: delete_message_execute_bulk_def repo_bulk_delete_def Let_def ex_chat20_def ex_row_def
                  upt_rec message_create_def repo_live_def)
  show ?thesis using bulk_delete_reports_requested [OF ne] ne by simp
qed

end
