(* ===== verification/Annotations.thy ===== *)
theory Annotations
  imports Summarization
begin

text \<open>
  Highlights and their vectors. The \<open>Annotation\<close> and \<open>Book\<close> entities
  (\<open>src/apps/api/src/domain/annotation\<close>, \<open>domain/book\<close>) with the value objects
  the annotation factory calls; \<open>BookAnnotationStore\<close>
  (\<open>infrastructure/memory/book_annotation_store.py\<close>); the annotation methods of
  \<open>VectorizationService\<close> (\<open>vectorization_service.py\<close>) with the update and delete
  calls of \<open>VectorCrudService\<close> they delegate to (not under \<open>src/\<close>, modelled from
  spec section 4.3); \<open>HighlightSearcher\<close> (\<open>usecase/message/highlight_searcher.py\<close>);
  and the delegations of the \<open>MemoryVectorStore\<close> facade.

  A Python exception that escapes after some remote writes leaves those writes in
  place, so the operations that may fail part-way return the outcome together with
  the store they leave behind.
\<close>

section \<open>Annotation value objects and entity\<close>

datatype annotation_error = AnnotationTextRequired | InvalidAnnotationType string

text \<open>\<open>AnnotationId.from_string\<close>: an empty or missing id becomes a fresh \<open>uuid4\<close>.\<close>

definition annotation_id_from_string :: "string \<Rightarrow> string option \<Rightarrow> string" where
  "annotation_id_from_string fresh id_str =
     (case id_str of None \<Rightarrow> fresh | Some v \<Rightarrow> if v = [] then fresh else v)"

definition annotation_text_from_string :: "string \<Rightarrow> annotation_error + string" where
  "annotation_text_from_string t = (if t = [] then Inl AnnotationTextRequired else Inr t)"

definition ANNOTATION_TYPE_HIGHLIGHT :: string where
  "ANNOTATION_TYPE_HIGHLIGHT = ''highlight''"

text \<open>\<open>AnnotationType.from_string\<close>: missing or empty is the default, \<open>highlight\<close>;
  any other value but \<open>highlight\<close> is invalid.\<close>

definition annotation_type_from_string :: "string option \<Rightarrow> annotation_error + string" where
  "annotation_type_from_string type_str =
     (case type_str of
        None \<Rightarrow> Inr ANNOTATION_TYPE_HIGHLIGHT
      | Some v \<Rightarrow> if v = [] then Inr ANNOTATION_TYPE_HIGHLIGHT
                 else if v = ANNOTATION_TYPE_HIGHLIGHT then Inr v
                 else Inl (InvalidAnnotationType v))"

text \<open>
  The entity. \<open>notes\<close> is \<open>AnnotationNotes | None\<close> and an \<open>AnnotationNotes\<close> holds
  \<open>str | None\<close>: two option layers. \<open>AnnotationCfi\<close> and \<open>AnnotationColor\<close> are not in
  the repository and keep their given values; \<open>spine\<close> is not read by the engine and
  is left out.
\<close>

record annotation =
  ann_id :: string
  ann_book_id :: book_id
  ann_cfi :: string
  ann_color :: "string option"
  ann_notes :: "string option option"
  ann_text :: string
  ann_type :: string
  ann_created_at :: "timestamp option"
  ann_updated_at :: "timestamp option"

text \<open>\<open>Annotation.create(book_id, cfi, text, notes, color, type, id)\<close>.\<close>

definition annotation_create ::
  "string \<Rightarrow> book_id \<Rightarrow> string \<Rightarrow> string \<Rightarrow> string option \<Rightarrow> string option \<Rightarrow> string option \<Rightarrow>
   string option \<Rightarrow> annotation_error + annotation" where
  "annotation_create fresh bid cfi text notes color typ id_str =
     (case annotation_text_from_string text of
        Inl e \<Rightarrow> Inl e
      | Inr t \<Rightarrow>
          (case annotation_type_from_string typ of
             Inl e \<Rightarrow> Inl e
           | Inr ty \<Rightarrow>
               Inr \<lparr>ann_id = annotation_id_from_string fresh id_str, ann_book_id = bid, ann_cfi = cfi,
                    ann_color = color, ann_notes = Some notes, ann_text = t, ann_type = ty,
                    ann_created_at = None, ann_updated_at = None\<rparr>))"

section \<open>Book entity\<close>

text \<open>The fields of \<open>Book\<close> the engine and the use cases read; \<open>BookTitle\<close> requires
  1 to 100 characters. The fourteen \<open>metadata_<key>\<close> fields are \<open>bk_metadata key\<close>,
  for the keys of \<open>BOOK_METADATA_KEYS\<close>; the \<open>definitions\<close> and \<open>configuration\<close> fields,
  which no use case reads, are left out.\<close>

datatype book_error = TitleRequired | TitleTooLong

definition book_title :: "string \<Rightarrow> book_error + string" where
  "book_title v = (if v = [] then Inl TitleRequired else if 100 < length v then Inl TitleTooLong else Inr v)"

record book =
  bk_id :: book_id
  bk_name :: string
  bk_user_id :: tenant
  bk_file_path :: string
  bk_author :: "string option"
  bk_cover_path :: "string option"
  bk_size :: nat
  bk_cfi :: "string option"
  bk_percentage :: real
  bk_metadata :: "string \<Rightarrow> string option"
  bk_updated_at :: timestamp
  bk_deleted_at :: "timestamp option"
  bk_annotations :: "annotation list"

definition BOOK_METADATA_KEYS :: "string list" where
  "BOOK_METADATA_KEYS =
     [''title'', ''creator'', ''description'', ''pubdate'', ''publisher'', ''identifier'', ''language'',
      ''rights'', ''modified_date'', ''layout'', ''orientation'', ''flow'', ''viewport'', ''spread'']"

text \<open>\<open>Book.create(...)\<close>: the given fields, the defaults of the others (no reading
  position, no annotations, not deleted) and the clock for \<open>updated_at\<close>.\<close>

definition book_create ::
  "book_id \<Rightarrow> string \<Rightarrow> tenant \<Rightarrow> string \<Rightarrow> string option \<Rightarrow> string option \<Rightarrow> nat \<Rightarrow>
   (string \<Rightarrow> string option) \<Rightarrow> timestamp \<Rightarrow> book" where
  "book_create bid name user_id file_path author cover_path sz md ts =
     \<lparr>bk_id = bid, bk_name = name, bk_user_id = user_id, bk_file_path = file_path, bk_author = author,
      bk_cover_path = cover_path, bk_size = sz, bk_cfi = None, bk_percentage = 0,
      bk_metadata = (\<lambda>k. if k \<in> set BOOK_METADATA_KEYS then md k else None),
      bk_updated_at = ts, bk_deleted_at = None, bk_annotations = []\<rparr>"

definition book_update_title :: "timestamp \<Rightarrow> string \<Rightarrow> book \<Rightarrow> book" where
  "book_update_title t name b = b\<lparr>bk_name := name, bk_updated_at := t\<rparr>"

definition book_update_reading_progress :: "timestamp \<Rightarrow> string \<Rightarrow> real \<Rightarrow> book \<Rightarrow> book" where
  "book_update_reading_progress t cfi pct b = b\<lparr>bk_cfi := Some cfi, bk_percentage := pct, bk_updated_at := t\<rparr>"

text \<open>\<open>Book.mark_as_deleted\<close>: a second call does nothing (unlike \<open>Message\<close>'s, which raises).\<close>

definition book_mark_as_deleted :: "timestamp \<Rightarrow> book \<Rightarrow> book" where
  "book_mark_as_deleted t b =
     (if bk_deleted_at b = None then b\<lparr>bk_deleted_at := Some t, bk_updated_at := t\<rparr> else b)"

definition book_is_deleted :: "book \<Rightarrow> bool" where
  "book_is_deleted b \<longleftrightarrow> bk_deleted_at b \<noteq> None"

section \<open>BookAnnotationStore\<close>

definition add_annotation :: "'v \<Rightarrow> props \<Rightarrow> tenant \<Rightarrow> 'v store \<Rightarrow> store_error + nat \<times> 'v store" where
  "add_annotation vec metadata user_id s = insert_obj BOOK_ANNOTATION_COLLECTION_NAME user_id metadata vec s"

definition highlight_return_properties :: "string list" where
  "highlight_return_properties =
     [''content'', ''notes'', ''created_at'', ''book_title'', ''annotation_id'', ''user_id'', ''book_id'']"

text \<open>\<open>search_highlights(user_id, book_id, query_vector, limit=3)\<close>: creates the tenant
  when it does not exist, so a search changes the store.\<close>

definition search_highlights ::
  "('v \<Rightarrow> 'v \<Rightarrow> real) \<Rightarrow> tenant \<Rightarrow> book_id \<Rightarrow> 'v \<Rightarrow> nat \<Rightarrow> 'v store \<Rightarrow>
   store_error + hit list \<times> 'v store" where
  "search_highlights metric user_id bid qvec limit s =
     (if BOOK_ANNOTATION_COLLECTION_NAME \<notin> collections s then Inl (NoCollection BOOK_ANNOTATION_COLLECTION_NAME)
      else let s1 = (if user_id \<in> tenants s BOOK_ANNOTATION_COLLECTION_NAME then s
                     else tenant_create BOOK_ANNOTATION_COLLECTION_NAME user_id s)
           in case near_vector metric BOOK_ANNOTATION_COLLECTION_NAME user_id qvec
                     (Equal ''book_id'' (PText bid)) limit s1 of
                Inl e \<Rightarrow> Inl e
              | Inr hs \<Rightarrow> Inr (map (to_hit highlight_return_properties) hs, s1))"

text \<open>\<open>update_annotation(user_id, annotation_id, properties, vector)\<close>: the query gives
  no limit, and only the first match is updated; no match is a logged no-op.\<close>

definition annotation_filter :: "string \<Rightarrow> filter" where
  "annotation_filter annotation_id = Equal ''annotation_id'' (PText annotation_id)"

definition update_annotation ::
  "tenant \<Rightarrow> string \<Rightarrow> props \<Rightarrow> 'v \<Rightarrow> 'v store \<Rightarrow> store_error + 'v store" where
  "update_annotation user_id annotation_id properties vec s =
     (case fetch_objects BOOK_ANNOTATION_COLLECTION_NAME user_id (annotation_filter annotation_id)
             (length (objects s BOOK_ANNOTATION_COLLECTION_NAME user_id)) None s of
        Inl e \<Rightarrow> Inl e
      | Inr os \<Rightarrow>
          if os \<noteq> [] then update_obj BOOK_ANNOTATION_COLLECTION_NAME user_id (obj_uuid (hd os))
                              properties (Some vec) s
          else Inr s)"

definition delete_annotation :: "tenant \<Rightarrow> string \<Rightarrow> 'v store \<Rightarrow> store_error + 'v store" where
  "delete_annotation user_id annotation_id s =
     delete_many BOOK_ANNOTATION_COLLECTION_NAME user_id (annotation_filter annotation_id) s"

definition delete_book_annotations :: "tenant \<Rightarrow> book_id \<Rightarrow> 'v store \<Rightarrow> store_error + 'v store" where
  "delete_book_annotations user_id bid s =
     delete_many BOOK_ANNOTATION_COLLECTION_NAME user_id (Equal ''book_id'' (PText bid)) s"

section \<open>VectorCrudService (spec section 4.3)\<close>

definition crud_update_memory ::
  "tenant \<Rightarrow> string \<Rightarrow> string \<Rightarrow> string \<Rightarrow> props \<Rightarrow> 'v \<Rightarrow> 'v store \<Rightarrow> store_error + 'v store" where
  "crud_update_memory user_id c target key properties vec s =
     (case fetch_objects c user_id (Equal target (PText key)) (length (objects s c user_id)) None s of
        Inl e \<Rightarrow> Inl e
      | Inr os \<Rightarrow> if os = [] then Inr s else update_obj c user_id (obj_uuid (hd os)) properties (Some vec) s)"

definition crud_delete_memory :: "tenant \<Rightarrow> string \<Rightarrow> string \<Rightarrow> string \<Rightarrow> 'v store \<Rightarrow> store_error + 'v store" where
  "crud_delete_memory user_id c target key s = delete_many c user_id (Equal target (PText key)) s"

definition crud_delete_book_data :: "tenant \<Rightarrow> book_id \<Rightarrow> 'v store \<Rightarrow> (store_error + unit) \<times> 'v store" where
  "crud_delete_book_data user_id bid s =
     (case delete_many BOOK_CONTENT_COLLECTION_NAME user_id (Equal ''book_id'' (PText bid)) s of
        Inl e \<Rightarrow> (Inl e, s)
      | Inr s1 \<Rightarrow>
          (case delete_many BOOK_ANNOTATION_COLLECTION_NAME user_id (Equal ''book_id'' (PText bid)) s1 of
             Inl e \<Rightarrow> (Inl e, s1)
           | Inr s2 \<Rightarrow> (Inr (), s2)))"

section \<open>VectorizationService: annotations\<close>

text \<open>\<open>f"{x}"\<close> of an optional string.\<close>

definition py_str_option :: "string option \<Rightarrow> string" where
  "py_str_option v = (case v of None \<Rightarrow> ''None'' | Some x \<Rightarrow> x)"

text \<open>\<open>text_for_vector\<close>: \<open>if annotation.notes:\<close> tests the \<open>AnnotationNotes\<close> object, which
  is always true when present, whatever its value.\<close>

definition annotation_vector_text :: "annotation \<Rightarrow> string" where
  "annotation_vector_text a =
     ann_text a @ (case ann_notes a of None \<Rightarrow> [] | Some v \<Rightarrow> ''\<newline>'' @ py_str_option v)"

text \<open>The metadata; a \<open>None\<close> value leaves the property unset.\<close>

definition annotation_metadata :: "book \<Rightarrow> annotation \<Rightarrow> props" where
  "annotation_metadata b a =
     [''annotation_id'' \<mapsto> PText (ann_id a),
      ''book_id'' \<mapsto> PText (bk_id b),
      ''book_title'' \<mapsto> PText (bk_name b),
      ''content'' \<mapsto> PText (ann_text a),
      ''user_id'' \<mapsto> PText (bk_user_id b)] ++
     (case ann_created_at a of None \<Rightarrow> Map.empty | Some d \<Rightarrow> [''created_at'' \<mapsto> PDate d]) ++
     (case ann_notes a of Some (Some n) \<Rightarrow> [''notes'' \<mapsto> PText n] | _ \<Rightarrow> Map.empty)"

text \<open>\<open>add_book_annotations(book, annotations)\<close>: nothing is caught; the first failure
  ends the loop with the earlier inserts done.\<close>

fun add_book_annotations ::
  "(string \<Rightarrow> 'v option) \<Rightarrow> book \<Rightarrow> annotation list \<Rightarrow> 'v store \<Rightarrow> (store_error + unit) \<times> 'v store" where
  "add_book_annotations embed_fn b [] s = (Inr (), s)"
| "add_book_annotations embed_fn b (a # as) s =
     (case embed_fn (annotation_vector_text a) of
        None \<Rightarrow> (Inl Unavailable, s)
      | Some vec \<Rightarrow>
          (case crud_add_memory vec (annotation_metadata b a) (bk_user_id b) BOOK_ANNOTATION_COLLECTION_NAME s of
             Inl e \<Rightarrow> (Inl e, s)
           | Inr (_, s') \<Rightarrow> add_book_annotations embed_fn b as s'))"

fun update_book_annotations ::
  "(string \<Rightarrow> 'v option) \<Rightarrow> book \<Rightarrow> annotation list \<Rightarrow> 'v store \<Rightarrow> (store_error + unit) \<times> 'v store" where
  "update_book_annotations embed_fn b [] s = (Inr (), s)"
| "update_book_annotations embed_fn b (a # as) s =
     (case embed_fn (annotation_vector_text a) of
        None \<Rightarrow> (Inl Unavailable, s)
      | Some vec \<Rightarrow>
          (case crud_update_memory (bk_user_id b) BOOK_ANNOTATION_COLLECTION_NAME ''annotation_id'' (ann_id a)
                  (annotation_metadata b a) vec s of
             Inl e \<Rightarrow> (Inl e, s)
           | Inr s' \<Rightarrow> update_book_annotations embed_fn b as s'))"

definition delete_book_annotation :: "tenant \<Rightarrow> string \<Rightarrow> 'v store \<Rightarrow> store_error + 'v store" where
  "delete_book_annotation user_id annotation_id s =
     crud_delete_memory user_id BOOK_ANNOTATION_COLLECTION_NAME ''annotation_id'' annotation_id s"

text \<open>\<open>delete_book_memories(user_id, book_id)\<close>: errors are logged, not raised.\<close>

definition delete_book_memories :: "tenant \<Rightarrow> book_id \<Rightarrow> 'v store \<Rightarrow> 'v store" where
  "delete_book_memories user_id bid s = snd (crud_delete_book_data user_id bid s)"

section \<open>HighlightSearcher\<close>

datatype highlight_error = EncodeFailed | ContentMissing

definition format_highlight :: "hit \<Rightarrow> highlight_error + string" where
  "format_highlight h =
     (case hit_props h ''content'' of
        Some (PText c) \<Rightarrow>
          Inr (''[Highlight]'' @ c @
               (case hit_props h ''notes'' of Some (PText n) \<Rightarrow> if n = [] then [] else ''\<newline>'' @ n | _ \<Rightarrow> []))
      | _ \<Rightarrow> Inl ContentMissing)"

fun collect_highlights :: "hit list \<Rightarrow> highlight_error + string list" where
  "collect_highlights [] = Inr []"
| "collect_highlights (h # hs) =
     (case format_highlight h of
        Inl e \<Rightarrow> Inl e
      | Inr t \<Rightarrow> (case collect_highlights hs of Inl e \<Rightarrow> Inl e | Inr ts \<Rightarrow> Inr (t # ts)))"

text \<open>\<open>search_relevant_highlights(question, user_id, book_id, limit=3)\<close>: encoding runs
  outside the \<open>try\<close>; a search error is reported as a text.\<close>

definition search_relevant_highlights ::
  "('v \<Rightarrow> 'v \<Rightarrow> real) \<Rightarrow> (string \<Rightarrow> 'v option) \<Rightarrow> string \<Rightarrow> tenant \<Rightarrow> book_id \<Rightarrow> nat \<Rightarrow>
   'v store \<Rightarrow> (highlight_error + string list) \<times> 'v store" where
  "search_relevant_highlights metric embed_fn question user_id bid limit s =
     (if user_id = [] \<or> bid = [] then (Inr [''No highlights found''], s)
      else case embed_fn question of
        None \<Rightarrow> (Inl EncodeFailed, s)
      | Some qv \<Rightarrow>
          (case search_highlights metric user_id bid qv limit s of
             Inl _ \<Rightarrow> (Inr [''Search error occurred''], s)
           | Inr (hs, s1) \<Rightarrow>
               if hs = [] then (Inr [''No highlights found''], s1) else (collect_highlights hs, s1)))"

section \<open>MemoryVectorStore facade\<close>

definition mvs_search_highlights ::
  "('v \<Rightarrow> 'v \<Rightarrow> real) \<Rightarrow> tenant \<Rightarrow> book_id \<Rightarrow> 'v \<Rightarrow> nat \<Rightarrow> 'v store \<Rightarrow>
   store_error + hit list \<times> 'v store" where
  "mvs_search_highlights = search_highlights"

definition mvs_delete_memory :: "tenant \<Rightarrow> string \<Rightarrow> string \<Rightarrow> string \<Rightarrow> 'v store \<Rightarrow> store_error + 'v store" where
  "mvs_delete_memory = crud_delete_memory"

definition mvs_update_memory ::
  "tenant \<Rightarrow> string \<Rightarrow> string \<Rightarrow> string \<Rightarrow> props \<Rightarrow> 'v \<Rightarrow> 'v store \<Rightarrow> store_error + 'v store" where
  "mvs_update_memory = crud_update_memory"

definition mvs_delete_book_data :: "tenant \<Rightarrow> book_id \<Rightarrow> 'v store \<Rightarrow> (store_error + unit) \<times> 'v store" where
  "mvs_delete_book_data = crud_delete_book_data"

text \<open>The records of a tenant that carry a given annotation id.\<close>

definition same_annotation :: "string \<Rightarrow> 'v obj \<Rightarrow> bool" where
  "same_annotation aid ob \<longleftrightarrow> obj_props ob ''annotation_id'' = Some (PText aid)"

section \<open>Examples\<close>

definition ex_book :: book where
  "ex_book = \<lparr>bk_id = ''b1'', bk_name = ''Walden'', bk_user_id = ''u1'', bk_file_path = ''b1.epub'', bk_author = None,
              bk_cover_path = None, bk_size = 0, bk_cfi = None, bk_percentage = 0, bk_metadata = Map.empty,
              bk_updated_at = 0, bk_deleted_at = None, bk_annotations = []\<rparr>"

definition ex_ann :: annotation where
  "ex_ann = \<lparr>ann_id = ''a0'', ann_book_id = ''b1'', ann_cfi = ''cfi0'', ann_color = None,
             ann_notes = Some None, ann_text = ''pond'', ann_type = ''highlight'',
             ann_created_at = None, ann_updated_at = None\<rparr>"

definition ex_ann_obj :: "nat obj" where
  "ex_ann_obj = \<lparr>obj_uuid = 0, obj_props = annotation_metadata ex_book ex_ann, obj_vec = 0\<rparr>"

definition ex_ann_store :: "nat store" where
  "ex_ann_store = empty_store\<lparr>collections := {BOOK_ANNOTATION_COLLECTION_NAME},
     objects := (\<lambda>c t. if c = BOOK_ANNOTATION_COLLECTION_NAME \<and> t = ''u1'' then [ex_ann_obj] else []),
     next_uuid := 1\<rparr>"

section \<open>Properties\<close>

lemma set_objects_same [simp]: "set_objects c t (objects s c t) s = s"
  by (simp add: set_objects_def)

lemma fetch_objects_none:
  "c \<in> collections s \<Longrightarrow> \<forall>ob \<in> set (objects s c t). \<not> matches f (obj_props ob) \<Longrightarrow>
   fetch_objects c t f n srt s = Inr []"
  by (simp add: fetch_objects_def filter_empty_conv split: option.splits)

lemma annotation_filter_matches [simp]:
  "matches (annotation_filter aid) m \<longleftrightarrow> m ''annotation_id'' = Some (PText aid)"
  by (simp add: annotation_filter_def)

text \<open>\<open>update_annotation\<close> of an annotation id that no record of the tenant carries changes nothing and succeeds: the fetch returns no object and the method returns without an update.\<close>

theorem update_annotation_unknown:
  assumes "BOOK_ANNOTATION_COLLECTION_NAME \<in> collections s"
    and "\<forall>ob \<in> set (objects s BOOK_ANNOTATION_COLLECTION_NAME u). obj_props ob ''annotation_id'' \<noteq> Some (PText aid)"
  shows "update_annotation u aid props vec s = Inr s"
  using fetch_objects_none [OF assms(1), of u "annotation_filter aid"] assms(2)
  by (simp add: update_annotation_def)

lemma delete_many_idem:
  "delete_many c t f s = Inr s' \<Longrightarrow> delete_many c t f s' = Inr s'"
  by (auto simp: delete_many_def set_objects_def split: if_splits)

text \<open>Deleting an annotation twice is the same as deleting it once; the second \<open>delete_many\<close> matches nothing.\<close>

theorem delete_annotation_idempotent:
  "delete_annotation u aid s = Inr s' \<Longrightarrow> delete_annotation u aid s' = Inr s'"
  unfolding delete_annotation_def by (rule delete_many_idem)

lemma annotation_metadata_id [simp]: "annotation_metadata b a ''annotation_id'' = Some (PText (ann_id a))"
  by (simp add: annotation_metadata_def map_add_def split: option.splits)

text \<open>Claim C29: \<open>add_book_annotations\<close> inserts a new record for an annotation even when one with the same annotation id is already stored for the tenant: the number of records carrying that id grows by one.\<close>

theorem add_book_annotations_duplicates:
  assumes "add_book_annotations embed_fn b [a] s = (Inr (), s')"
  shows "length (filter (same_annotation (ann_id a)) (objects s' BOOK_ANNOTATION_COLLECTION_NAME (bk_user_id b))) =
         Suc (length (filter (same_annotation (ann_id a)) (objects s BOOK_ANNOTATION_COLLECTION_NAME (bk_user_id b))))"
  using assms
  by (auto simp: crud_add_memory_def same_annotation_def dest!: insert_obj_Inr
           split: option.splits sum.splits)

text \<open>Claim C30: for an annotation without notes, the string \<open>add_book_annotations\<close> embeds is the highlighted text followed by a line \<open>None\<close> (the f-string formats the missing value).\<close>

theorem annotation_notes_none_text:
  "annotation_create fresh bid cfi text None color typ id_str = Inr a \<Longrightarrow>
   annotation_vector_text a = text @ ''\<newline>None''"
  by (auto simp: annotation_create_def annotation_vector_text_def py_str_option_def
                 annotation_text_from_string_def split: sum.splits if_splits)

lemma to_hit_book_id:
  "hit_props (to_hit highlight_return_properties x) ''book_id'' = obj_props (fst x) ''book_id''"
  by (simp add: to_hit_def highlight_return_properties_def)

text \<open>Claim C31: \<open>search_highlights\<close> returns at most \<open>limit\<close> hits, all of the requested book, ordered by increasing distance.\<close>

theorem search_highlights_results:
  assumes "search_highlights metric u bid q limit s = Inr (hs, s')"
  shows "(\<forall>h \<in> set hs. hit_props h ''book_id'' = Some (PText bid)) \<and>
         sorted (map hit_distance hs) \<and> length hs \<le> limit"
proof -
  obtain s1 ns where nv: "near_vector metric BOOK_ANNOTATION_COLLECTION_NAME u q (Equal ''book_id'' (PText bid)) limit s1 = Inr ns"
    and hs: "hs = map (to_hit highlight_return_properties) ns"
    using assms by (auto simp: search_highlights_def Let_def split: if_splits sum.splits)
  have "\<forall>h \<in> set hs. hit_props h ''book_id'' = Some (PText bid)"
    using near_vector_subset [OF nv] by (auto simp: hs to_hit_book_id)
  moreover have "sorted (map hit_distance hs)"
    using near_vector_sorted [OF nv] by (simp add: hs to_hit_def comp_def)
  moreover have "length hs \<le> limit" using near_vector_length [OF nv] by (simp add: hs)
  ultimately show ?thesis by blast
qed

text \<open>A book marked as deleted keeps its first deletion time when it is marked again (the guard of \<open>Book.mark_as_deleted\<close>).\<close>

theorem book_mark_as_deleted_idem:
  "book_mark_as_deleted t' (book_mark_as_deleted t b) = book_mark_as_deleted t b"
  by (simp add: book_mark_as_deleted_def)

lemma ex_ann_objects: "objects ex_ann_store BOOK_ANNOTATION_COLLECTION_NAME ''u1'' = [ex_ann_obj]"
  by (simp add: ex_ann_store_def)

lemma ex_ann_obj_id: "obj_props ex_ann_obj ''annotation_id'' = Some (PText ''a0'')"
  by (simp add: ex_ann_obj_def ex_ann_def)

lemma update_annotation_unknown_witness:
  "BOOK_ANNOTATION_COLLECTION_NAME \<in> collections ex_ann_store \<and>
   list_all (\<lambda>ob. obj_props ob ''annotation_id'' \<noteq> Some (PText ''a9''))
     (objects ex_ann_store BOOK_ANNOTATION_COLLECTION_NAME ''u1'') \<and>
   update_annotation ''u1'' ''a9'' Map.empty 0 ex_ann_store = Inr ex_ann_store"
proof -
  have c: "BOOK_ANNOTATION_COLLECTION_NAME \<in> collections ex_ann_store" by (simp add: ex_ann_store_def)
  have o: "\<forall>ob \<in> set (objects ex_ann_store BOOK_ANNOTATION_COLLECTION_NAME ''u1'').
             obj_props ob ''annotation_id'' \<noteq> Some (PText ''a9'')"
    by (simp add: ex_ann_objects ex_ann_obj_id)
  show ?thesis using update_annotation_unknown [OF c o] c o by (simp add: list_all_iff)
qed

lemma delete_annotation_idempotent_witness:
  "delete_annotation ''u1'' ''a0'' ex_ann_store =
     Inr (set_objects BOOK_ANNOTATION_COLLECTION_NAME ''u1'' [] ex_ann_store) \<and>
   delete_annotation ''u1'' ''a0'' (set_objects BOOK_ANNOTATION_COLLECTION_NAME ''u1'' [] ex_ann_store) =
     Inr (set_objects BOOK_ANNOTATION_COLLECTION_NAME ''u1'' [] ex_ann_store)"
proof -
  have d: "delete_annotation ''u1'' ''a0'' ex_ann_store =
             Inr (set_objects BOOK_ANNOTATION_COLLECTION_NAME ''u1'' [] ex_ann_store)"
    by (simp add: delete_annotation_def delete_many_def ex_ann_objects ex_ann_obj_id)
       (simp add: ex_ann_store_def)
  show ?thesis using delete_annotation_idempotent [OF d] d by simp
qed

lemma add_book_annotations_duplicates_witness:
  "\<exists>s'. add_book_annotations (\<lambda>_. Some 0) ex_book [ex_ann] ex_ann_store = (Inr (), s') \<and>
        length (filter (same_annotation ''a0'') (objects s' BOOK_ANNOTATION_COLLECTION_NAME ''u1'')) = 2"
proof -
  obtain s' where r: "add_book_annotations (\<lambda>_. Some (0::nat)) ex_book [ex_ann] ex_ann_store = (Inr (), s')"
    by (simp add: crud_add_memory_def insert_obj_def Let_def ex_ann_store_def)
  have one: "length (filter (same_annotation ''a0'') (objects ex_ann_store BOOK_ANNOTATION_COLLECTION_NAME ''u1'')) = 1"
    by (simp add: ex_ann_objects same_annotation_def ex_ann_obj_id)
  have ids: "ann_id ex_ann = ''a0''" "bk_user_id ex_book = ''u1''"
    by (simp_all add: ex_ann_def ex_book_def)
  show ?thesis using add_book_annotations_duplicates [OF r] one r unfolding ids by auto
qed

lemma annotation_notes_none_text_witness:
  "\<exists>a. annotation_create ''f0'' ''b1'' ''cfi0'' ''pond'' None None None None = Inr a \<and>
       annotation_vector_text a = ''pond'' @ ''\<newline>None''"
proof -
  obtain a where a: "annotation_create ''f0'' ''b1'' ''cfi0'' ''pond'' None None None None = Inr a"
    by (simp add: annotation_create_def annotation_text_from_string_def annotation_type_from_string_def)
  show ?thesis using annotation_notes_none_text [OF a] a by blast
qed

lemma search_highlights_results_witness:
  "\<exists>hs s'. search_highlights (\<lambda>_ _. 0) ''u1'' ''b1'' (0::nat) 3 ex_ann_store = Inr (hs, s') \<and>
          hs \<noteq> [] \<and> list_all (\<lambda>h. hit_props h ''book_id'' = Some (PText ''b1'')) hs \<and>
          sorted (map hit_distance hs) \<and> length hs \<le> 3"
proof -
  define hs where "hs = map (to_hit highlight_return_properties) [(ex_ann_obj, 0::real)]"
  obtain s' where r: "search_highlights (\<lambda>_ _. 0) ''u1'' ''b1'' (0::nat) 3 ex_ann_store = Inr (hs, s')"
    by (simp add: search_highlights_def near_vector_def tenant_create_def hs_def ex_ann_store_def empty_store_def Let_def
                  ex_ann_obj_def annotation_metadata_def ex_book_def ex_ann_def)
  show ?thesis using search_highlights_results [OF r] r by (auto simp: list_all_iff hs_def)
qed

end
