(* ===== verification/Citations.thy ===== *)
theory Citations
  imports Prelude
begin

text \<open>
  \<open>CitationParser\<close> (\<open>usecase/message/citation_parser.py\<close>): the extraction of
  citation markers from an answer and their conversion to link tags. A Python string
  is a sequence of code points, modelled as \<open>nat list\<close> (\<open>ustr\<close>); ASCII literals
  are converted with \<open>ascii\<close>. The three regular expressions are translated into
  matchers that follow the engine's greedy, backtracking semantics: for these patterns
  the backtracking is decidable locally, and each matcher states the one outcome the
  engine reaches. \<open>\s\<close> and \<open>str.strip\<close> use Python's whitespace set; \<open>\d\<close> is the
  Unicode category Nd, given by the first code point of each block of ten decimal
  digits (Unicode 14.0, as in CPython 3.11). \<open>float\<close> of the matched digits is their
  exact decimal value; rounding to a binary double is not modelled. The \<open>isinstance\<close>
  checks of \<open>add_citation_links\<close> cannot fail on typed arguments and are left out.
\<close>

type_synonym ustr = "nat list"

definition ascii :: "string \<Rightarrow> ustr" where
  "ascii s = map of_char s"

section \<open>Character classes\<close>

text \<open>The code points for which \<open>str.isspace\<close> holds, matched by \<open>\s\<close>.\<close>

definition PY_WHITESPACE :: "nat list" where
  "PY_WHITESPACE = [9, 10, 11, 12, 13, 28, 29, 30, 31, 32, 133, 160, 5760, 8192, 8193, 8194, 8195,
                    8196, 8197, 8198, 8199, 8200, 8201, 8202, 8232, 8233, 8239, 8287, 12288]"

definition is_space :: "nat \<Rightarrow> bool" where
  "is_space c \<longleftrightarrow> c \<in> set PY_WHITESPACE"

text \<open>The zero of each block of ten Unicode decimal digits.\<close>

definition DECIMAL_ZEROS :: "nat list" where
  "DECIMAL_ZEROS = [48, 1632, 1776, 1984, 2406, 2534, 2662, 2790, 2918, 3046, 3174, 3302, 3430, 3558,
     3664, 3792, 3872, 4160, 4240, 6112, 6160, 6470, 6608, 6784, 6800, 6992, 7088, 7232, 7248, 42528,
     43216, 43264, 43472, 43504, 43600, 44016, 65296, 66720, 68912, 69734, 69872, 69942, 70096, 70384,
     70736, 70864, 71248, 71360, 71472, 71904, 72016, 72784, 73040, 73120, 92768, 92864, 93008, 120782,
     120792, 120802, 120812, 120822, 123200, 123632, 125264, 130032]"

definition is_digit :: "nat \<Rightarrow> bool" where
  "is_digit c \<longleftrightarrow> list_ex (\<lambda>z. z \<le> c \<and> c < z + 10) DECIMAL_ZEROS"

definition digit_value :: "nat \<Rightarrow> nat" where
  "digit_value c = (case find (\<lambda>z. z \<le> c \<and> c < z + 10) DECIMAL_ZEROS of Some z \<Rightarrow> c - z | None \<Rightarrow> 0)"

definition digits_value :: "ustr \<Rightarrow> nat" where
  "digits_value ds = foldl (\<lambda>acc c. 10 * acc + digit_value c) 0 ds"

text \<open>\<open>str.strip()\<close>.\<close>

definition py_strip :: "ustr \<Rightarrow> ustr" where
  "py_strip xs = rev (dropWhile is_space (rev (dropWhile is_space xs)))"

text \<open>\<open>SUPERSCRIPT_MAP\<close> (in its insertion order) and \<open>REVERSE_SUPERSCRIPT_MAP\<close>.\<close>

definition SUPERSCRIPT_MAP :: "(nat \<times> ustr) list" where
  "SUPERSCRIPT_MAP = [(185, ascii ''1''), (178, ascii ''2''), (179, ascii ''3''), (8308, ascii ''4''),
                      (8309, ascii ''5''), (8310, ascii ''6''), (8311, ascii ''7''), (8312, ascii ''8''),
                      (8313, ascii ''9'')]"

definition REVERSE_SUPERSCRIPT_MAP :: "(ustr \<times> nat) list" where
  "REVERSE_SUPERSCRIPT_MAP = map (\<lambda>(k, v). (v, k)) SUPERSCRIPT_MAP"

text \<open>The character class of superscript digits one to nine: the keys of the map.\<close>

definition is_superscript :: "nat \<Rightarrow> bool" where
  "is_superscript c \<longleftrightarrow> c \<in> set (map fst SUPERSCRIPT_MAP)"

section \<open>Results\<close>

record citation =
  cit_marker :: ustr
  cit_number :: ustr
  cit_chapter :: ustr
  cit_position_percent :: "real option"
  cit_cfi :: "ustr option"
  cit_location_info :: "ustr option"
  cit_is_highlight :: "bool option"

text \<open>\<open>markers_found = list(set(...))\<close> has no defined order; it is the set.\<close>

record citation_result =
  citations :: "citation list"
  has_citations :: bool
  markers_found :: "nat set"

section \<open>The patterns\<close>

definition STAR :: nat where "STAR = 9733"
definition FW_LPAREN :: nat where "FW_LPAREN = 65288"
definition FW_RPAREN :: nat where "FW_RPAREN = 65289"
definition NL :: nat where "NL = 10"
definition REF_HEADER :: ustr where "REF_HEADER = [21442, 29031, 31623, 25152]"
definition REF_COLONS :: "nat list" where "REF_COLONS = [65306, 58]"
definition POSITION_OPEN :: nat where "POSITION_OPEN = 32004"
definition POSITION_CLOSE :: ustr where "POSITION_CLOSE = [37, 12398, 20301, 32622, 65289]"

text \<open>
  \<open>\s+([^\<dots>]+)\<close> followed by a full-width parenthesis: the greedy \<open>\s+\<close> leaves the
  chapter to the first non-space character, unless that character is the parenthesis,
  when \<open>\s+\<close> gives one space back. Either way the parenthesis is the first one after
  the spaces. The chapter group and the text from the parenthesis on.
\<close>

definition match_chapter :: "ustr \<Rightarrow> (ustr \<times> ustr) option" where
  "match_chapter r =
     (let w = takeWhile is_space r; r1 = dropWhile is_space r; r2 = dropWhile (\<lambda>c. c \<noteq> FW_LPAREN) r1
      in if w = [] \<or> r1 = [] \<or> r2 = [] then None
         else if hd r1 \<noteq> FW_LPAREN then Some (takeWhile (\<lambda>c. c \<noteq> FW_LPAREN) r1, r2)
         else if 2 \<le> length w then Some ([last w], r2)
         else None)"

text \<open>\<open>\d+(?:\.\d+)?\<close>: the value of the number and the rest of the text.\<close>

definition match_number :: "ustr \<Rightarrow> (real \<times> ustr) option" where
  "match_number r =
     (let d1 = takeWhile is_digit r; r4 = dropWhile is_digit r
      in if d1 = [] then None
         else (case r4 of
                 c # r5 \<Rightarrow>
                   if c = 46 \<and> takeWhile is_digit r5 \<noteq> []
                   then Some (real (digits_value d1) +
                                real (digits_value (takeWhile is_digit r5)) /
                                10 ^ length (takeWhile is_digit r5),
                              dropWhile is_digit r5)
                   else Some (real (digits_value d1), r4)
               | [] \<Rightarrow> Some (real (digits_value d1), r4)))"

text \<open>One match of \<open>([superscripts])\s+([^\<dots>]+)\<dots>(\d+(?:\.\d+)?)\<dots>\<close> at the start of
  the text: the citation built from it and the text after the match.\<close>

definition match_reference :: "ustr \<Rightarrow> (citation \<times> ustr) option" where
  "match_reference xs =
     (case xs of
        [] \<Rightarrow> None
      | m # r \<Rightarrow>
          if \<not> is_superscript m then None
          else (case match_chapter r of
                  None \<Rightarrow> None
                | Some (g2, r2) \<Rightarrow>
                    if take 2 r2 \<noteq> [FW_LPAREN, POSITION_OPEN] then None
                    else (case match_number (drop 2 r2) of
                            None \<Rightarrow> None
                          | Some (pos, r6) \<Rightarrow>
                              if take 5 r6 \<noteq> POSITION_CLOSE then None
                              else Some (\<lparr>cit_marker = [m],
                                           cit_number = (case map_of SUPERSCRIPT_MAP m of
                                                           Some v \<Rightarrow> v | None \<Rightarrow> ascii ''?''),
                                           cit_chapter = py_strip g2, cit_position_percent = Some pos,
                                           cit_cfi = None, cit_location_info = None,
                                           cit_is_highlight = None\<rparr>,
                                         drop 5 r6))))"

text \<open>One match of \<open>(\<star>\d+)\s+([^\<dots>]+)\<dots>([^\<dots>]+)\<dots>\<close> at the start of the text.\<close>

definition match_highlight :: "ustr \<Rightarrow> (citation \<times> ustr) option" where
  "match_highlight xs =
     (case xs of
        [] \<Rightarrow> None
      | s # r \<Rightarrow>
          let d = takeWhile is_digit r; r0 = dropWhile is_digit r
          in if s \<noteq> STAR \<or> d = [] then None
             else (case match_chapter r0 of
                     None \<Rightarrow> None
                   | Some (g2, r2) \<Rightarrow>
                       let g3 = takeWhile (\<lambda>c. c \<noteq> FW_RPAREN) (tl r2);
                           r3 = dropWhile (\<lambda>c. c \<noteq> FW_RPAREN) (tl r2)
                       in if g3 = [] \<or> r3 = [] then None
                          else Some (\<lparr>cit_marker = s # d, cit_number = d, cit_chapter = py_strip g2,
                                       cit_position_percent = None, cit_cfi = None,
                                       cit_location_info = Some g3, cit_is_highlight = Some True\<rparr>,
                                     tl r3)))"

lemma dropWhile_Cons_length: "dropWhile P xs = y # ys \<Longrightarrow> length ys < length xs"
  using length_dropWhile_le [of P xs] by simp

lemma match_chapter_shorter: "match_chapter r = Some (g, r2) \<Longrightarrow> length r2 \<le> length r"
  unfolding match_chapter_def Let_def
  using length_dropWhile_le [of "\<lambda>c. c \<noteq> FW_LPAREN" "dropWhile is_space r"]
        length_dropWhile_le [of is_space r]
  by (auto split: if_splits)

lemma match_number_shorter: "match_number r = Some (v, r6) \<Longrightarrow> length r6 \<le> length r"
proof (cases "dropWhile is_digit r")
  case (Cons c r5)
  assume "match_number r = Some (v, r6)"
  moreover have "length (dropWhile is_digit r5) \<le> length r"
    using dropWhile_Cons_length [OF Cons] length_dropWhile_le [of is_digit r5] by linarith
  ultimately show ?thesis
    using Cons by (auto simp: match_number_def Let_def length_dropWhile_le split: if_splits)
qed (auto simp: match_number_def Let_def split: if_splits)

lemma match_reference_shorter: "match_reference xs = Some (ci, rest) \<Longrightarrow> length rest < length xs"
  by (auto simp: match_reference_def split: list.splits if_splits option.splits
           dest!: match_chapter_shorter match_number_shorter) (linarith+)

lemma match_highlight_shorter: "match_highlight xs = Some (ci, rest) \<Longrightarrow> length rest < length xs"
proof (cases xs)
  case (Cons s r)
  assume m: "match_highlight xs = Some (ci, rest)"
  then obtain g2 r2 where c: "match_chapter (dropWhile is_digit r) = Some (g2, r2)"
    and rest: "rest = tl (dropWhile (\<lambda>c. c \<noteq> FW_RPAREN) (tl r2))"
    using Cons by (auto simp: match_highlight_def Let_def split: if_splits option.splits)
  have "length r2 \<le> length r"
    using match_chapter_shorter [OF c] length_dropWhile_le [of is_digit r] by simp
  then show ?thesis
    using Cons rest length_dropWhile_le [of "\<lambda>c. c \<noteq> FW_RPAREN" "tl r2"] by simp
qed (simp add: match_highlight_def)

text \<open>\<open>re.finditer\<close>: after a match the scan resumes at its end, after a failed
  position at the next one.\<close>

function find_references :: "ustr \<Rightarrow> citation list" where
  "find_references [] = []"
| "find_references (c # cs) =
     (case match_reference (c # cs) of
        Some (ci, rest) \<Rightarrow> ci # find_references rest
      | None \<Rightarrow> find_references cs)"
  by pat_completeness auto
termination
  by (relation "measure length") (auto dest: match_reference_shorter)

function find_highlights :: "ustr \<Rightarrow> citation list" where
  "find_highlights [] = []"
| "find_highlights (c # cs) =
     (case match_highlight (c # cs) of
        Some (ci, rest) \<Rightarrow> ci # find_highlights rest
      | None \<Rightarrow> find_highlights cs)"
  by pat_completeness auto
termination
  by (relation "measure length") (auto dest: match_highlight_shorter)

text \<open>\<open>re.search(r"\<dots>[\<dots>:]\s*\n((?:.*\n?)*)", text)\<close> at the start of the text: the
  header and a colon, then the greedy \<open>\s*\<close> gives back up to the last line break
  among the spaces; the group is everything after that line break.\<close>

definition match_reference_header :: "ustr \<Rightarrow> ustr option" where
  "match_reference_header xs =
     (if take 4 xs = REF_HEADER \<and> 4 < length xs \<and> xs ! 4 \<in> set REF_COLONS
      then let r = drop 5 xs; w = takeWhile is_space r
           in if NL \<in> set w then Some (rev (takeWhile (\<lambda>c. c \<noteq> NL) (rev w)) @ dropWhile is_space r)
              else None
      else None)"

text \<open>The leftmost match.\<close>

fun reference_section :: "ustr \<Rightarrow> ustr option" where
  "reference_section [] = None"
| "reference_section (c # cs) =
     (case match_reference_header (c # cs) of Some g \<Rightarrow> Some g | None \<Rightarrow> reference_section cs)"

section \<open>CitationParser.extract_citations\<close>

definition extract_citations :: "ustr \<Rightarrow> citation_result" where
  "extract_citations text =
     (let cs = (case reference_section text of None \<Rightarrow> [] | Some sec \<Rightarrow> find_references sec) @
               find_highlights text
      in \<lparr>citations = cs, has_citations = (0 < length cs),
          markers_found = set (filter is_superscript text)\<rparr>)"

section \<open>CitationParser.add_citation_links\<close>

text \<open>\<open>str.replace(old, new)\<close>: every occurrence, left to right, without overlap; an
  empty \<open>old\<close> inserts \<open>new\<close> around every character.\<close>

function replace_nonempty :: "'a list \<Rightarrow> 'a list \<Rightarrow> 'a list \<Rightarrow> 'a list" where
  "replace_nonempty old new [] = []"
| "replace_nonempty old new (c # cs) =
     (if old \<noteq> [] \<and> take (length old) (c # cs) = old
      then new @ replace_nonempty old new (drop (length old) (c # cs))
      else c # replace_nonempty old new cs)"
  by pat_completeness auto
termination
  by (relation "measure (\<lambda>(_, _, xs). length xs)") auto

definition str_replace :: "'a list \<Rightarrow> 'a list \<Rightarrow> 'a list \<Rightarrow> 'a list" where
  "str_replace old new xs =
     (if old = [] then concat (map (\<lambda>c. new @ [c]) xs) @ new else replace_nonempty old new xs)"

text \<open>\<open>f'<citation-link marker="{marker}" number="{number}">{marker}</citation-link>'\<close>;
  34 is the double quote.\<close>

definition citation_tag :: "citation \<Rightarrow> ustr" where
  "citation_tag ci =
     ascii ''<citation-link marker='' @ [34] @ cit_marker ci @ [34] @ ascii '' number='' @ [34] @
     cit_number ci @ [34] @ ascii ''>'' @ cit_marker ci @ ascii ''</citation-link>''"

definition add_citation_links :: "ustr \<Rightarrow> citation list \<Rightarrow> ustr" where
  "add_citation_links text cs = foldl (\<lambda>result ci. str_replace (cit_marker ci) (citation_tag ci) result) text cs"

section \<open>Reference forms and examples\<close>

text \<open>The one-pass substitution: a character that is the marker of a citation becomes
  that citation's tag.\<close>

definition tag_of :: "citation list \<Rightarrow> nat \<Rightarrow> ustr" where
  "tag_of cs x = (case find (\<lambda>ci. cit_marker ci = [x]) cs of None \<Rightarrow> [x] | Some ci \<Rightarrow> citation_tag ci)"

text \<open>A reference line in the format the parser expects.\<close>

definition reference_line :: "nat \<Rightarrow> ustr \<Rightarrow> ustr \<Rightarrow> ustr" where
  "reference_line c chap d = [c, 32] @ chap @ [FW_LPAREN, POSITION_OPEN] @ d @ POSITION_CLOSE"



definition ex_cit185 :: citation where
  "ex_cit185 = \<lparr>cit_marker = [185], cit_number = [49], cit_chapter = [67], cit_position_percent = Some 2,
     cit_cfi = None, cit_location_info = None, cit_is_highlight = None\<rparr>"

section \<open>Properties\<close>


lemma replace_single:
  "replace_nonempty [c] new xs = concat (map (\<lambda>x. if x = c then new else [x]) xs)"
  by (induction xs) auto

lemma concat_map_concat_map:
  "concat (map f (concat (map g xs))) = concat (map (\<lambda>x. concat (map f (g x))) xs)"
  by (induction xs) auto

lemma concat_map_id:
  "(\<And>y. y \<in> set ys \<Longrightarrow> f y = [y]) \<Longrightarrow> concat (map f ys) = ys"
  by (induction ys) auto

lemma citation_tag_chars:
  "y \<in> set (citation_tag ci) \<Longrightarrow> y \<in> set (cit_marker ci) \<or> y \<in> set (cit_number ci) \<or> \<not> is_superscript y"
  by (auto simp: citation_tag_def ascii_def is_superscript_def SUPERSCRIPT_MAP_def)

text \<open>Claim C34: for citations whose markers are distinct superscript digits and whose numbers contain none, the sequence of \<open>str.replace\<close> calls of \<open>add_citation_links\<close> equals a single pass that replaces each marker character by its link tag (a reference definition with no interference between the replacements).\<close>

theorem add_citation_links_subst:
  assumes "list_all (\<lambda>ci. \<exists>c. cit_marker ci = [c] \<and> is_superscript c) cs"
    and "distinct (map cit_marker cs)"
    and "list_all (\<lambda>ci. \<not> list_ex is_superscript (cit_number ci)) cs"
  shows "add_citation_links s cs = concat (map (tag_of cs) s)"
  using assms
proof (induction cs arbitrary: s)
  case Nil
  then show ?case by (simp add: add_citation_links_def tag_of_def concat_map_id)
next
  case (Cons ci cs)
  obtain c where c: "cit_marker ci = [c]" "is_superscript c" using Cons.prems(1) by auto
  have fresh: "tag_of cs y = [y]" if "y = c \<or> \<not> is_superscript y" for y
  proof -
    have "\<forall>ci' \<in> set cs. cit_marker ci' \<noteq> [y]"
      using that Cons.prems(1,2) c by (force simp: list_all_iff image_iff)
    then have "find (\<lambda>ci. cit_marker ci = [y]) cs = None" by (auto simp: find_None_iff)
    then show ?thesis by (simp add: tag_of_def)
  qed
  have tag: "concat (map (tag_of cs) (citation_tag ci)) = citation_tag ci"
  proof (rule concat_map_id)
    fix y assume "y \<in> set (citation_tag ci)"
    then show "tag_of cs y = [y]"
      using citation_tag_chars [of y ci] c Cons.prems(3) fresh by (auto simp: list_ex_iff)
  qed
  have step: "add_citation_links s (ci # cs) =
                add_citation_links (concat (map (\<lambda>x. if x = c then citation_tag ci else [x]) s)) cs"
    by (simp add: add_citation_links_def str_replace_def c replace_single)
  have cons: "tag_of (ci # cs) x = (if x = c then citation_tag ci else tag_of cs x)" for x
    using c by (auto simp: tag_of_def)
  have "add_citation_links s (ci # cs) =
          concat (map (\<lambda>x. concat (map (tag_of cs) (if x = c then citation_tag ci else [x]))) s)"
    using Cons.prems unfolding step by (simp add: Cons.IH concat_map_concat_map)
  also have "\<dots> = concat (map (tag_of (ci # cs)) s)"
    by (rule arg_cong [where f = concat], rule map_cong) (simp_all add: cons tag)
  finally show ?case .
qed

lemma superscript_not_space: "is_superscript c \<Longrightarrow> \<not> is_space c \<and> c \<noteq> STAR"
  by (auto simp: is_superscript_def SUPERSCRIPT_MAP_def is_space_def PY_WHITESPACE_def STAR_def)

lemma STAR_not_digit: "\<not> is_digit STAR" and percent_not_digit: "\<not> is_digit 37"
  by (simp_all add: is_digit_def DECIMAL_ZEROS_def STAR_def)

lemma find_highlights_no_star: "STAR \<notin> set xs \<Longrightarrow> find_highlights xs = []"
  by (induction xs rule: find_highlights.induct) (auto simp: match_highlight_def)

lemma reference_section_skip:
  "21442 \<notin> set body \<Longrightarrow> reference_section (body @ xs) = reference_section xs"
  by (induction body) (auto simp: match_reference_header_def REF_HEADER_def take_Cons')

lemma reference_line_section:
  assumes "is_superscript c"
  shows "reference_section (REF_HEADER @ [58, NL] @ reference_line c chap d) = Some (reference_line c chap d)"
  using superscript_not_space [OF assms]
  by (simp add: REF_HEADER_def REF_COLONS_def match_reference_header_def reference_line_def NL_def
                is_space_def PY_WHITESPACE_def)

lemma POSITION_CLOSE_take_drop [simp]:
  "take 5 (POSITION_CLOSE @ r) = POSITION_CLOSE" "drop 5 (POSITION_CLOSE @ r) = r"
  "POSITION_CLOSE \<noteq> []" "hd POSITION_CLOSE = 37" "length POSITION_CLOSE = 5"
  by (simp_all add: POSITION_CLOSE_def)

lemma match_chapter_line:
  assumes "chap \<noteq> []" "\<not> is_space (hd chap)" "FW_LPAREN \<notin> set chap"
  shows "match_chapter (32 # chap @ FW_LPAREN # r) = Some (chap, FW_LPAREN # r)"
proof -
  obtain x xs where x: "chap = x # xs" using assms(1) by (cases chap) auto
  have sp: "is_space 32" by (simp add: is_space_def PY_WHITESPACE_def)
  have w: "takeWhile is_space (32 # chap @ FW_LPAREN # r) = [32]"
    "dropWhile is_space (32 # chap @ FW_LPAREN # r) = chap @ FW_LPAREN # r"
    using assms(2) sp by (simp_all add: x)
  have "takeWhile (\<lambda>c. c \<noteq> FW_LPAREN) (chap @ FW_LPAREN # r) = chap"
    "dropWhile (\<lambda>c. c \<noteq> FW_LPAREN) (chap @ FW_LPAREN # r) = FW_LPAREN # r"
    using assms(3) by (simp_all add: takeWhile_append dropWhile_append)
  moreover have "hd (chap @ FW_LPAREN # r) \<noteq> FW_LPAREN" using assms(3) by (simp add: x)
  ultimately show ?thesis unfolding match_chapter_def Let_def w by simp
qed

lemma match_number_digits:
  assumes "d \<noteq> []" "list_all is_digit d"
  shows "match_number (d @ POSITION_CLOSE) = Some (real (digits_value d), POSITION_CLOSE)"
proof -
  obtain r where pc: "POSITION_CLOSE = 37 # r" by (simp add: POSITION_CLOSE_def)
  have all: "\<forall>x \<in> set d. is_digit x" using assms(2) by (simp add: list_all_iff)
  have t: "takeWhile is_digit (d @ POSITION_CLOSE) = d"
    using all percent_not_digit by (simp add: takeWhile_append pc)
  have dr: "dropWhile is_digit (d @ POSITION_CLOSE) = POSITION_CLOSE"
    using all percent_not_digit by (simp add: dropWhile_append pc)
  show ?thesis
    using assms(1) unfolding match_number_def Let_def t dr by (simp add: pc)
qed

lemma match_reference_line:
  assumes c: "is_superscript c" and ch: "chap \<noteq> []" "\<not> is_space (hd chap)" "FW_LPAREN \<notin> set chap"
    and d: "d \<noteq> []" "list_all is_digit d"
  shows "match_reference (reference_line c chap d) =
           Some (\<lparr>cit_marker = [c], cit_number = the (map_of SUPERSCRIPT_MAP c), cit_chapter = py_strip chap,
                  cit_position_percent = Some (real (digits_value d)), cit_cfi = None,
                  cit_location_info = None, cit_is_highlight = None\<rparr>, [])"
proof -
  have mc: "match_chapter (32 # chap @ FW_LPAREN # POSITION_OPEN # d @ POSITION_CLOSE) =
              Some (chap, FW_LPAREN # POSITION_OPEN # d @ POSITION_CLOSE)"
    by (rule match_chapter_line [OF ch])
  have "map_of SUPERSCRIPT_MAP c \<noteq> None"
    using c by (auto simp: is_superscript_def map_of_eq_None_iff)
  then obtain v where v: "map_of SUPERSCRIPT_MAP c = Some v" by blast
  show ?thesis
    using c mc match_number_digits [OF d] v by (simp add: match_reference_def reference_line_def)
qed

lemma py_strip_id:
  assumes "xs \<noteq> []" "\<not> is_space (hd xs)" "\<not> is_space (last xs)"
  shows "py_strip xs = xs"
proof -
  have a: "dropWhile is_space xs = xs" using assms by (cases xs) auto
  obtain y ys where r: "rev xs = y # ys" using assms(1) by (cases "rev xs") auto
  have "y = last xs" using r hd_rev [of xs] by simp
  then have "dropWhile is_space (rev xs) = rev xs" unfolding r using assms(3) by simp
  then show ?thesis by (simp add: py_strip_def a)
qed

text \<open>Claim C35: a reference section rendered in the format the parser expects is parsed back: after the header line, a line \<open>marker, space, chapter, (about d% position)\<close> yields exactly one citation with that marker, its number, the chapter and the position, whatever text without a header or highlight marker precedes it.\<close>

theorem extract_citations_roundtrip:
  assumes c: "is_superscript c"
    and ch: "chap \<noteq> []" "\<not> is_space (hd chap)" "\<not> is_space (last chap)"
            "FW_LPAREN \<notin> set chap" "STAR \<notin> set chap"
    and d: "d \<noteq> []" "list_all is_digit d"
    and body: "21442 \<notin> set body" "STAR \<notin> set body"
  shows "citations (extract_citations (body @ REF_HEADER @ [58, NL] @ reference_line c chap d)) =
           [\<lparr>cit_marker = [c], cit_number = the (map_of SUPERSCRIPT_MAP c), cit_chapter = chap,
             cit_position_percent = Some (real (digits_value d)), cit_cfi = None,
             cit_location_info = None, cit_is_highlight = None\<rparr>]"
proof -
  let ?line = "reference_line c chap d"
  have sec: "reference_section (body @ REF_HEADER @ [58, NL] @ ?line) = Some ?line"
    using reference_section_skip [OF body(1)] reference_line_section [OF c] by simp
  obtain rest where line: "?line = c # rest" by (simp add: reference_line_def)
  have refs: "find_references ?line = [\<lparr>cit_marker = [c], cit_number = the (map_of SUPERSCRIPT_MAP c),
               cit_chapter = chap, cit_position_percent = Some (real (digits_value d)), cit_cfi = None,
               cit_location_info = None, cit_is_highlight = None\<rparr>]"
    using match_reference_line [OF c ch(1,2,4) d] py_strip_id [OF ch(1,2,3)]
    unfolding line by simp
  have "STAR \<notin> set d" using d(2) STAR_not_digit by (auto simp: list_all_iff)
  then have s1: "STAR \<notin> set ?line"
    using ch(5) superscript_not_space [OF c]
    by (simp add: reference_line_def POSITION_CLOSE_def POSITION_OPEN_def FW_LPAREN_def STAR_def)
  have s2: "STAR \<notin> set (REF_HEADER @ [58, NL])" by (simp add: REF_HEADER_def STAR_def NL_def)
  have "STAR \<notin> set (body @ REF_HEADER @ [58, NL] @ ?line)"
    using body(2) s1 s2 by simp
  then have fh: "find_highlights (body @ REF_HEADER @ [58, NL] @ ?line) = []" by (rule find_highlights_no_star)
  define T where "T = body @ REF_HEADER @ [58, NL] @ ?line"
  have "citations (extract_citations T) = find_references ?line @ find_highlights T"
    unfolding extract_citations_def Let_def T_def sec by simp
  then show ?thesis using refs fh unfolding T_def by simp
qed

lemma is_digit_below:
  assumes "c < 1632" shows "is_digit c \<longleftrightarrow> 48 \<le> c \<and> c < 58"
proof -
  have "\<forall>z \<in> set (tl DECIMAL_ZEROS). 1632 \<le> z" by (simp add: DECIMAL_ZEROS_def)
  then have "\<not> list_ex (\<lambda>z. z \<le> c \<and> c < z + 10) (tl DECIMAL_ZEROS)"
    using assms by (auto simp: list_ex_iff)
  moreover have dz: "48 # tl DECIMAL_ZEROS = DECIMAL_ZEROS" by (simp add: DECIMAL_ZEROS_def)
  have "is_digit c \<longleftrightarrow> list_ex (\<lambda>z. z \<le> c \<and> c < z + 10) (48 # tl DECIMAL_ZEROS)"
    by (simp only: is_digit_def dz)
  ultimately show ?thesis by simp
qed




lemma add_citation_links_subst_witness:
  "list_all (\<lambda>ci. \<exists>c. cit_marker ci = [c] \<and> is_superscript c) [ex_cit185] \<and>
   distinct (map cit_marker [ex_cit185]) \<and>
   list_all (\<lambda>ci. \<not> list_ex is_superscript (cit_number ci)) [ex_cit185] \<and>
   add_citation_links [185, 32] [ex_cit185] = citation_tag ex_cit185 @ [32]"
proof -
  have h: "list_all (\<lambda>ci. \<exists>c. cit_marker ci = [c] \<and> is_superscript c) [ex_cit185]"
    "distinct (map cit_marker [ex_cit185])"
    "list_all (\<lambda>ci. \<not> list_ex is_superscript (cit_number ci)) [ex_cit185]"
    by (simp_all add: ex_cit185_def is_superscript_def SUPERSCRIPT_MAP_def)
  show ?thesis using add_citation_links_subst [OF h, of "[185, 32]"] h
    by (simp add: tag_of_def ex_cit185_def)
qed

lemma extract_citations_roundtrip_witness:
  "is_superscript 185 \<and> \<not> is_space 67 \<and> FW_LPAREN \<notin> set [67, 104] \<and> STAR \<notin> set [67, 104] \<and>
   list_all is_digit [50, 53] \<and> 21442 \<notin> set [83, 101, 185::nat] \<and> STAR \<notin> set [83, 101, 185] \<and>
   citations (extract_citations ([83, 101, 185] @ REF_HEADER @ [58, NL] @ reference_line 185 [67, 104] [50, 53])) =
     [\<lparr>cit_marker = [185], cit_number = [49], cit_chapter = [67, 104],
       cit_position_percent = Some 25, cit_cfi = None, cit_location_info = None, cit_is_highlight = None\<rparr>]"
proof -
  have c: "is_superscript 185" by (simp add: is_superscript_def SUPERSCRIPT_MAP_def)
  have sp: "\<not> is_space 67" "\<not> is_space 104" by (simp_all add: is_space_def PY_WHITESPACE_def)
  have ch: "FW_LPAREN \<notin> set [67, 104]" "STAR \<notin> set [67, 104]" by (simp_all add: FW_LPAREN_def STAR_def)
  have d: "list_all is_digit [50, 53]" by (simp add: is_digit_below)
  have b: "21442 \<notin> set [83, 101, 185::nat]" "STAR \<notin> set [83, 101, 185]" by (simp_all add: STAR_def)
  have "digits_value [50, 53] = 25"
    by (simp add: digits_value_def digit_value_def DECIMAL_ZEROS_def)
  moreover have "the (map_of SUPERSCRIPT_MAP 185) = [49]" by (simp add: SUPERSCRIPT_MAP_def ascii_def)
  ultimately show ?thesis
    using extract_citations_roundtrip [OF c _ _ _ ch _ d b] c sp ch d b by simp
qed

end
