(* ===== verification/Books.thy ===== *)
theory Books
  imports Annotations Citations "HOL-Library.Sublist"
begin

text \<open>
  Book use cases: deletion (\<open>usecase/book/delete_book_usecase.py\<close>,
  \<open>DeleteBookUseCaseImpl\<close> and \<open>BulkDeleteBooksUseCaseImpl\<close>), lookup
  (\<open>find_book_by_id_usecase.py\<close>) and the annotation sync
  (\<open>usecase/annotation/update_annotation_use_case.py\<close>). A deletion marks the book deleted in the book table,
  removes its EPUB file and cover image from the storage bucket, and removes its vectors
  (\<open>delete_book_memories\<close> of \<open>Annotations\<close>). The book table, the bucket client and
  \<open>MemoryService\<close> are not under \<open>src/\<close>: the table is a list of books keyed by id
  (\<open>BookRepository\<close> is an interface), the bucket is the set of its blob keys, and
  \<open>MemoryService.delete_book_memories\<close> is taken to be that of \<open>VectorizationService\<close>,
  which already logs and drops every error. A blob that does not exist makes
  \<open>blob.delete()\<close> raise, which \<open>contextlib.suppress\<close> discards.
\<close>

section \<open>Collaborators\<close>

datatype book_use_error = BookNotFound string

record 'v book_state =
  bs_books :: "book list"
  bs_blobs :: "string set"
  bs_store :: "'v store"

record gcs_config =
  gcs_url :: string
  gcs_bucket_name :: string

text \<open>\<open>f"{gcs_url}/{bucket_name}/"\<close>.\<close>

definition gcs_prefix :: "gcs_config \<Rightarrow> string" where
  "gcs_prefix g = gcs_url g @ ''/'' @ gcs_bucket_name g @ ''/''"

definition book_repo_find_by_id :: "book_id \<Rightarrow> book list \<Rightarrow> book option" where
  "book_repo_find_by_id bid bs = find (\<lambda>b. bk_id b = bid) bs"

definition book_repo_save :: "book \<Rightarrow> book list \<Rightarrow> book list" where
  "book_repo_save b bs =
     (if bk_id b \<in> set (map bk_id bs) then map (\<lambda>x. if bk_id x = bk_id b then b else x) bs else bs @ [b])"

text \<open>\<open>bulk_delete(ids)\<close>: every listed book is marked deleted and the ids are returned.\<close>

definition book_repo_bulk_delete :: "timestamp \<Rightarrow> book_id list \<Rightarrow> book list \<Rightarrow> book_id list \<times> book list" where
  "book_repo_bulk_delete ts ids bs = (ids, map (\<lambda>x. if bk_id x \<in> set ids then book_mark_as_deleted ts x else x) bs)"

section \<open>Storage files\<close>

text \<open>\<open>path.replace(prefix, "")\<close>: the blob key of a stored URL.\<close>

definition blob_key :: "gcs_config \<Rightarrow> string \<Rightarrow> string" where
  "blob_key g path = str_replace (gcs_prefix g) [] path"

definition delete_blob :: "string \<Rightarrow> string set \<Rightarrow> string set" where
  "delete_blob k blobs = blobs - {k}"

text \<open>The book file when \<open>file_path\<close> is non-empty, then the cover when it is set and
  non-empty.\<close>

definition delete_book_files :: "gcs_config \<Rightarrow> book \<Rightarrow> string set \<Rightarrow> string set" where
  "delete_book_files g b blobs =
     (let blobs1 = (if bk_file_path b \<noteq> [] then delete_blob (blob_key g (bk_file_path b)) blobs else blobs)
      in case bk_cover_path b of
           Some cp \<Rightarrow> if cp \<noteq> [] then delete_blob (blob_key g cp) blobs1 else blobs1
         | None \<Rightarrow> blobs1)"

section \<open>DeleteBookUseCaseImpl.execute\<close>

definition delete_book_execute ::
  "gcs_config \<Rightarrow> timestamp \<Rightarrow> book_id \<Rightarrow> 'v book_state \<Rightarrow> book_use_error + 'v book_state" where
  "delete_book_execute g ts bid st =
     (case book_repo_find_by_id bid (bs_books st) of
        None \<Rightarrow> Inl (BookNotFound bid)
      | Some b \<Rightarrow>
          let b' = book_mark_as_deleted ts b
          in Inr \<lparr>bs_books = book_repo_save b' (bs_books st),
                  bs_blobs = delete_book_files g b' (bs_blobs st),
                  bs_store = delete_book_memories (bk_user_id b') bid (bs_store st)\<rparr>)"

section \<open>BulkDeleteBooksUseCaseImpl.execute\<close>

text \<open>The per-book loop: files, then vectors.\<close>

definition delete_book_data :: "gcs_config \<Rightarrow> book \<Rightarrow> 'v book_state \<Rightarrow> 'v book_state" where
  "delete_book_data g b st =
     st\<lparr>bs_blobs := delete_book_files g b (bs_blobs st),
        bs_store := delete_book_memories (bk_user_id b) (bk_id b) (bs_store st)\<rparr>"

definition bulk_delete_books_execute ::
  "gcs_config \<Rightarrow> timestamp \<Rightarrow> book_id list \<Rightarrow> 'v book_state \<Rightarrow> book_id list \<times> 'v book_state" where
  "bulk_delete_books_execute g ts ids st =
     (if ids = [] then ([], st)
      else let found = List.map_filter (\<lambda>i. book_repo_find_by_id i (bs_books st)) ids
           in if found = [] then ([], st)
              else let (deleted, books') = book_repo_bulk_delete ts (map bk_id found) (bs_books st)
                   in (deleted, fold (delete_book_data g) found (st\<lparr>bs_books := books'\<rparr>)))"

section \<open>Book lookup and annotation sync\<close>

definition find_book_by_id_execute :: "book_id \<Rightarrow> book list \<Rightarrow> book_use_error + book" where
  "find_book_by_id_execute bid bs =
     (case book_repo_find_by_id bid bs of None \<Rightarrow> Inl (BookNotFound bid) | Some b \<Rightarrow> Inr b)"

text \<open>\<open>SyncAnnotationsUseCaseImpl.execute(book_id, annotations)\<close>: the book handed to
  \<open>AnnotationRepository.sync_annotations\<close> (not under \<open>src/\<close>), with its annotations
  replaced when a list is given.\<close>

definition sync_annotations_execute ::
  "book_id \<Rightarrow> annotation list option \<Rightarrow> book list \<Rightarrow> book_use_error + book" where
  "sync_annotations_execute bid anns bs =
     (case book_repo_find_by_id bid bs of
        None \<Rightarrow> Inl (BookNotFound bid)
      | Some b \<Rightarrow> Inr (case anns of None \<Rightarrow> b | Some xs \<Rightarrow> b\<lparr>bk_annotations := xs\<rparr>))"

section \<open>Examples\<close>

definition ex_gcs :: gcs_config where
  "ex_gcs = \<lparr>gcs_url = ''https://storage.googleapis.com'', gcs_bucket_name = ''bookwith-bucket''\<rparr>"

definition ex_book_state :: "nat book_state" where
  "ex_book_state = \<lparr>bs_books = [ex_book], bs_blobs = {''b1.epub''},
     bs_store = ex_ann_store\<lparr>collections := {BOOK_CONTENT_COLLECTION_NAME, BOOK_ANNOTATION_COLLECTION_NAME}\<rparr>\<rparr>"

section \<open>Properties\<close>

lemma replace_absent:
  "\<not> sublist old xs \<Longrightarrow> replace_nonempty old new xs = xs"
proof (induction xs)
  case (Cons c cs)
  then have "\<not> prefix old (c # cs)" "\<not> sublist old cs" by (auto simp: sublist_Cons_right)
  then show ?case using Cons.IH by (auto simp: prefix_def) (metis append_take_drop_id)
qed simp

lemma replace_prefix:
  "old \<noteq> [] \<Longrightarrow> replace_nonempty old new (old @ k) = new @ replace_nonempty old new k"
  by (cases old) simp_all

lemma gcs_prefix_nonempty [simp]: "gcs_prefix g \<noteq> []"
  by (simp add: gcs_prefix_def)

text \<open>The blob key computed from a stored URL is the key the URL was built from: removing the bucket prefix with \<open>str.replace\<close> recovers any key that does not itself contain the prefix.\<close>

theorem blob_key_roundtrip:
  "\<not> sublist (gcs_prefix g) key \<Longrightarrow> blob_key g (gcs_prefix g @ key) = key"
  by (simp add: blob_key_def str_replace_def replace_prefix replace_absent)

lemma delete_book_memories_annotations:
  assumes "BOOK_CONTENT_COLLECTION_NAME \<in> collections s" "BOOK_ANNOTATION_COLLECTION_NAME \<in> collections s"
  shows "filter (\<lambda>ob. obj_props ob ''book_id'' = Some (PText bid))
           (objects (delete_book_memories u bid s) BOOK_ANNOTATION_COLLECTION_NAME u) = []"
proof -
  let ?F = "Equal ''book_id'' (PText bid)"
  define s1 where "s1 = set_objects BOOK_CONTENT_COLLECTION_NAME u
                          (filter (\<lambda>ob. \<not> matches ?F (obj_props ob)) (objects s BOOK_CONTENT_COLLECTION_NAME u)) s"
  define xs where "xs = filter (\<lambda>ob. \<not> matches ?F (obj_props ob)) (objects s1 BOOK_ANNOTATION_COLLECTION_NAME u)"
  have d1: "delete_many BOOK_CONTENT_COLLECTION_NAME u ?F s = Inr s1"
    using assms(1) by (simp add: delete_many_def s1_def)
  have "BOOK_ANNOTATION_COLLECTION_NAME \<in> collections s1"
    using assms(2) by (simp add: s1_def set_objects_def)
  then have d2: "delete_many BOOK_ANNOTATION_COLLECTION_NAME u ?F s1 =
                   Inr (set_objects BOOK_ANNOTATION_COLLECTION_NAME u xs s1)"
    by (simp add: delete_many_def xs_def)
  have "delete_book_memories u bid s = set_objects BOOK_ANNOTATION_COLLECTION_NAME u xs s1"
    by (simp add: delete_book_memories_def crud_delete_book_data_def d1 d2)
  then show ?thesis by (simp add: set_objects_def xs_def filter_empty_conv)
qed

lemma book_repo_find_Some:
  "book_repo_find_by_id bid bs = Some b \<Longrightarrow> b \<in> set bs \<and> bk_id b = bid"
  unfolding book_repo_find_by_id_def by (induction bs) (auto split: if_splits)

lemma find_replaced:
  "i \<in> set (map bk_id bs) \<Longrightarrow> bk_id b = i \<Longrightarrow>
   find (\<lambda>x. bk_id x = i) (map (\<lambda>x. if bk_id x = i then b else x) bs) = Some b"
  by (induction bs) auto

lemma book_repo_save_find:
  "bk_id b \<in> set (map bk_id bs) \<Longrightarrow> book_repo_find_by_id (bk_id b) (book_repo_save b bs) = Some b"
  by (simp add: book_repo_save_def book_repo_find_by_id_def find_replaced)

lemma book_mark_as_deleted_deleted [simp]:
  "book_is_deleted (book_mark_as_deleted t b)" "bk_id (book_mark_as_deleted t b) = bk_id b"
  "bk_user_id (book_mark_as_deleted t b) = bk_user_id b" "bk_file_path (book_mark_as_deleted t b) = bk_file_path b"
  by (simp_all add: book_mark_as_deleted_def book_is_deleted_def)

lemma delete_book_files_file:
  "bk_file_path b \<noteq> [] \<Longrightarrow> blob_key g (bk_file_path b) \<notin> delete_book_files g b blobs"
  by (auto simp: delete_book_files_def delete_blob_def Let_def split: option.splits)

text \<open>Claim C38: deleting an existing book succeeds, leaves the book marked deleted in the table, removes its EPUB blob, and removes every annotation vector of the book from the owner's tenant, provided the vector collections exist.\<close>

theorem delete_book_removes_data:
  assumes "BOOK_CONTENT_COLLECTION_NAME \<in> collections (bs_store st)"
    and "BOOK_ANNOTATION_COLLECTION_NAME \<in> collections (bs_store st)"
    and "book_repo_find_by_id bid (bs_books st) = Some b"
  shows "\<exists>st'. delete_book_execute g ts bid st = Inr st' \<and>
           filter (\<lambda>ob. obj_props ob ''book_id'' = Some (PText bid))
             (objects (bs_store st') BOOK_ANNOTATION_COLLECTION_NAME (bk_user_id b)) = [] \<and>
           (\<exists>b'. book_repo_find_by_id bid (bs_books st') = Some b' \<and> book_is_deleted b') \<and>
           (bk_file_path b \<noteq> [] \<longrightarrow> blob_key g (bk_file_path b) \<notin> bs_blobs st')"
proof -
  have b: "b \<in> set (bs_books st)" "bk_id b = bid" using book_repo_find_Some [OF assms(3)] by auto
  then have "book_repo_find_by_id bid (book_repo_save (book_mark_as_deleted ts b) (bs_books st)) =
               Some (book_mark_as_deleted ts b)"
    using book_repo_save_find [of "book_mark_as_deleted ts b" "bs_books st"] by auto
  moreover have "bk_file_path b \<noteq> [] \<Longrightarrow>
      blob_key g (bk_file_path b) \<notin> delete_book_files g (book_mark_as_deleted ts b) (bs_blobs st)"
    using delete_book_files_file [of "book_mark_as_deleted ts b" g] by simp
  ultimately show ?thesis
    using assms(3) delete_book_memories_annotations [OF assms(1,2)]
    by (auto simp: delete_book_execute_def Let_def)
qed

lemma not_sublist_longer: "length ys < length xs \<Longrightarrow> \<not> sublist xs ys"
  using sublist_length_le by fastforce

lemma blob_key_roundtrip_witness:
  "\<not> sublist (gcs_prefix ex_gcs) ''u1/b1.epub'' \<and>
   blob_key ex_gcs (gcs_prefix ex_gcs @ ''u1/b1.epub'') = ''u1/b1.epub''"
proof -
  have n: "\<not> sublist (gcs_prefix ex_gcs) ''u1/b1.epub''"
    by (rule not_sublist_longer) (simp add: gcs_prefix_def ex_gcs_def)
  show ?thesis using blob_key_roundtrip [OF n] n by simp
qed

lemma delete_book_removes_data_witness:
  "BOOK_CONTENT_COLLECTION_NAME \<in> collections (bs_store ex_book_state) \<and>
   BOOK_ANNOTATION_COLLECTION_NAME \<in> collections (bs_store ex_book_state) \<and>
   book_repo_find_by_id ''b1'' (bs_books ex_book_state) = Some ex_book \<and>
   (\<exists>st'. delete_book_execute ex_gcs 5 ''b1'' ex_book_state = Inr st' \<and>
      filter (\<lambda>ob. obj_props ob ''book_id'' = Some (PText ''b1''))
        (objects (bs_store st') BOOK_ANNOTATION_COLLECTION_NAME ''u1'') = [] \<and>
      blob_key ex_gcs ''b1.epub'' \<notin> bs_blobs st')"
proof -
  have h: "BOOK_CONTENT_COLLECTION_NAME \<in> collections (bs_store ex_book_state)"
    "BOOK_ANNOTATION_COLLECTION_NAME \<in> collections (bs_store ex_book_state)"
    "book_repo_find_by_id ''b1'' (bs_books ex_book_state) = Some ex_book"
    by (simp_all add: ex_book_state_def book_repo_find_by_id_def ex_book_def)
  have b: "bk_user_id ex_book = ''u1''" "bk_file_path ex_book = ''b1.epub''" by (simp_all add: ex_book_def)
  show ?thesis using delete_book_removes_data [OF h, of ex_gcs 5] h unfolding b by auto
qed

end
