(* ===== verification/BookMetadata.thy ===== *)
theory BookMetadata
  imports Annotations "HOL-Library.Sublist"
begin

text \<open>
  The \<open>BookMetadata\<close> value object (\<open>domain/book/value_objects/book_metadata.py\<close>):
  the fourteen optional EPUB metadata fields, \<open>to_dict\<close>, \<open>from_dict\<close> and
  \<open>from_json_string\<close>. A parsed JSON document is a \<open>json_value\<close>: an object (its
  string-valued members), an array, a string, or a scalar (number, boolean, \<open>null\<close>);
  \<open>json.loads\<close> is a parameter whose \<open>None\<close> is \<open>JSONDecodeError\<close>. The same
  documents are what \<open>CreateBookUseCaseImpl\<close> parses its metadata into.
\<close>

datatype json_value =
    JDict "string \<Rightarrow> string option"
  | JList "json_value list"
  | JStr string
  | JScalar

record book_metadata =
  md_title :: "string option"
  md_creator :: "string option"
  md_description :: "string option"
  md_pubdate :: "string option"
  md_publisher :: "string option"
  md_identifier :: "string option"
  md_language :: "string option"
  md_rights :: "string option"
  md_modified_date :: "string option"
  md_layout :: "string option"
  md_orientation :: "string option"
  md_flow :: "string option"
  md_viewport :: "string option"
  md_spread :: "string option"

text \<open>\<open>BookMetadata()\<close>: every field \<open>None\<close>.\<close>

definition book_metadata_default :: book_metadata where
  "book_metadata_default =
     \<lparr>md_title = None, md_creator = None, md_description = None, md_pubdate = None,
      md_publisher = None, md_identifier = None, md_language = None, md_rights = None,
      md_modified_date = None, md_layout = None, md_orientation = None, md_flow = None,
      md_viewport = None, md_spread = None\<rparr>"

text \<open>\<open>dataclasses.asdict\<close>: the fields in declaration order.\<close>

definition book_metadata_asdict :: "book_metadata \<Rightarrow> (string \<times> string option) list" where
  "book_metadata_asdict m =
     [(''title'', md_title m), (''creator'', md_creator m), (''description'', md_description m),
      (''pubdate'', md_pubdate m), (''publisher'', md_publisher m), (''identifier'', md_identifier m),
      (''language'', md_language m), (''rights'', md_rights m), (''modified_date'', md_modified_date m),
      (''layout'', md_layout m), (''orientation'', md_orientation m), (''flow'', md_flow m),
      (''viewport'', md_viewport m), (''spread'', md_spread m)]"

text \<open>\<open>to_dict\<close>: the fields that are not \<open>None\<close>, as a dict in insertion order.\<close>

definition book_metadata_to_dict :: "book_metadata \<Rightarrow> (string \<times> string) list" where
  "book_metadata_to_dict m = [(k, the v). (k, v) \<leftarrow> book_metadata_asdict m, v \<noteq> None]"

text \<open>\<open>from_dict(data)\<close>: \<open>data[field]\<close> for each field present, the default otherwise.\<close>

definition book_metadata_from_dict :: "(string \<Rightarrow> string option) \<Rightarrow> book_metadata" where
  "book_metadata_from_dict data =
     \<lparr>md_title = data ''title'', md_creator = data ''creator'', md_description = data ''description'',
      md_pubdate = data ''pubdate'', md_publisher = data ''publisher'', md_identifier = data ''identifier'',
      md_language = data ''language'', md_rights = data ''rights'', md_modified_date = data ''modified_date'',
      md_layout = data ''layout'', md_orientation = data ''orientation'', md_flow = data ''flow'',
      md_viewport = data ''viewport'', md_spread = data ''spread''\<rparr>"

text \<open>\<open>from_json_string\<close>. On a document that is not an object, \<open>field in data\<close> is
  list membership for an array and substring search for a string, and raises
  \<open>TypeError\<close> for a scalar; a field found there makes \<open>data[field]\<close> raise
  \<open>TypeError\<close>. Only \<open>JSONDecodeError\<close> is caught.\<close>

datatype metadata_error = MetadataTypeError

definition book_metadata_from_json_string ::
  "(string \<Rightarrow> json_value option) \<Rightarrow> string option \<Rightarrow> metadata_error + book_metadata" where
  "book_metadata_from_json_string json_loads json_string =
     (case json_string of
        None \<Rightarrow> Inr book_metadata_default
      | Some s \<Rightarrow>
          if s = [] then Inr book_metadata_default
          else case json_loads s of
                 None \<Rightarrow> Inr book_metadata_default
               | Some (JDict data) \<Rightarrow> Inr (book_metadata_from_dict data)
               | Some (JList xs) \<Rightarrow>
                   if list_ex (\<lambda>k. JStr k \<in> set xs) BOOK_METADATA_KEYS then Inl MetadataTypeError
                   else Inr book_metadata_default
               | Some (JStr t) \<Rightarrow>
                   if list_ex (\<lambda>k. sublist k t) BOOK_METADATA_KEYS then Inl MetadataTypeError
                   else Inr book_metadata_default
               | Some JScalar \<Rightarrow> Inl MetadataTypeError)"

section \<open>Examples\<close>

text \<open>The documents \<open>"the title"\<close> and \<open>{"title": "Walden"}\<close>, and a \<open>json.loads\<close>
  that knows them and \<open>[]\<close>.\<close>

definition ex_doc_str :: string where
  "ex_doc_str = [CHR 0x22] @ ''the title'' @ [CHR 0x22]"

definition ex_doc_obj :: string where
  "ex_doc_obj = ''{'' @ [CHR 0x22] @ ''title'' @ [CHR 0x22] @ '': '' @ [CHR 0x22] @ ''Walden'' @ [CHR 0x22] @ ''}''"

definition ex_json_loads :: "string \<Rightarrow> json_value option" where
  "ex_json_loads s =
     (if s = ''[]'' then Some (JList [])
      else if s = ex_doc_str then Some (JStr ''the title'')
      else if s = ex_doc_obj then Some (JDict [''title'' \<mapsto> ''Walden''])
      else None)"

section \<open>Properties\<close>

text \<open>Dropping the \<open>None\<close> entries of an association list with distinct keys
  keeps the value of every key.\<close>

lemma map_of_drop_none:
  "distinct (map fst xs) \<Longrightarrow>
   map_of [(k, the v). (k, v) \<leftarrow> xs, v \<noteq> None] x = (case map_of xs x of None \<Rightarrow> None | Some v \<Rightarrow> v)"
proof (induction xs)
  case (Cons p xs)
  obtain k v where p: "p = (k, v)" by fastforce
  have "k \<noteq> x \<Longrightarrow> map_of [(k, the v). (k, v) \<leftarrow> xs, v \<noteq> None] x = map_of [(k, the v). (k, v) \<leftarrow> xs, v \<noteq> None] x"
    by simp
  moreover have "k = x \<Longrightarrow> v = None \<Longrightarrow> map_of [(k, the v). (k, v) \<leftarrow> xs, v \<noteq> None] x = None"
    using Cons.prems by (force simp: p map_of_eq_None_iff)
  ultimately show ?case using Cons by (auto simp: p)
qed simp

lemma map_of_to_dict:
  "map_of (book_metadata_to_dict m) x = (case map_of (book_metadata_asdict m) x of None \<Rightarrow> None | Some v \<Rightarrow> v)"
  unfolding book_metadata_to_dict_def
  by (rule map_of_drop_none) (simp add: book_metadata_asdict_def)

text \<open>Claim C36: \<open>from_dict\<close> inverts \<open>to_dict\<close>: every metadata value survives the
  round trip through the dictionary that leaves out its \<open>None\<close> fields.\<close>

theorem book_metadata_dict_roundtrip:
  "book_metadata_from_dict (map_of (book_metadata_to_dict m)) = m"
  by (simp add: book_metadata_from_dict_def map_of_to_dict book_metadata_asdict_def)

text \<open>A document that is not an object is not rejected uniformly: an empty array
  gives the default metadata, a JSON string that contains a field name raises
  \<open>TypeError\<close>, and undecodable text gives the default.\<close>

lemma book_metadata_from_json_string_non_object:
  "book_metadata_from_json_string ex_json_loads (Some ''[]'') = Inr book_metadata_default \<and>
   book_metadata_from_json_string ex_json_loads (Some ex_doc_str) = Inl MetadataTypeError \<and>
   book_metadata_from_json_string ex_json_loads (Some ''{'') = Inr book_metadata_default \<and>
   book_metadata_from_json_string ex_json_loads (Some ex_doc_obj) =
     Inr (book_metadata_default\<lparr>md_title := Some ''Walden''\<rparr>)"
proof -
  have "sublist ''title'' ''the title''"
    by (rule sublist_appendI [of _ "''the ''" "[]", simplified])
  then show ?thesis
    by (simp add: book_metadata_from_json_string_def ex_json_loads_def BOOK_METADATA_KEYS_def
                  book_metadata_from_dict_def book_metadata_default_def ex_doc_str_def ex_doc_obj_def)
qed

end
