(* ===== verification/BookCreate.thy ===== *)
theory BookCreate
  imports Books BookMetadata
begin

text \<open>
  \<open>CreateBookUseCaseImpl.execute\<close> of \<open>usecase/book/create_book_usecase.py\<close>: the
  upload of a new book. The EPUB file, and the cover image when one is given as a
  \<open>data:image/\<close> URL, are uploaded under \<open>books/{user_id}/{book_id}/\<close>; the book is
  then built and saved; any exception after the first upload deletes every file
  uploaded so far (\<open>_rollback_storage\<close>) and is re-raised. The bucket client is not
  under \<open>src/\<close>: \<open>upload_file(name, ...)\<close> adds the blob \<open>name\<close> and returns its public
  URL \<open>gcs_prefix g @ name\<close>, the form \<open>DeleteBookUseCaseImpl\<close> strips back to the key.
  The base64 and JSON decoders, the uploads and the table's \<open>save\<close> may fail; which
  ones do is a parameter (\<open>create_env\<close>), as are the fresh \<open>uuid4\<close> and the clock.
\<close>

section \<open>Collaborators\<close>

datatype create_error =
    DecodeError
  | UploadError string
  | InvalidTitle book_error
  | MetadataNotObject
  | SaveError

record create_env =
  ce_b64decode :: "string \<Rightarrow> nat list option"
  ce_json_loads :: "string \<Rightarrow> json_value option"
  ce_upload_ok :: "string \<Rightarrow> bool"
  ce_save_ok :: bool

text \<open>\<open>GCSClient.upload_file(blob_name, data, content_type)\<close>.\<close>

definition gcs_upload_file ::
  "gcs_config \<Rightarrow> create_env \<Rightarrow> string \<Rightarrow> string set \<Rightarrow> create_error + string \<times> string set" where
  "gcs_upload_file g env name blobs =
     (if ce_upload_ok env name then Inr (gcs_prefix g @ name, insert name blobs) else Inl (UploadError name))"

text \<open>\<open>f"books/{user_id}/{book_id}/{file}"\<close>.\<close>

definition book_blob_name :: "tenant \<Rightarrow> book_id \<Rightarrow> string \<Rightarrow> string" where
  "book_blob_name user_id bid file = ''books/'' @ user_id @ ''/'' @ bid @ ''/'' @ file"

text \<open>\<open>s.split(",")[1]\<close>: the text between the first and the second comma, and
  \<open>None\<close> for the \<open>IndexError\<close> of a string with no comma.\<close>

definition split_comma_1 :: "string \<Rightarrow> string option" where
  "split_comma_1 s =
     (case dropWhile (\<lambda>c. c \<noteq> CHR '','') s of
        [] \<Rightarrow> None
      | _ # rest \<Rightarrow> Some (takeWhile (\<lambda>c. c \<noteq> CHR '','') rest))"

section \<open>CreateBookUseCaseImpl\<close>

text \<open>Lines 47--50: the metadata object, \<open>{}\<close> when none is given or it does not parse.\<close>

definition parse_book_metadata :: "create_env \<Rightarrow> string option \<Rightarrow> json_value" where
  "parse_book_metadata env book_metadata =
     (case book_metadata of
        Some m \<Rightarrow> if m \<noteq> [] then (case ce_json_loads env m of Some j \<Rightarrow> j | None \<Rightarrow> JDict Map.empty)
                 else JDict Map.empty
      | None \<Rightarrow> JDict Map.empty)"

text \<open>Lines 63--73: the cover upload, whose every failure is logged and leaves no
  cover. The result is the cover URL, the blobs uploaded, and the bucket.\<close>

definition upload_cover ::
  "gcs_config \<Rightarrow> create_env \<Rightarrow> string \<Rightarrow> string option \<Rightarrow> string set \<Rightarrow>
   string option \<times> string list \<times> string set" where
  "upload_cover g env base cover_image blobs =
     (case cover_image of
        Some c \<Rightarrow>
          if c \<noteq> [] \<and> prefix ''data:image/'' c then
            (case split_comma_1 c of
               None \<Rightarrow> (None, [], blobs)
             | Some image_data \<Rightarrow>
                 (case ce_b64decode env image_data of
                    None \<Rightarrow> (None, [], blobs)
                  | Some _ \<Rightarrow>
                      let cover_blob_name = base @ ''/cover.jpg''
                      in case gcs_upload_file g env cover_blob_name blobs of
                           Inl _ \<Rightarrow> (None, [], blobs)
                         | Inr (cover_path, blobs') \<Rightarrow> (Some cover_path, [cover_blob_name], blobs')))
          else (None, [], blobs)
      | None \<Rightarrow> (None, [], blobs))"

text \<open>\<open>_rollback_storage(file_names)\<close>: delete each uploaded blob, ignoring failures.\<close>

definition rollback_storage :: "string list \<Rightarrow> string set \<Rightarrow> string set" where
  "rollback_storage file_names blobs = fold delete_blob file_names blobs"

text \<open>Lines 75--101, run once the EPUB is uploaded: \<open>BookTitle\<close> is checked first, then
  \<open>metadata_dict.get\<close> raises \<open>AttributeError\<close> on a non-object, then the book is saved.\<close>

definition build_and_save_book ::
  "create_env \<Rightarrow> timestamp \<Rightarrow> book_id \<Rightarrow> tenant \<Rightarrow> string \<Rightarrow> string option \<Rightarrow> string \<Rightarrow> nat list \<Rightarrow>
   json_value \<Rightarrow> string option \<Rightarrow> book list \<Rightarrow> create_error + book \<times> book list" where
  "build_and_save_book env ts bid user_id file_name book_name file_path decoded md cover_path books =
     (case book_title (case book_name of Some n \<Rightarrow> if n \<noteq> [] then n else file_name | None \<Rightarrow> file_name) of
        Inl e \<Rightarrow> Inl (InvalidTitle e)
      | Inr name \<Rightarrow>
          (case md of
             JDict d \<Rightarrow>
               let b = book_create bid name user_id file_path
                         (case d ''creator'' of Some a \<Rightarrow> if a = [] then None else Some a | None \<Rightarrow> None)
                         cover_path (length decoded) d ts
               in if ce_save_ok env then Inr (b, book_repo_save b books) else Inl SaveError
           | _ \<Rightarrow> Inl MetadataNotObject))"

definition create_book_execute ::
  "gcs_config \<Rightarrow> create_env \<Rightarrow> timestamp \<Rightarrow> book_id \<Rightarrow> tenant \<Rightarrow> string \<Rightarrow> string \<Rightarrow>
   string option \<Rightarrow> string option \<Rightarrow> string option \<Rightarrow> 'v book_state \<Rightarrow> (create_error + book) \<times> 'v book_state" where
  "create_book_execute g env ts fresh user_id file_name file_data book_name cover_image book_metadata st =
     (case ce_b64decode env file_data of
        None \<Rightarrow> (Inl DecodeError, st)
      | Some decoded \<Rightarrow>
          let md = parse_book_metadata env book_metadata;
              base = ''books/'' @ user_id @ ''/'' @ fresh;
              epub_blob_name = base @ ''/book.epub''
          in case gcs_upload_file g env epub_blob_name (bs_blobs st) of
               Inl e \<Rightarrow> (Inl e, st)
             | Inr (file_path, blobs1) \<Rightarrow>
                 let (cover_path, cover_uploaded, blobs2) = upload_cover g env base cover_image blobs1;
                     uploaded = epub_blob_name # cover_uploaded
                 in case build_and_save_book env ts fresh user_id file_name book_name file_path decoded md
                           cover_path (bs_books st) of
                      Inl e \<Rightarrow> (Inl e, st\<lparr>bs_blobs := rollback_storage uploaded blobs2\<rparr>)
                    | Inr (b, books') \<Rightarrow> (Inr b, st\<lparr>bs_books := books', bs_blobs := blobs2\<rparr>))"

section \<open>Examples\<close>

text \<open>A decoder that accepts every non-empty string, a metadata parser that always
  returns the same object, uploads that succeed, and a table whose \<open>save\<close> succeeds or raises.\<close>

definition ex_create_env :: "bool \<Rightarrow> create_env" where
  "ex_create_env save_ok =
     \<lparr>ce_b64decode = (\<lambda>s. if s = [] then None else Some [80, 75, 3]),
      ce_json_loads = (\<lambda>s. Some (JDict [''title'' \<mapsto> ''Walden'', ''creator'' \<mapsto> ''Thoreau''])),
      ce_upload_ok = (\<lambda>_. True), ce_save_ok = save_ok\<rparr>"


section \<open>Properties\<close>

lemma upload_cover_cases:
  "upload_cover g env base ci blobs = (cp, up, blobs2) \<Longrightarrow>
   (cp = None \<and> up = [] \<and> blobs2 = blobs) \<or>
   (cp = Some (gcs_prefix g @ base @ ''/cover.jpg'') \<and> up = [base @ ''/cover.jpg''] \<and>
    blobs2 = insert (base @ ''/cover.jpg'') blobs)"
  by (auto simp: upload_cover_def gcs_upload_file_def Let_def
           split: option.splits if_splits sum.splits prod.splits)

lemma rollback_restores:
  "x \<notin> B \<Longrightarrow> y \<notin> B \<Longrightarrow> rollback_storage [x] (insert x B) = B \<and> rollback_storage [x, y] (insert y (insert x B)) = B"
  by (auto simp: rollback_storage_def delete_blob_def)

lemma create_book_execute_uploaded:
  assumes "ce_b64decode env fdata = Some decoded" "ce_upload_ok env (base @ ''/book.epub'')"
    and "base = ''books/'' @ u @ ''/'' @ fresh"
    and "upload_cover g env base cover (insert (base @ ''/book.epub'') (bs_blobs st)) = (cp, up, b2)"
  shows "create_book_execute g env ts fresh u fname fdata bname cover bmeta st =
     (case build_and_save_book env ts fresh u fname bname (gcs_prefix g @ base @ ''/book.epub'') decoded
             (parse_book_metadata env bmeta) cp (bs_books st) of
        Inl e \<Rightarrow> (Inl e, st\<lparr>bs_blobs := rollback_storage ((base @ ''/book.epub'') # up) b2\<rparr>)
      | Inr (b, books') \<Rightarrow> (Inr b, st\<lparr>bs_books := books', bs_blobs := b2\<rparr>))"
  using assms(1,2,4) unfolding create_book_execute_def Let_def assms(3) [symmetric]
  by (simp add: gcs_upload_file_def)

lemma create_book_execute_not_uploaded:
  assumes "ce_b64decode env fdata = None \<or> \<not> ce_upload_ok env (base @ ''/book.epub'')"
    and "base = ''books/'' @ u @ ''/'' @ fresh"
  shows "fst (create_book_execute g env ts fresh u fname fdata bname cover bmeta st) \<noteq> Inr b \<and>
         snd (create_book_execute g env ts fresh u fname fdata bname cover bmeta st) = st"
  using assms(1) unfolding create_book_execute_def Let_def assms(2) [symmetric]
  by (auto simp: gcs_upload_file_def split: option.splits)

text \<open>Claim C21: a book upload that fails after the EPUB is stored leaves the bucket and the table as they were: every file uploaded so far is deleted again, given that the new book's blob names were not in use (the book id is a fresh \<open>uuid4\<close>). A failure before the first upload changes nothing at all.\<close>

theorem create_book_failure_restores:
  assumes "create_book_execute g env ts fresh u fname fdata bname cover bmeta st = (Inl e, st')"
    and "book_blob_name u fresh ''book.epub'' \<notin> bs_blobs st"
    and "book_blob_name u fresh ''cover.jpg'' \<notin> bs_blobs st"
  shows "st' = st"
proof -
  define base where "base = ''books/'' @ u @ ''/'' @ fresh"
  have names: "book_blob_name u fresh ''book.epub'' = base @ ''/book.epub''"
    "book_blob_name u fresh ''cover.jpg'' = base @ ''/cover.jpg''"
    by (simp_all add: book_blob_name_def base_def)
  show ?thesis
  proof (cases "ce_b64decode env fdata = None \<or> \<not> ce_upload_ok env (base @ ''/book.epub'')")
    case True
    then show ?thesis
      by (metis assms(1) create_book_execute_not_uploaded [OF True base_def] snd_conv)
  next
    case False
    then obtain decoded where d: "ce_b64decode env fdata = Some decoded" "ce_upload_ok env (base @ ''/book.epub'')"
      by auto
    obtain cp up b2 where uc: "upload_cover g env base cover (insert (base @ ''/book.epub'') (bs_blobs st)) = (cp, up, b2)"
      by (metis prod_cases3)
    have rb: "rollback_storage ((base @ ''/book.epub'') # up) b2 = bs_blobs st"
      using upload_cover_cases [OF uc] rollback_restores [of "base @ ''/book.epub''" "bs_blobs st" "base @ ''/cover.jpg''"]
        assms(2,3) unfolding names by auto
    show ?thesis
      using assms(1) unfolding create_book_execute_uploaded [OF d base_def uc] rb
      by (auto split: sum.splits)
  qed
qed

lemma build_and_save_book_Inr:
  "build_and_save_book env ts bid u fname bname file_path decoded md cp books = Inr (b, books') \<Longrightarrow>
   bk_id b = bid \<and> bk_user_id b = u \<and> bk_file_path b = file_path \<and> bk_cover_path b = cp \<and>
   bk_deleted_at b = None \<and> books' = book_repo_save b books"
  by (auto simp: build_and_save_book_def book_create_def Let_def split: sum.splits json_value.splits if_splits)

lemma book_repo_save_find_self: "book_repo_find_by_id (bk_id b) (book_repo_save b bs) = Some b"
proof (cases "bk_id b \<in> set (map bk_id bs)")
  case False
  then show ?thesis
    unfolding book_repo_save_def book_repo_find_by_id_def by (induction bs) auto
qed (rule book_repo_save_find)

lemma book_mark_as_deleted_cover [simp]: "bk_cover_path (book_mark_as_deleted t b) = bk_cover_path b"
  by (simp add: book_mark_as_deleted_def)

lemma not_sublist_char: "x \<in> set p \<Longrightarrow> x \<notin> set s \<Longrightarrow> \<not> sublist p s"
  using set_mono_sublist by blast

lemma blob_key_book_blob:
  assumes "CHR '':'' \<in> set (gcs_url g)" "CHR '':'' \<notin> set u" "CHR '':'' \<notin> set fresh" "CHR '':'' \<notin> set file"
  shows "blob_key g (gcs_prefix g @ book_blob_name u fresh file) = book_blob_name u fresh file"
proof (rule blob_key_roundtrip, rule not_sublist_char)
  show "CHR '':'' \<in> set (gcs_prefix g)" using assms(1) by (simp add: gcs_prefix_def)
  show "CHR '':'' \<notin> set (book_blob_name u fresh file)" using assms(2-4) by (simp add: book_blob_name_def)
qed

text \<open>Claim C22: a created book can be deleted again, and deleting it removes exactly the blobs its creation uploaded: the EPUB, and the cover when one was stored. The book stays in the table, marked deleted. This holds when the bucket URL has a scheme (a colon) and the user and book ids have no colon, so the blob key is recovered from the stored URL.\<close>

theorem create_then_delete_book:
  assumes "create_book_execute g env ts fresh u fname fdata bname cover bmeta st = (Inr b, st')"
    and "CHR '':'' \<in> set (gcs_url g)" "CHR '':'' \<notin> set u" "CHR '':'' \<notin> set fresh"
  shows "bk_id b = fresh \<and> book_blob_name u fresh ''book.epub'' \<in> bs_blobs st' \<and>
         (\<exists>st''. delete_book_execute g ts' fresh st' = Inr st'' \<and>
            book_repo_find_by_id fresh (bs_books st'') = Some (book_mark_as_deleted ts' b) \<and>
            bs_blobs st'' = bs_blobs st - {book_blob_name u fresh ''book.epub''} -
                            (if bk_cover_path b = None then {} else {book_blob_name u fresh ''cover.jpg''}))"
proof -
  define base where "base = ''books/'' @ u @ ''/'' @ fresh"
  have names: "book_blob_name u fresh ''book.epub'' = base @ ''/book.epub''"
    "book_blob_name u fresh ''cover.jpg'' = base @ ''/cover.jpg''"
    by (simp_all add: book_blob_name_def base_def)
  have keys: "blob_key g (gcs_prefix g @ base @ ''/book.epub'') = base @ ''/book.epub''"
    "blob_key g (gcs_prefix g @ base @ ''/cover.jpg'') = base @ ''/cover.jpg''"
    using blob_key_book_blob [OF assms(2-4), of "''book.epub''"] blob_key_book_blob [OF assms(2-4), of "''cover.jpg''"]
    unfolding names by simp_all
  have up: "ce_b64decode env fdata \<noteq> None \<and> ce_upload_ok env (base @ ''/book.epub'')"
  proof (rule ccontr)
    assume "\<not> ?thesis"
    then have "ce_b64decode env fdata = None \<or> \<not> ce_upload_ok env (base @ ''/book.epub'')" by auto
    from create_book_execute_not_uploaded [OF this base_def] assms(1) show False by (metis fst_conv)
  qed
  then obtain decoded where d: "ce_b64decode env fdata = Some decoded" "ce_upload_ok env (base @ ''/book.epub'')"
    by auto
  obtain cp upl b2 where uc: "upload_cover g env base cover (insert (base @ ''/book.epub'') (bs_blobs st)) = (cp, upl, b2)"
    by (metis prod_cases3)
  obtain books' where bs: "build_and_save_book env ts fresh u fname bname (gcs_prefix g @ base @ ''/book.epub'') decoded
             (parse_book_metadata env bmeta) cp (bs_books st) = Inr (b, books')"
    and st': "st' = st\<lparr>bs_books := books', bs_blobs := b2\<rparr>"
    using assms(1) unfolding create_book_execute_uploaded [OF d base_def uc]
    by (auto split: sum.splits)
  note bb = build_and_save_book_Inr [OF bs]
  have find: "book_repo_find_by_id fresh (bs_books st') = Some b"
    using bb book_repo_save_find_self [of b "bs_books st"] st' by simp
  have files: "delete_book_files g (book_mark_as_deleted ts' b) b2 =
          bs_blobs st - {base @ ''/book.epub''} - (if cp = None then {} else {base @ ''/cover.jpg''})"
    using upload_cover_cases [OF uc]
  proof (elim disjE conjE)
    assume "cp = None" "b2 = insert (base @ ''/book.epub'') (bs_blobs st)"
    then show ?thesis using bb keys(1) by (simp add: delete_book_files_def delete_blob_def)
  next
    assume "cp = Some (gcs_prefix g @ base @ ''/cover.jpg'')"
      "b2 = insert (base @ ''/cover.jpg'') (insert (base @ ''/book.epub'') (bs_blobs st))"
    then show ?thesis using bb keys by (auto simp: delete_book_files_def delete_blob_def)
  qed
  have "\<exists>store'. delete_book_execute g ts' fresh st' =
     Inr \<lparr>bs_books = book_repo_save (book_mark_as_deleted ts' b) (bs_books st'),
          bs_blobs = delete_book_files g (book_mark_as_deleted ts' b) b2, bs_store = store'\<rparr>"
    using find st' bb by (simp add: delete_book_execute_def Let_def)
  then obtain store' where del: "delete_book_execute g ts' fresh st' =
     Inr \<lparr>bs_books = book_repo_save (book_mark_as_deleted ts' b) (bs_books st'),
          bs_blobs = delete_book_files g (book_mark_as_deleted ts' b) b2, bs_store = store'\<rparr>"
    by blast
  have "book_repo_find_by_id fresh (book_repo_save (book_mark_as_deleted ts' b) (bs_books st')) =
          Some (book_mark_as_deleted ts' b)"
    using book_repo_save_find_self [of "book_mark_as_deleted ts' b" "bs_books st'"] bb by simp
  moreover have "base @ ''/book.epub'' \<in> b2" using upload_cover_cases [OF uc] by auto
  ultimately show ?thesis
    using bb st' del files unfolding names by simp
qed

lemma create_book_failure_restores_witness:
  "create_book_execute ex_gcs (ex_create_env False) 7 ''f1'' ''u1'' ''walden.epub'' ''UEsD'' None
     (Some ''data:image/png;base64,QUJD'') None ex_book_state = (Inl SaveError, ex_book_state) \<and>
   book_blob_name ''u1'' ''f1'' ''book.epub'' \<notin> bs_blobs ex_book_state \<and>
   book_blob_name ''u1'' ''f1'' ''cover.jpg'' \<notin> bs_blobs ex_book_state"
proof -
  have fresh: "book_blob_name ''u1'' ''f1'' ''book.epub'' \<notin> bs_blobs ex_book_state"
    "book_blob_name ''u1'' ''f1'' ''cover.jpg'' \<notin> bs_blobs ex_book_state"
    by (simp_all add: book_blob_name_def ex_book_state_def)
  obtain r st' where run: "create_book_execute ex_gcs (ex_create_env False) 7 ''f1'' ''u1'' ''walden.epub'' ''UEsD''
     None (Some ''data:image/png;base64,QUJD'') None ex_book_state = (r, st')"
    by fastforce
  have "r = Inl SaveError"
    using run by (simp add: create_book_execute_def ex_create_env_def gcs_upload_file_def upload_cover_def
                             split_comma_1_def build_and_save_book_def book_title_def parse_book_metadata_def
                             Let_def)
  then show ?thesis using create_book_failure_restores [OF run [unfolded \<open>r = Inl SaveError\<close>] fresh] run fresh
    by simp
qed

lemma create_then_delete_book_witness:
  "\<exists>b st'. create_book_execute ex_gcs (ex_create_env True) 7 ''f1'' ''u1'' ''walden.epub'' ''UEsD'' None
       (Some ''data:image/png;base64,QUJD'') (Some ''{}'') ex_book_state = (Inr b, st') \<and>
     bk_cover_path b \<noteq> None \<and>
     (\<exists>st''. delete_book_execute ex_gcs 8 ''f1'' st' = Inr st'' \<and> bs_blobs st'' = {''b1.epub''})"
proof -
  have "\<exists>b st'. create_book_execute ex_gcs (ex_create_env True) 7 ''f1'' ''u1'' ''walden.epub'' ''UEsD'' None
       (Some ''data:image/png;base64,QUJD'') (Some ''{}'') ex_book_state = (Inr b, st') \<and> bk_cover_path b \<noteq> None"
    by (simp add: create_book_execute_def ex_create_env_def gcs_upload_file_def upload_cover_def
                  split_comma_1_def build_and_save_book_def book_title_def parse_book_metadata_def
                  book_create_def Let_def)
  then obtain b st' where run: "create_book_execute ex_gcs (ex_create_env True) 7 ''f1'' ''u1'' ''walden.epub'' ''UEsD''
       None (Some ''data:image/png;base64,QUJD'') (Some ''{}'') ex_book_state = (Inr b, st')"
    and cov: "bk_cover_path b \<noteq> None" by blast
  have g: "CHR '':'' \<in> set (gcs_url ex_gcs)" by (simp add: ex_gcs_def)
  have "{''b1.epub''} - {book_blob_name ''u1'' ''f1'' ''book.epub''} - {book_blob_name ''u1'' ''f1'' ''cover.jpg''} =
          {''b1.epub''}"
    by (simp add: book_blob_name_def)
  then show ?thesis
    using create_then_delete_book [OF run g, of 8] run cov by (auto simp: ex_book_state_def)
qed

end
