(* ===== verification/Chats.thy ===== *)
theory Chats
  imports Prelude
begin

text \<open>
  The \<open>Chat\<close> entity (\<open>domain/chat/entities/chat.py\<close>), the chat use cases
  (\<open>usecase/chat\<close>) and \<open>ChatManager.ensure_chat_exists\<close>
  (\<open>usecase/message/chat_manager.py\<close>), which the message use case calls before it
  saves a question. \<open>ChatRepository\<close> is an interface with no implementation under
  \<open>src/\<close>, and the value objects \<open>ChatId\<close>, \<open>ChatTitle\<close>, \<open>UserId\<close>, \<open>BookId\<close> are not
  in the repository either: the table is a list of chats keyed by id, and the value
  objects are their strings. The fresh \<open>uuid4\<close>, the clock and the title the language
  model generates are parameters.
\<close>

section \<open>Chat entity\<close>

record chat =
  ch_id :: chat_id
  ch_user_id :: tenant
  ch_title :: string
  ch_book_id :: "string option"
  ch_created_at :: timestamp
  ch_updated_at :: timestamp
  ch_deleted_at :: "timestamp option"


definition chat_eq :: "chat \<Rightarrow> chat \<Rightarrow> bool" where
  "chat_eq c1 c2 \<longleftrightarrow> ch_id c1 = ch_id c2"


definition chat_update_book_id :: "timestamp \<Rightarrow> string option \<Rightarrow> chat \<Rightarrow> chat" where
  "chat_update_book_id ts bid c = c\<lparr>ch_book_id := bid, ch_updated_at := ts\<rparr>"

section \<open>ChatRepository\<close>

definition chat_repo_find_by_id :: "chat_id \<Rightarrow> chat list \<Rightarrow> chat option" where
  "chat_repo_find_by_id cid cs = find (\<lambda>c. ch_id c = cid) cs"

definition chat_repo_save :: "chat \<Rightarrow> chat list \<Rightarrow> chat list" where
  "chat_repo_save c cs =
     (if ch_id c \<in> set (map ch_id cs) then map (\<lambda>x. if ch_id x = ch_id c then c else x) cs else cs @ [c])"


definition chat_repo_find_by_user_id :: "tenant \<Rightarrow> chat list \<Rightarrow> chat list" where
  "chat_repo_find_by_user_id u cs = filter (\<lambda>c. ch_user_id c = u) cs"

definition chat_repo_find_by_user_id_and_book_id :: "tenant \<Rightarrow> string \<Rightarrow> chat list \<Rightarrow> chat list" where
  "chat_repo_find_by_user_id_and_book_id u bid cs = filter (\<lambda>c. ch_user_id c = u \<and> ch_book_id c = Some bid) cs"

section \<open>Chat use cases\<close>

datatype chat_error = ChatNotFound chat_id



definition find_chat_by_id_execute :: "chat_id \<Rightarrow> chat list \<Rightarrow> chat_error + chat" where
  "find_chat_by_id_execute cid cs =
     (case chat_repo_find_by_id cid cs of None \<Rightarrow> Inl (ChatNotFound cid) | Some c \<Rightarrow> Inr c)"

definition find_chats_by_user_id_execute :: "tenant \<Rightarrow> chat list \<Rightarrow> chat list" where
  "find_chats_by_user_id_execute u cs = chat_repo_find_by_user_id u cs"

definition find_chats_by_user_id_and_book_id_execute :: "tenant \<Rightarrow> string \<Rightarrow> chat list \<Rightarrow> chat list" where
  "find_chats_by_user_id_and_book_id_execute u bid cs = chat_repo_find_by_user_id_and_book_id u bid cs"


section \<open>ChatManager.ensure_chat_exists\<close>

text \<open>A missing chat is created under the given id, titled by the language model from
  the question; an empty or missing book id (\<open>if book_id\<close>) gives no book.\<close>

definition ensure_chat_exists ::
  "(string \<Rightarrow> string) \<Rightarrow> timestamp \<Rightarrow> chat_id \<Rightarrow> tenant \<Rightarrow> string option \<Rightarrow> string \<Rightarrow> chat list \<Rightarrow> chat list" where
  "ensure_chat_exists generate_title ts cid sender_id bid content cs =
     (case chat_repo_find_by_id cid cs of
        Some _ \<Rightarrow> cs
      | None \<Rightarrow>
          chat_repo_save
            \<lparr>ch_id = cid, ch_user_id = sender_id, ch_title = generate_title content,
             ch_book_id = (case bid of Some b \<Rightarrow> if b = [] then None else Some b | None \<Rightarrow> None),
             ch_created_at = ts, ch_updated_at = ts, ch_deleted_at = None\<rparr> cs)"

section \<open>The repository as a table\<close>







section \<open>Properties\<close>


lemma find_snoc_None:
  "find P xs = None \<Longrightarrow> find P (xs @ [x]) = (if P x then Some x else None)"
  by (induction xs) (auto split: if_splits)

lemma chat_repo_find_None_save:
  assumes "chat_repo_find_by_id (ch_id c) cs = None"
  shows "chat_repo_save c cs = cs @ [c]" "chat_repo_find_by_id (ch_id c) (cs @ [c]) = Some c"
proof -
  have "ch_id c \<notin> set (map ch_id cs)"
    using assms by (auto simp: chat_repo_find_by_id_def find_None_iff)
  then show "chat_repo_save c cs = cs @ [c]" by (simp add: chat_repo_save_def)
  show "chat_repo_find_by_id (ch_id c) (cs @ [c]) = Some c"
    using assms by (simp add: chat_repo_find_by_id_def find_snoc_None)
qed

text \<open>Claim C39: after \<open>ensure_chat_exists\<close> the chat can be found by its id: it is the chat already stored, unchanged, or a new chat of the sender titled by the language model; and a second call for the same id changes nothing.\<close>

theorem ensure_chat_exists_found:
  "find_chat_by_id_execute cid (ensure_chat_exists gen ts cid u bid q cs) =
     Inr (case chat_repo_find_by_id cid cs of
            Some c \<Rightarrow> c
          | None \<Rightarrow> \<lparr>ch_id = cid, ch_user_id = u, ch_title = gen q,
                     ch_book_id = (case bid of Some b \<Rightarrow> if b = [] then None else Some b | None \<Rightarrow> None),
                     ch_created_at = ts, ch_updated_at = ts, ch_deleted_at = None\<rparr>) \<and>
   ensure_chat_exists gen' ts' cid u' bid' q' (ensure_chat_exists gen ts cid u bid q cs) =
     ensure_chat_exists gen ts cid u bid q cs"
proof (cases "chat_repo_find_by_id cid cs")
  case None
  let ?c = "\<lparr>ch_id = cid, ch_user_id = u, ch_title = gen q,
             ch_book_id = (case bid of Some b \<Rightarrow> if b = [] then None else Some b | None \<Rightarrow> None),
             ch_created_at = ts, ch_updated_at = ts, ch_deleted_at = None\<rparr>"
  have n: "chat_repo_find_by_id (ch_id ?c) cs = None" using None by simp
  have e: "ensure_chat_exists gen ts cid u bid q cs = cs @ [?c]"
    using None chat_repo_find_None_save(1) [OF n] by (simp add: ensure_chat_exists_def)
  have f: "chat_repo_find_by_id cid (cs @ [?c]) = Some ?c"
    using chat_repo_find_None_save(2) [OF n] by simp
  show ?thesis using None unfolding e by (simp add: f find_chat_by_id_execute_def ensure_chat_exists_def)
next
  case (Some c)
  then show ?thesis by (simp add: find_chat_by_id_execute_def ensure_chat_exists_def)
qed

section \<open>Refinement of the table\<close>











end
