(* ===== verification/Collections.thy ===== *)
theory Collections
  imports ChatMemory Retry
begin

text \<open>
  Store set-up: \<open>CollectionManager\<close> of
  \<open>src/apps/api/src/infrastructure/memory/collection_manager.py\<close>, the embedding
  provider choice of \<open>BaseVectorStore.__init__\<close> (\<open>base_vector_store.py\<close>) and the
  settings it reads, \<open>AppConfig\<close> of \<open>src/apps/api/src/config/app_config.py\<close>.

  \<open>_ensure_collections\<close> checks each of the three collections and creates the
  missing ones with their fixed schema. It runs at start-up in every process, so
  other processes act on the same server: each remote call of the check-then-create
  sequence first lets one event of an explicit schedule happen. An event is quiet,
  a transient fault of the call (\<open>Unavailable\<close>), or another process creating a
  collection. The whole sequence is retried by \<open>@retry_on_error(max_retries=3,
  initial_delay=1)\<close>.
\<close>

section \<open>Settings\<close>

text \<open>The fields of \<open>AppConfig\<close> the memory engine reads, with their defaults;
  \<open>database_url\<close> has no default.\<close>

datatype provider = ProviderOpenAI | ProviderHuggingFace | ProviderOllama

record app_config =
  database_url :: string
  openai_api_key :: "string option"
  embedding_provider :: provider
  llm_provider :: provider
  ollama_base_url :: string
  ollama_model :: string
  ollama_embedding_model :: string
  huggingface_api_key :: "string option"
  huggingface_embedding_model :: string
  huggingface_llm_model :: string

definition default_config :: "string \<Rightarrow> app_config" where
  "default_config db =
     \<lparr>database_url = db, openai_api_key = None, embedding_provider = ProviderHuggingFace,
      llm_provider = ProviderOllama, ollama_base_url = ''http://localhost:11434'',
      ollama_model = ''llama3.2'', ollama_embedding_model = ''nomic-embed-text'',
      huggingface_api_key = None,
      huggingface_embedding_model = ''sentence-transformers/all-MiniLM-L6-v2'',
      huggingface_llm_model = ''gpt2''\<rparr>"

section \<open>The embedding model\<close>

text \<open>The model \<open>BaseVectorStore.__init__\<close> builds once for the process: the
  provider and model name, and the Hugging Face token it exports, if any.\<close>

datatype embedding_model =
    OpenAIEmbeddings string
  | OllamaEmbeddings string string
  | HuggingFaceEmbeddings string "string option"

datatype config_error = MissingOpenAIKey

definition select_embedding_model :: "app_config \<Rightarrow> config_error + embedding_model" where
  "select_embedding_model cfg =
     (case embedding_provider cfg of
        ProviderOpenAI \<Rightarrow>
          (if openai_api_key cfg = None then Inl MissingOpenAIKey
           else Inr (OpenAIEmbeddings ''text-embedding-3-small''))
      | ProviderOllama \<Rightarrow> Inr (OllamaEmbeddings (ollama_base_url cfg) (ollama_embedding_model cfg))
      | ProviderHuggingFace \<Rightarrow>
          Inr (HuggingFaceEmbeddings (huggingface_embedding_model cfg) (huggingface_api_key cfg)))"

section \<open>Schemas\<close>

definition Property :: "string \<Rightarrow> data_type \<Rightarrow> string option \<Rightarrow> bool option \<Rightarrow> property_def" where
  "Property n dt d idx =
     \<lparr>prop_name = n, prop_data_type = dt, prop_description = d, prop_index_searchable = idx\<rparr>"

text \<open>\<open>Configure.multi_tenancy(enabled=True, auto_tenant_activation=True,
  auto_tenant_creation=True)\<close>, the same for the three collections.\<close>

definition auto_multi_tenancy :: multi_tenancy_config where
  "auto_multi_tenancy =
     \<lparr>mt_enabled = True, mt_auto_tenant_activation = True, mt_auto_tenant_creation = True\<rparr>"

definition chat_memory_config :: collection_config where
  "chat_memory_config =
     \<lparr>cfg_name = CHAT_MEMORY_COLLECTION_NAME, cfg_multi_tenancy = auto_multi_tenancy,
      cfg_vectorizer = None,
      cfg_properties =
        [Property ''chat_id'' DT_TEXT (Some ''Chat ID'') (Some True),
         Property ''content'' DT_TEXT (Some ''Message/summary content'') None,
         Property ''created_at'' DT_DATE (Some ''Creation timestamp'') None,
         Property ''is_summarized'' DT_BOOL (Some ''Summarized flag (message only)'') None,
         Property ''memory_type'' DT_TEXT (Some ''Memory type (message, summary)'') (Some True),
         Property ''message_id'' DT_TEXT (Some ''Original message ID'') None,
         Property ''sender'' DT_TEXT (Some ''Sender type (user, assistant, system)'') (Some True),
         Property ''user_id'' DT_TEXT (Some ''User ID'') (Some True)]\<rparr>"

definition book_content_config :: collection_config where
  "book_content_config =
     \<lparr>cfg_name = BOOK_CONTENT_COLLECTION_NAME, cfg_multi_tenancy = auto_multi_tenancy,
      cfg_vectorizer = None,
      cfg_properties =
        [Property ''content'' DT_TEXT None None,
         Property ''book_id'' DT_TEXT (Some ''Book ID'') (Some True)]\<rparr>"

definition book_annotation_config :: collection_config where
  "book_annotation_config =
     \<lparr>cfg_name = BOOK_ANNOTATION_COLLECTION_NAME, cfg_multi_tenancy = auto_multi_tenancy,
      cfg_vectorizer = None,
      cfg_properties =
        [Property ''annotation_id'' DT_TEXT (Some ''Annotation ID'') (Some True),
         Property ''book_id'' DT_TEXT (Some ''Book ID'') (Some True),
         Property ''book_title'' DT_TEXT (Some ''Book title'') (Some True),
         Property ''content'' DT_TEXT (Some ''Highlighted text content'') None,
         Property ''created_at'' DT_DATE (Some ''Creation timestamp'') None,
         Property ''notes'' DT_TEXT (Some ''Notes'') None,
         Property ''user_id'' DT_TEXT (Some ''User ID'') (Some True)]\<rparr>"

text \<open>The declared type of a property, and the type of a stored value.\<close>

definition schema_type :: "collection_config \<Rightarrow> string \<Rightarrow> data_type option" where
  "schema_type cfg = map_of (map (\<lambda>p. (prop_name p, prop_data_type p)) (cfg_properties cfg))"

fun pval_type :: "pval \<Rightarrow> data_type" where
  "pval_type (PText _) = DT_TEXT"
| "pval_type (PBool _) = DT_BOOL"
| "pval_type (PDate _) = DT_DATE"

section \<open>Remote calls under a schedule of events\<close>

datatype remote_event = Quiet | Transient | Concurrent collection_config

record 'v cm_state =
  cm_store :: "'v store"
  cm_events :: "remote_event list"

definition next_event :: "'v cm_state \<Rightarrow> remote_event \<times> 'v cm_state" where
  "next_event st =
     (case cm_events st of [] \<Rightarrow> (Quiet, st) | e # es \<Rightarrow> (e, st\<lparr>cm_events := es\<rparr>))"

text \<open>What another process does to the server: create a collection, unless it exists.\<close>

definition apply_event :: "remote_event \<Rightarrow> 'v store \<Rightarrow> 'v store" where
  "apply_event e s =
     (case e of Concurrent cfg \<Rightarrow> (case coll_create cfg s of Inl _ \<Rightarrow> s | Inr s' \<Rightarrow> s') | _ \<Rightarrow> s)"

text \<open>One remote call: the event happens first; a transient event makes the call raise.\<close>

definition remote_call ::
  "('v store \<Rightarrow> store_error + 'a \<times> 'v store) \<Rightarrow> 'v cm_state \<Rightarrow> (store_error + 'a) \<times> 'v cm_state" where
  "remote_call op st =
     (let (e, st1) = next_event st;
          s = apply_event e (cm_store st1)
      in if e = Transient then (Inl Unavailable, st1\<lparr>cm_store := s\<rparr>)
         else (case op s of
                 Inl err \<Rightarrow> (Inl err, st1\<lparr>cm_store := s\<rparr>)
               | Inr (r, s') \<Rightarrow> (Inr r, st1\<lparr>cm_store := s'\<rparr>)))"

definition remote_exists :: "string \<Rightarrow> 'v cm_state \<Rightarrow> (store_error + bool) \<times> 'v cm_state" where
  "remote_exists c = remote_call (\<lambda>s. Inr (coll_exists c s, s))"

definition remote_create :: "collection_config \<Rightarrow> 'v cm_state \<Rightarrow> (store_error + unit) \<times> 'v cm_state" where
  "remote_create cfg = remote_call (\<lambda>s. case coll_create cfg s of Inl e \<Rightarrow> Inl e | Inr s' \<Rightarrow> Inr ((), s'))"

section \<open>CollectionManager\<close>

text \<open>\<open>if not self.client.collections.exists(name): self.client.collections.create(...)\<close>.\<close>

definition create_collection_if_missing ::
  "collection_config \<Rightarrow> 'v cm_state \<Rightarrow> (store_error + unit) \<times> 'v cm_state" where
  "create_collection_if_missing cfg st =
     (case remote_exists (cfg_name cfg) st of
        (Inl e, st1) \<Rightarrow> (Inl e, st1)
      | (Inr True, st1) \<Rightarrow> (Inr (), st1)
      | (Inr False, st1) \<Rightarrow> remote_create cfg st1)"

definition create_chat_memory_collection :: "'v cm_state \<Rightarrow> (store_error + unit) \<times> 'v cm_state" where
  "create_chat_memory_collection = create_collection_if_missing chat_memory_config"

definition create_book_content_collection :: "'v cm_state \<Rightarrow> (store_error + unit) \<times> 'v cm_state" where
  "create_book_content_collection = create_collection_if_missing book_content_config"

definition create_book_annotation_collection :: "'v cm_state \<Rightarrow> (store_error + unit) \<times> 'v cm_state" where
  "create_book_annotation_collection = create_collection_if_missing book_annotation_config"

text \<open>The body of \<open>_ensure_collections\<close>: the first exception is re-raised.\<close>

definition ensure_collections_body :: "'v cm_state \<Rightarrow> (store_error + unit) \<times> 'v cm_state" where
  "ensure_collections_body st =
     (case create_chat_memory_collection st of
        (Inl e, st1) \<Rightarrow> (Inl e, st1)
      | (Inr _, st1) \<Rightarrow>
          (case create_book_content_collection st1 of
             (Inl e, st2) \<Rightarrow> (Inl e, st2)
           | (Inr _, st2) \<Rightarrow> create_book_annotation_collection st2))"

definition ensure_collections ::
  "'v cm_state \<Rightarrow> (store_error + unit) \<times> int list \<times> 'v cm_state" where
  "ensure_collections = retry_on_error 3 1 2 ensure_collections_body"

text \<open>The events of a schedule that are not quiet.\<close>

definition loud_events :: "remote_event list \<Rightarrow> nat" where
  "loud_events es = length (filter (\<lambda>e. e \<noteq> Quiet) es)"

definition all_collections :: "string set" where
  "all_collections =
     {CHAT_MEMORY_COLLECTION_NAME, BOOK_CONTENT_COLLECTION_NAME, BOOK_ANNOTATION_COLLECTION_NAME}"

section \<open>Example schedules\<close>

text \<open>An empty server where another process creates the chat-memory collection right
  after our existence check; and a server with all collections and no events.\<close>

definition race_state :: "nat cm_state" where
  "race_state = \<lparr>cm_store = empty_store, cm_events = [Quiet, Concurrent chat_memory_config]\<rparr>"

definition ready_state :: "nat cm_state" where
  "ready_state = \<lparr>cm_store = empty_store\<lparr>collections := all_collections\<rparr>, cm_events = []\<rparr>"

section \<open>Lemmas\<close>

lemmas remote_defs = remote_exists_def remote_create_def remote_call_def next_event_def
  apply_event_def coll_create_def coll_exists_def Let_def

lemma loud_events_Cons [simp]:
  "loud_events (e # es) = (if e = Quiet then loud_events es else Suc (loud_events es))"
  by (simp add: loud_events_def)

lemma loud_events_Nil [simp]: "loud_events [] = 0"
  by (simp add: loud_events_def)

lemma remote_call_loud:
  "remote_call op st = (r, st') \<Longrightarrow> loud_events (cm_events st') \<le> loud_events (cm_events st)"
  by (auto simp: remote_call_def next_event_def Let_def split: list.splits if_splits sum.splits prod.splits)

lemma remote_call_collections:
  "(\<And>s x s'. op s = Inr (x, s') \<Longrightarrow> collections s \<subseteq> collections s') \<Longrightarrow>
   remote_call op st = (r, st') \<Longrightarrow> collections (cm_store st) \<subseteq> collections (cm_store st')"
  by (fastforce simp: remote_call_def next_event_def apply_event_def coll_create_def Let_def
      split: list.splits if_splits sum.splits prod.splits remote_event.splits)

lemma create_if_missing_fail:
  "create_collection_if_missing cfg st = (Inl e, st') \<Longrightarrow>
   loud_events (cm_events st') < loud_events (cm_events st)"
  by (auto simp: create_collection_if_missing_def remote_defs
      split: list.splits remote_event.splits if_splits sum.splits prod.splits bool.splits)

lemma create_if_missing_loud:
  "create_collection_if_missing cfg st = (r, st') \<Longrightarrow>
   loud_events (cm_events st') \<le> loud_events (cm_events st)"
  by (auto simp: create_collection_if_missing_def remote_defs
      split: list.splits remote_event.splits if_splits sum.splits prod.splits bool.splits)

lemma create_if_missing_mono:
  "create_collection_if_missing cfg st = (r, st') \<Longrightarrow>
   collections (cm_store st) \<subseteq> collections (cm_store st')"
  by (auto simp: create_collection_if_missing_def remote_defs
      split: list.splits remote_event.splits if_splits sum.splits prod.splits bool.splits)

lemma create_if_missing_Inr:
  "create_collection_if_missing cfg st = (Inr u, st') \<Longrightarrow> cfg_name cfg \<in> collections (cm_store st')"
  by (auto simp: create_collection_if_missing_def remote_defs
      split: list.splits remote_event.splits if_splits sum.splits prod.splits bool.splits)

lemmas create_steps_def =
  create_chat_memory_collection_def create_book_content_collection_def create_book_annotation_collection_def

lemma ensure_body_fail:
  assumes "ensure_collections_body st = (Inl e, st')"
  shows "loud_events (cm_events st') < loud_events (cm_events st)"
proof -
  let ?L = "\<lambda>st. loud_events (cm_events st)"
  obtain r1 st1 where c1: "create_collection_if_missing chat_memory_config st = (r1, st1)" by fastforce
  show ?thesis
  proof (cases r1)
    case Inl
    then show ?thesis using assms c1 create_if_missing_fail
      by (auto simp: ensure_collections_body_def create_steps_def)
  next
    case (Inr u1)
    have le1: "?L st1 \<le> ?L st" using create_if_missing_loud [OF c1] .
    obtain r2 st2 where c2: "create_collection_if_missing book_content_config st1 = (r2, st2)"
      by fastforce
    show ?thesis
    proof (cases r2)
      case Inl
      then have "?L st2 < ?L st1" using assms c1 c2 Inr create_if_missing_fail
        by (auto simp: ensure_collections_body_def create_steps_def)
      then show ?thesis using assms c1 c2 Inr Inl le1
        by (auto simp: ensure_collections_body_def create_steps_def)
    next
      case Inr2: (Inr u2)
      have "create_collection_if_missing book_annotation_config st2 = (Inl e, st')"
        using assms c1 c2 Inr Inr2 by (simp add: ensure_collections_body_def create_steps_def)
      then have "?L st' < ?L st2" by (rule create_if_missing_fail)
      then show ?thesis using le1 create_if_missing_loud [OF c2] by linarith
    qed
  qed
qed

lemma ensure_body_Inr:
  assumes "ensure_collections_body st = (Inr u, st')"
  shows "all_collections \<subseteq> collections (cm_store st')"
proof -
  obtain st1 st2 u1 u2 where
    c1: "create_collection_if_missing chat_memory_config st = (Inr u1, st1)" and
    c2: "create_collection_if_missing book_content_config st1 = (Inr u2, st2)" and
    c3: "create_collection_if_missing book_annotation_config st2 = (Inr u, st')"
    using assms by (auto simp: ensure_collections_body_def create_steps_def split: sum.splits prod.splits)
  have "CHAT_MEMORY_COLLECTION_NAME \<in> collections (cm_store st')"
    using create_if_missing_Inr [OF c1] create_if_missing_mono [OF c2] create_if_missing_mono [OF c3]
    by (auto simp: chat_memory_config_def)
  moreover have "BOOK_CONTENT_COLLECTION_NAME \<in> collections (cm_store st')"
    using create_if_missing_Inr [OF c2] create_if_missing_mono [OF c3]
    by (auto simp: book_content_config_def)
  moreover have "BOOK_ANNOTATION_COLLECTION_NAME \<in> collections (cm_store st')"
    using create_if_missing_Inr [OF c3] by (simp add: book_annotation_config_def)
  ultimately show ?thesis by (simp add: all_collections_def)
qed

text \<open>Claim C8: \<open>_ensure_collections\<close> under its retry decorator returns, with all three
  collections present, whenever the schedule holds at most three transient faults or lost
  races: each failed attempt consumes one of them and the decorator allows four attempts.\<close>

theorem ensure_collections_succeeds:
  assumes "loud_events (cm_events st) \<le> 3"
  shows "\<exists>sleeps st'. ensure_collections st = (Inr (), sleeps, st') \<and>
                     all_collections \<subseteq> collections (cm_store st')"
proof -
  have "\<exists>r sleeps s0 st'. retry_loop 3 2 ensure_collections_body 0 1 st = (Inr r, sleeps, st') \<and>
          ensure_collections_body s0 = (Inr r, st')"
    by (rule retry_loop_succeeds [where P = "\<lambda>st. loud_events (cm_events st)"])
       (use assms ensure_body_fail in auto)
  then show ?thesis
    by (auto simp: ensure_collections_def retry_on_error_def dest: ensure_body_Inr)
qed

text \<open>On a server that already has the three collections and with no fault,
  \<open>_ensure_collections\<close> returns at once and changes nothing.\<close>

theorem ensure_collections_idempotent:
  assumes "all_collections \<subseteq> collections (cm_store st)" and "cm_events st = []"
  shows "ensure_collections st = (Inr (), [], st)"
proof -
  have ex: "coll_exists c (cm_store st)" if "c \<in> all_collections" for c
    using assms(1) that by (auto simp: coll_exists_def)
  have "ensure_collections_body st = (Inr (), st)"
    using assms(2) ex
    by (simp add: ensure_collections_body_def create_steps_def create_collection_if_missing_def
                  remote_defs all_collections_def chat_memory_config_def book_content_config_def
                  book_annotation_config_def)
  then show ?thesis
    by (simp add: ensure_collections_def retry_on_error_def retry_loop.simps)
qed

text \<open>Four transient faults in a row exhaust the decorator: it re-raises
  \<open>Unavailable\<close> after sleeping 1, 2 and 4 seconds.\<close>

theorem ensure_collections_exhausts:
  "cm_events st = [Transient, Transient, Transient, Transient] @ es \<Longrightarrow>
   ensure_collections st = (Inl Unavailable, [1, 2, 4], st\<lparr>cm_events := es\<rparr>)"
  by (simp add: ensure_collections_def retry_on_error_def retry_loop.simps ensure_collections_body_def
                create_steps_def create_collection_if_missing_def remote_defs)

text \<open>A race lost to another process (the collection appears between the
  existence check and the create) makes the first attempt raise, and the retry after one
  second observes the collection and succeeds.\<close>

theorem race_run:
  "fst (ensure_collections race_state) = Inr () \<and> fst (snd (ensure_collections race_state)) = [1]"
  by (simp add: ensure_collections_def retry_on_error_def retry_loop.simps ensure_collections_body_def
                create_steps_def create_collection_if_missing_def remote_defs race_state_def
                empty_store_def chat_memory_config_def book_content_config_def
                book_annotation_config_def collection_names)

section \<open>Witnesses\<close>

lemma ensure_collections_succeeds_witness:
  "loud_events (cm_events race_state) \<le> 3 \<and>
   (\<exists>sleeps st'. ensure_collections race_state = (Inr (), sleeps, st') \<and>
                all_collections \<subseteq> collections (cm_store st'))"
proof -
  have l: "loud_events (cm_events race_state) \<le> 3" by (simp add: race_state_def)
  show ?thesis using ensure_collections_succeeds [OF l] l by simp
qed

lemma ensure_collections_idempotent_witness:
  "all_collections \<subseteq> collections (cm_store ready_state) \<and> cm_events ready_state = [] \<and>
   ensure_collections ready_state = (Inr (), [], ready_state)"
proof -
  have a: "all_collections \<subseteq> collections (cm_store ready_state)" "cm_events ready_state = []"
    by (simp_all add: ready_state_def)
  show ?thesis using ensure_collections_idempotent [OF a] a by simp
qed

lemma ensure_collections_exhausts_witness:
  "cm_events (race_state\<lparr>cm_events := [Transient, Transient, Transient, Transient]\<rparr>) =
     [Transient, Transient, Transient, Transient] @ [] \<and>
   ensure_collections (race_state\<lparr>cm_events := [Transient, Transient, Transient, Transient]\<rparr>) =
     (Inl Unavailable, [1, 2, 4],
      race_state\<lparr>cm_events := [Transient, Transient, Transient, Transient], cm_events := []\<rparr>)"
  using ensure_collections_exhausts [of "race_state\<lparr>cm_events := [Transient, Transient, Transient, Transient]\<rparr>" "[]"]
  by simp

end
