(* ===== verification/Responses.thy ===== *)
theory Responses
  imports Collections Annotations
begin

text \<open>
  \<open>AIResponseGenerator\<close> (\<open>usecase/message/ai_response_generator.py\<close>): the choice of
  the language model from \<open>AppConfig\<close> and the choice between the memory-only and
  the hybrid answer, with the highlight search the hybrid answer runs first. The
  langchain chains, the book-content retriever and the streamed tokens are external
  model I/O; the plan records which chain is run on which inputs.
\<close>

datatype llm_client = ChatOpenAI_gpt4o | ChatOllama string string | HuggingFaceChatClient

datatype response_error = OpenAIKeyRequired | HighlightFailed highlight_error

text \<open>\<open>_create_llm()\<close>: OpenAI needs a non-empty key.\<close>

definition create_llm :: "app_config \<Rightarrow> response_error + llm_client" where
  "create_llm cfg =
     (case llm_provider cfg of
        ProviderOpenAI \<Rightarrow>
          (case openai_api_key cfg of
             Some k \<Rightarrow> if k = [] then Inl OpenAIKeyRequired else Inr ChatOpenAI_gpt4o
           | None \<Rightarrow> Inl OpenAIKeyRequired)
      | ProviderOllama \<Rightarrow> Inr (ChatOllama (ollama_base_url cfg) (ollama_model cfg))
      | ProviderHuggingFace \<Rightarrow> Inr HuggingFaceChatClient)"

datatype response_plan =
    MemoryBased string
  | Hybrid string tenant book_id "string list"

text \<open>\<open>stream_ai_response(question, user_id, book_id)\<close>: without a book the
  memory-based chain; with one, the highlights are searched (limit 3) and the hybrid
  chain gets them with the question. An error of the search propagates.\<close>

definition stream_ai_response ::
  "('v \<Rightarrow> 'v \<Rightarrow> real) \<Rightarrow> (string \<Rightarrow> 'v option) \<Rightarrow> app_config \<Rightarrow> string \<Rightarrow> tenant \<Rightarrow> book_id option \<Rightarrow>
   'v store \<Rightarrow> (response_error + llm_client \<times> response_plan) \<times> 'v store" where
  "stream_ai_response metric embed_fn cfg question user_id bid s =
     (case create_llm cfg of
        Inl e \<Rightarrow> (Inl e, s)
      | Inr model \<Rightarrow>
          (case bid of
             None \<Rightarrow> (Inr (model, MemoryBased question), s)
           | Some b \<Rightarrow>
               (case search_relevant_highlights metric embed_fn question user_id b 3 s of
                  (Inl he, s1) \<Rightarrow> (Inl (HighlightFailed he), s1)
                | (Inr hs, s1) \<Rightarrow> (Inr (model, Hybrid question user_id b hs), s1))))"

text \<open>\<open>_format_documents_as_string(documents)\<close>.\<close>

definition format_documents_as_string :: "string list \<Rightarrow> string" where
  "format_documents_as_string docs = join ''\<newline>\<newline>'' docs"

section \<open>Properties\<close>

lemma create_llm_default: "create_llm (default_config db) = Inr (ChatOllama ''http://localhost:11434'' ''llama3.2'')"
  by (simp add: create_llm_def default_config_def)

lemma stream_ai_response_no_book:
  "create_llm cfg = Inr m \<Longrightarrow> stream_ai_response metric embed_fn cfg q u None s = (Inr (m, MemoryBased q), s)"
  by (simp add: stream_ai_response_def)

end
