(* ===== verification/Spec2Isabelle.thy ===== *)
theory Spec2Isabelle
  imports Messages BookCreate Chats Responses
begin

text \<open>
  A verification development for the memory and retrieval engine of bookwith
  (\<open>src/apps/api/src\<close>): a multi-tenant vector memory over three Weaviate
  collections, the summarization of chat history, the assembly of a bounded prompt,
  and the message use case that drives them. Every definition translates the code
  it is mapped to; collaborators outside the repository (Weaviate, the embedding and
  language models, the clock, uuid4, the relational database) are parameters or an
  explicit environment.

  \<^bold>\<open>Parts and theories.\<close>
  \<^item> \<open>Prelude\<close>: type names (tenants, chat ids, timestamps in seconds), Python's
    \<open>str.join\<close> as \<open>join\<close>, shared list lemmas.
  \<^item> \<open>Retry\<close>: \<open>retry_on_error\<close> of \<open>infrastructure/memory/retry_decorator.py\<close> as the
    terminating function \<open>retry_loop\<close> (measure \<open>max_retries + 1 - retries\<close>) over a
    stateful operation; the sleeps are returned as a list. Lemmas: behaviour on an
    operation failing \<open>n\<close> times, the bound on sleeps, and \<open>retry_loop_succeeds\<close>:
    success whenever each failure consumes one of at most \<open>max_retries\<close> faults.
    The \<open>while True\<close> loop itself is \<open>retry_while\<close>, a \<open>while_option\<close> over the
    wrapper's locals \<open>(retries, delay, sleeps, state, out)\<close> with body \<open>retry_step\<close>;
    it is proved to exit for every operation (\<open>measure_while_option_Some\<close>) and to
    compute exactly \<open>retry_on_error\<close>.
  \<^item> \<open>Store\<close>: the part of the Weaviate client the code calls, modelled from its
    documented behaviour: collections with their schema, per-tenant object lists in
    insertion order, exact-match filters (a missing property never matches), sorted
    \<open>fetch_objects\<close>, \<open>near_vector\<close> ranked by distance, merging \<open>update\<close>,
    \<open>delete_many\<close>. Invariant \<open>wf_store\<close>: uuids distinct and fresh.
  \<^item> \<open>ChatMemory\<close>: \<open>ChatMemoryStore\<close> (\<open>chat_memory_store.py\<close>) and the constants of
    \<open>BaseVectorStore\<close>: \<open>add_memory\<close>, \<open>mark_messages_as_summarized\<close> (with its
    per-record update loop \<open>update_each\<close>), \<open>search_chat_memories\<close>,
    \<open>get_unsummarized_messages\<close>.
  \<^item> \<open>Summarization\<close>: \<open>SummarizationService\<close> (\<open>summarization_service.py\<close>):
    \<open>summarize_chat\<close> and the whole body \<open>summarize_and_vectorize\<close> with every early
    return and every failure of the language model, the embedder and the three store
    calls (\<open>sum_env\<close>; \<open>mark_fault = Some k\<close> lets \<open>k\<close> updates through before the
    marking raises). Lemmas: the trigger, the effect of a successful pass, no data
    loss (\<open>grows\<close>), the at-least-once invariant \<open>summary_backed\<close>, failure paths.
  \<^item> \<open>Domain\<close>: the \<open>Message\<close> entity and its exceptions (\<open>domain/message\<close>).
  \<^item> \<open>Prompt\<close>: \<open>MemoryRetrievalService\<close> and \<open>PromptBuilderService\<close>: retrieval,
    memory formatting, the token estimate (tiktoken when loaded, else \<open>len // 4\<close>),
    even truncation of the middle blocks under the budget 8192.
  \<^item> \<open>MessageFlow\<close>: \<open>CreateMessageUseCaseImpl.execute\<close>, \<open>MessageProcessor\<close>, the
    message table of \<open>MessageRepositoryImpl\<close> as a list of rows, and
    \<open>VectorizationService.vectorize_message\<close>; \<open>run_chat\<close> is a conversation, a
    sequence of requests. Lemmas: parity of the counts, the is-summarized backlog,
    tenant isolation (\<open>only_tenant\<close>), the recent buffer.
  \<^item> \<open>Collections\<close>: \<open>CollectionManager\<close> with the three fixed schemas, the provider
    choice of \<open>BaseVectorStore.__init__\<close> and \<open>AppConfig\<close>. Concurrency at start-up
    is a schedule of events, one before each remote call: quiet, a transient fault,
    or another process creating a collection.
  \<^item> \<open>Annotations\<close>: the \<open>Annotation\<close> and \<open>Book\<close> entities with the value
    objects the annotation factory calls, \<open>BookAnnotationStore\<close>, the annotation methods
    of \<open>VectorizationService\<close>, \<open>HighlightSearcher\<close> and the \<open>MemoryVectorStore\<close>
    delegations. Operations that may fail after a write return the outcome with the
    store left behind. Lemmas: unknown ids and repeated deletes change nothing,
    re-adding a book's highlights duplicates them, a note-less highlight embeds the
    text \<open>None\<close>, searches are bounded, of the book and ranked.
  \<^item> \<open>Messages\<close>: the remaining queries and soft deletions of
    \<open>MessageRepositoryImpl\<close> and the delete and find message use cases. Lemmas: a
    deleted message is no longer found, deletion lowers its chat's live count by one,
    \<open>execute_bulk\<close> reports every requested id, and a deletion breaks the parity
    \<open>run_chat_never_summarizes\<close> relies on.
  \<^item> \<open>Citations\<close>: \<open>CitationParser\<close> over code-point strings, with its three regular
    expressions as matchers and \<open>re.finditer\<close> as terminating scans
    (\<open>find_references\<close>, \<open>find_highlights\<close>: each match consumes input) and
    \<open>str.replace\<close> as \<open>str_replace\<close>. Lemmas: sequential replacement equals one-pass
    substitution for superscript markers, a rendered reference line parses back, and
    prefix markers such as the star markers 1 and 10 break the links.
  \<^item> \<open>Books\<close>: \<open>DeleteBookUseCaseImpl\<close>, \<open>BulkDeleteBooksUseCaseImpl\<close>, the book
    lookup and the annotation sync over a book table, a bucket of blob keys and the
    vector store. Lemmas: a deletion marks the
    book, removes its file and its annotation vectors; the blob key round trip.
  \<^item> \<open>BookMetadata\<close>: the \<open>BookMetadata\<close> value object with \<open>to_dict\<close>,
    \<open>from_dict\<close> (proved to invert \<open>to_dict\<close>) and \<open>from_json_string\<close>, and the JSON
    documents \<open>json.loads\<close> returns, shared with the book creation.
  \<^item> \<open>BookCreate\<close>: \<open>CreateBookUseCaseImpl.execute\<close> (\<open>create_book_usecase.py\<close>) with
    its rollback: the decoders, uploads and \<open>save\<close> may each fail (\<open>create_env\<close>), the
    cover's failures are swallowed, \<open>BookTitle\<close> and a non-object metadata document
    raise after the upload. Lemmas: a failed creation leaves bucket and table unchanged
    (given unused blob names), and deleting a created book removes exactly the blobs
    its creation uploaded.
  \<^item> \<open>Chats\<close>: the \<open>Chat\<close> entity, the chat use cases and
    \<open>ChatManager.ensure_chat_exists\<close>, which is idempotent. The table refines a
    finite map (\<open>chat_map\<close>): each use case is the map operation of its \<open>_spec\<close>
    counterpart, and every use case keeps the chat ids distinct.
  \<^item> \<open>Responses\<close>: \<open>AIResponseGenerator\<close>'s model choice and its memory-only or
    hybrid plan with the highlight search.
  \<^item> This theory: the properties that span components.

  \<^bold>\<open>How they interact.\<close> A request saves and vectorizes the question
  (\<open>MessageFlow\<close>, into \<open>ChatMemory\<close>), hands the chat's message count to
  \<open>summarize_chat\<close> (\<open>Summarization\<close>), reads the five newest messages, retrieves
  related memories and builds the prompt (\<open>Prompt\<close>), then saves and vectorizes the
  answer. All store calls go through \<open>Store\<close>; \<open>Collections\<close> creates its collections.
  Before saving, \<open>ensure_chat_exists\<close> (\<open>Chats\<close>) creates the chat; the answer is
  generated from a plan of \<open>Responses\<close>, whose hybrid branch runs the highlight
  search of \<open>Annotations\<close>. Deleting a message (\<open>Messages\<close>) changes the count the next
  request hands to summarization; deleting a book (\<open>Books\<close>) removes its vectors
  through \<open>Annotations\<close> and the blobs that creating it (\<open>BookCreate\<close>) uploaded.

  \<^bold>\<open>Bounds and fuel.\<close> No fuel is used: every loop is structural recursion,
  \<open>retry_loop\<close> with its measure, or \<open>retry_while\<close>, whose \<open>while_option\<close> is proved
  to return \<open>Some\<close>. The retry budgets are the decorators' own (3 for
  collection creation and chat-memory writes, 2 for marking and search). The token
  budget is \<open>MAX_TOKENS = 8192\<close>; the prompt bound holds for questions of at most
  32000 characters, enough for the system prompt and suffix to leave two tokens per
  middle block.

  \<^bold>\<open>Not modelled.\<close> The HTTP handlers, schemas and converters (transport); the
  Gemini, Hugging Face and podcast clients, the langchain chains and the answer
  streaming (external model I/O); the book indexing use case
  (\<open>create_book_vector_index_usecase.py\<close>), whose work is done by
  \<open>BookContentStore\<close>, not under \<open>src/\<close>; the \<open>definitions\<close> and \<open>configuration\<close>
  fields of \<open>Book\<close>, which no use case reads; EPUB
  ingestion into BookContent (\<open>BookContentStore\<close> and \<open>VectorCrudService\<close> are not
  under \<open>src/\<close>; the operations of the latter follow spec section 4.3); the retry
  decorators of \<open>BookAnnotationStore\<close> (each store failure of the model is
  deterministic, so a retry repeats it); database failures of the repositories;
  process-wide singletons (the client and embedding model are explicit parameters).
  Interfaces with no implementation under \<open>src/\<close> (\<open>BookRepository\<close>,
  \<open>ChatRepository\<close>, \<open>GCSClient\<close>, \<open>MemoryService\<close>) are modelled as the simplest
  table or set that satisfies their documented contract.
\<close>

section \<open>Records written to the chat memory conform to its schema\<close>

lemma schema_chat_memory:
  "schema_type chat_memory_config =
     [''chat_id'' \<mapsto> DT_TEXT, ''content'' \<mapsto> DT_TEXT, ''created_at'' \<mapsto> DT_DATE,
      ''is_summarized'' \<mapsto> DT_BOOL, ''memory_type'' \<mapsto> DT_TEXT, ''message_id'' \<mapsto> DT_TEXT,
      ''sender'' \<mapsto> DT_TEXT, ''user_id'' \<mapsto> DT_TEXT]"
  by (rule ext) (simp add: schema_type_def chat_memory_config_def Property_def)

text \<open>Claim C9: every property the engine writes to ChatMemory (a vectorized message,
  a summary, the summarized flag) is declared by the schema \<open>CollectionManager\<close> creates,
  with the type of the value written.\<close>

theorem chat_memory_writes_conform:
  "(map_option pval_type \<circ> vectorize_metadata m) \<subseteq>\<^sub>m schema_type chat_memory_config \<and>
   (map_option pval_type \<circ> summary_metadata summary chat u ts tstr) \<subseteq>\<^sub>m schema_type chat_memory_config \<and>
   (map_option pval_type \<circ> summarized_flag) \<subseteq>\<^sub>m schema_type chat_memory_config"
  by (simp add: schema_chat_memory map_le_def vectorize_metadata_def summary_metadata_def
                summarized_flag_def collection_names)

end
